(* ===== verification/PM_Prelude.thy ===== *)
theory PM_Prelude
  imports Complex_Main "HOL-Library.Word" "HOL-Library.Signed_Division"
begin

text \<open>
  Shared vocabulary of the predictive-maintenance development: the machine types of
  \<^verbatim>\<open>src/main.cpp\<close> (a 32-bit \<^verbatim>\<open>int\<close>, \<^verbatim>\<open>int16_t\<close>, \<^verbatim>\<open>float\<close>), the C
  operations the program applies to them (\<^verbatim>\<open>abs\<close>, \<^verbatim>\<open>%\<close>, array subscripts, the
  narrowing cast, the conversion of an \<^verbatim>\<open>int\<close> to \<^verbatim>\<open>float\<close>), the faults that stand
  for undefined behaviour, and the fact collections the component theories unfold.

  A C \<^verbatim>\<open>int\<close> is a \<open>32 word\<close> read through \<open>sint\<close>; arithmetic wraps around, and the
  lemmas below say when it does not. A \<^verbatim>\<open>float\<close> is a \<open>real\<close>: rounding to binary32
  is not modelled, and \<open>float_exact\<close> records which integers convert without rounding.
\<close>

section \<open>Fact collections\<close>

named_theorems c_ops \<open>definitions of the C operations, for evaluation of ground terms\<close>
named_theorems panel_defs \<open>definitions of the warning-panel operations\<close>
named_theorems sensor_defs \<open>definitions of the sensor classes and devices\<close>
named_theorems ctx_defs \<open>definitions of the inference context operations\<close>
named_theorems acq_defs \<open>definitions of the acquisition cycle\<close>

section \<open>Machine types\<close>

type_synonym c_int = "32 word"
type_synonym int16_t = "16 word"
type_synonym uint8_t = "8 word"
type_synonym c_float = real

section \<open>Faults\<close>

text \<open>
  Every way in which the program can leave defined behaviour is a value: an array
  subscript outside the array (with the subscript and the array's length), a read
  through a pointer whose target's lifetime has ended (with the address), the
  remainder of a division by zero or of the least \<^verbatim>\<open>int\<close> by \<open>-1\<close>, and a tensor looked
  up under a name the context does not hold.
\<close>

datatype fault =
    IndexOutOfRange c_int nat
  | DanglingPointer nat
  | DivisionByZero
  | SignedOverflow
  | NoSuchTensor string
  | BadTensor string

type_synonym 'a result = "fault + 'a"

definition rbind :: "'a result \<Rightarrow> ('a \<Rightarrow> 'b result) \<Rightarrow> 'b result" where
  "rbind m f = (case m of Inl e \<Rightarrow> Inl e | Inr x \<Rightarrow> f x)"

definition is_ok :: "'a result \<Rightarrow> bool" where
  "is_ok m = (case m of Inl e \<Rightarrow> False | Inr x \<Rightarrow> True)"

section \<open>C operations\<close>

definition c_abs :: "c_int \<Rightarrow> c_int" where
  [c_ops]: "c_abs x = (if sint x < 0 then - x else x)"

definition c_rem :: "c_int \<Rightarrow> c_int \<Rightarrow> c_int result" where
  [c_ops]: "c_rem a b =
     (if b = 0 then Inl DivisionByZero
      else if sint a = - (2 ^ 31) \<and> sint b = - 1 then Inl SignedOverflow
      else Inr (word_of_int (sint a smod sint b)))"

definition c_index :: "'a list \<Rightarrow> c_int \<Rightarrow> 'a result" where
  [c_ops]: "c_index xs i =
     (if 0 \<le> sint i \<and> nat (sint i) < length xs then Inr (xs ! nat (sint i))
      else Inl (IndexOutOfRange i (length xs)))"

definition to_int16 :: "c_int \<Rightarrow> int16_t" where
  [c_ops]: "to_int16 x = word_of_int (sint x)"

definition int_to_float :: "c_int \<Rightarrow> c_float" where
  [c_ops]: "int_to_float x = real_of_int (sint x)"

definition float_exact :: "int \<Rightarrow> bool" where
  [c_ops]: "float_exact k = (\<bar>k\<bar> \<le> 2 ^ 24)"

section \<open>Results\<close>

lemma rbind_Inl [simp]: "rbind (Inl e) f = Inl e"
  by (simp add: rbind_def)

lemma rbind_Inr [simp]: "rbind (Inr x) f = f x"
  by (simp add: rbind_def)

lemma rbind_eq_Inr_iff: "rbind m f = Inr y \<longleftrightarrow> (\<exists>x. m = Inr x \<and> f x = Inr y)"
  by (cases m) simp_all

lemma rbind_eq_Inl_iff:
  "rbind m f = Inl e \<longleftrightarrow> m = Inl e \<or> (\<exists>x. m = Inr x \<and> f x = Inl e)"
  by (cases m) simp_all

lemma map_sum_rbind: "map_sum id g (rbind m f) = rbind m (\<lambda>x. map_sum id g (f x))"
  by (cases m) simp_all

lemma rbind_map_sum: "rbind (map_sum id g m) f = rbind m (\<lambda>x. f (g x))"
  by (cases m) simp_all

lemma rbind_assoc: "rbind (rbind m f) g = rbind m (\<lambda>x. rbind (f x) g)"
  by (cases m) simp_all

lemma is_ok_simps [simp]: "is_ok (Inr x)" "\<not> is_ok (Inl e)"
  by (simp_all add: is_ok_def)

lemma is_ok_iff: "is_ok m \<longleftrightarrow> (\<exists>x. m = Inr x)"
  by (cases m) simp_all

lemma is_ok_rbind: "is_ok (rbind m f) \<longleftrightarrow> (\<exists>x. m = Inr x \<and> is_ok (f x))"
  by (cases m) simp_all

lemma is_ok_rbind_projr: "is_ok (rbind m f) \<longleftrightarrow> is_ok m \<and> is_ok (f (projr m))"
  by (cases m) simp_all

section \<open>Lists\<close>

lemma take2_append: "take 2 l = [a, b] \<Longrightarrow> take 2 (l @ m) = [a, b]"
  by (cases l; cases "tl l") auto

section \<open>Signed readings without wrap-around\<close>

lemma sint_c_int_range: "- (2 ^ 31) \<le> sint (x :: c_int) \<and> sint x < 2 ^ 31"
  using sint_ge [of x] sint_lt [of x] by simp

lemma sint_sub_no_wrap:
  "- (2 ^ 31) \<le> sint a - sint b \<Longrightarrow> sint a - sint b < 2 ^ 31 \<Longrightarrow>
   sint (a - b :: c_int) = sint a - sint b"
  by (simp add: sint_word_diff signed_take_bit_int_eq_self)

lemma sint_neg_no_wrap: "sint x \<noteq> - (2 ^ 31) \<Longrightarrow> sint (- x :: c_int) = - sint x"
  using sint_c_int_range [of x]
  by (simp add: sint_word_minus signed_take_bit_int_eq_self)

lemma sint_of_int_c_int:
  "- (2 ^ 31) \<le> k \<Longrightarrow> k < 2 ^ 31 \<Longrightarrow> sint (word_of_int k :: c_int) = k"
  by (simp add: sint_sbintrunc' signed_take_bit_int_eq_self)

lemma sint_c_abs: "sint x \<noteq> - (2 ^ 31) \<Longrightarrow> sint (c_abs x) = \<bar>sint x\<bar>"
  by (simp add: c_abs_def sint_neg_no_wrap)

lemma c_abs_int_min: "c_abs (- 2147483648) = - 2147483648"
  by (simp add: c_abs_def)

lemma sint_eq_iff: "x = y \<longleftrightarrow> sint x = sint (y :: c_int)"
  by (auto intro: signed_word_eqI)

section \<open>The narrowing cast\<close>

lemma sint_to_int16: "sint (to_int16 x) = signed_take_bit 15 (sint x)"
  unfolding to_int16_def sint_sbintrunc' by simp

lemma to_int16_faithful_iff:
  "sint (to_int16 x) = sint x \<longleftrightarrow> - (2 ^ 15) \<le> sint x \<and> sint x < 2 ^ 15"
  by (simp add: sint_to_int16 signed_take_bit_int_eq_self_iff)

section \<open>Array subscripts\<close>

lemma c_index_Inr_iff:
  "c_index xs i = Inr v \<longleftrightarrow> 0 \<le> sint i \<and> nat (sint i) < length xs \<and> v = xs ! nat (sint i)"
  by (auto simp: c_index_def)

lemma c_index_Inl_iff:
  "c_index xs i = Inl e \<longleftrightarrow>
   (sint i < 0 \<or> length xs \<le> nat (sint i)) \<and> e = IndexOutOfRange i (length xs)"
  by (auto simp: c_index_def)

lemma c_index_in_set: "c_index xs i = Inr v \<Longrightarrow> v \<in> set xs"
  by (auto simp: c_index_Inr_iff)

lemma c_index_is_ok: "is_ok (c_index xs i) \<longleftrightarrow> 0 \<le> sint i \<and> nat (sint i) < length xs"
  by (simp add: c_index_def)

section \<open>The remainder\<close>

lemma c_rem_pos:
  assumes "0 \<le> sint a" and "0 < sint b"
  shows "c_rem a b = Inr (word_of_int (sint a mod sint b))"
    and "sint (word_of_int (sint a mod sint b) :: c_int) = sint a mod sint b"
proof -
  from assms have m: "sint a smod sint b = sint a mod sint b"
    by (simp add: smod_int_alt_def sgn_if)
  from assms have "b \<noteq> 0" and "sint b \<noteq> - 1" by auto
  then show "c_rem a b = Inr (word_of_int (sint a mod sint b))"
    by (simp add: c_rem_def m)
  from assms have "0 \<le> sint a mod sint b" and "sint a mod sint b < sint b"
    by simp_all
  with sint_c_int_range [of b]
  show "sint (word_of_int (sint a mod sint b) :: c_int) = sint a mod sint b"
    by (intro sint_of_int_c_int) linarith+
qed

lemma c_rem_undefined:
  "c_rem a 0 = Inl DivisionByZero" "c_rem (- 2147483648) (- 1) = Inl SignedOverflow"
  by (simp_all add: c_rem_def)

lemma c_rem_nonneg:
  assumes "0 \<le> sint a" and "0 < sint b"
  shows "c_rem a b = Inr r \<Longrightarrow> 0 \<le> sint r \<and> sint r < sint b"
  using c_rem_pos [OF assms] assms by auto

section \<open>Conversion to float\<close>

lemma signed_real_eq_iff: "(signed a :: real) = signed b \<longleftrightarrow> sint a = sint b"
  using of_int_eq_iff [where 'a = real, of "sint a" "sint b"] by simp

lemma float_exact_int16: "- (2 ^ 15) \<le> k \<Longrightarrow> k < 2 ^ 15 \<Longrightarrow> float_exact k"
  by (simp add: float_exact_def abs_le_iff)

end
