(* ===== verification/Zones.thy ===== *)
theory Zones
  imports PM_Prelude
begin

text \<open>
  The time-to-failure zones of \<^verbatim>\<open>src/main.cpp\<close>: the enumeration \<^verbatim>\<open>ZONES\<close> with the
  integer value C++ gives each enumerator, the two network dimensions, and the table
  of display strings \<^verbatim>\<open>time_zone_labels\<close> that the program subscripts with a label.
  The table is declared in \<^verbatim>\<open>SampleData.h\<close>, which the repository does not carry
  under \<^verbatim>\<open>src/\<close>; its six entries follow the specification.

  The lemmas relate labels (any \<^verbatim>\<open>int\<close> the network may return) to zones: the
  enumerator values are the labels 0 to 5, \<open>zone_of_label\<close> inverts \<open>zone_code\<close>, and
  a subscript into the table is defined exactly for these labels.
\<close>

section \<open>The enumeration and the dimensions\<close>

datatype ZONES = FAULT | LT_15 | LT_30 | LT_60 | LT_90 | NORMAL

primrec zone_code :: "ZONES \<Rightarrow> c_int" where
  "zone_code FAULT = 0"
| "zone_code LT_15 = 1"
| "zone_code LT_30 = 2"
| "zone_code LT_60 = 3"
| "zone_code LT_90 = 4"
| "zone_code NORMAL = 5"

definition time_prediction_zones :: c_int where
  "time_prediction_zones = 6"

definition sensor_features :: nat where
  "sensor_features = 6"

definition time_zone_labels :: "string list" where
  "time_zone_labels = [''FAULT'', ''<15 MIN'', ''<30 MIN'', ''<60 MIN'', ''<90 MIN'', ''NORMAL'']"

section \<open>Labels and zones\<close>

definition zone_of_label :: "c_int \<Rightarrow> ZONES option" where
  "zone_of_label l =
     (if l = 0 then Some FAULT else if l = 1 then Some LT_15 else if l = 2 then Some LT_30
      else if l = 3 then Some LT_60 else if l = 4 then Some LT_90
      else if l = 5 then Some NORMAL else None)"

definition valid_label :: "c_int \<Rightarrow> bool" where
  "valid_label l = (0 \<le> sint l \<and> sint l < sint time_prediction_zones)"

primrec zone_label :: "ZONES \<Rightarrow> string" where
  "zone_label FAULT = ''FAULT''"
| "zone_label LT_15 = ''<15 MIN''"
| "zone_label LT_30 = ''<30 MIN''"
| "zone_label LT_60 = ''<60 MIN''"
| "zone_label LT_90 = ''<90 MIN''"
| "zone_label NORMAL = ''NORMAL''"

text \<open>
  Severity order of the zones, the order of the enumerator values: \<open>FAULT\<close> is least
  (most severe) and \<open>NORMAL\<close> greatest.
\<close>

instantiation ZONES :: linorder
begin

definition less_eq_ZONES :: "ZONES \<Rightarrow> ZONES \<Rightarrow> bool" where
  "less_eq_ZONES a b = (sint (zone_code a) \<le> sint (zone_code b))"

definition less_ZONES :: "ZONES \<Rightarrow> ZONES \<Rightarrow> bool" where
  "less_ZONES a b = (sint (zone_code a) < sint (zone_code b))"

instance
proof
  fix x y z :: ZONES
  show "(x < y) = (x \<le> y \<and> \<not> y \<le> x)"
    by (auto simp: less_eq_ZONES_def less_ZONES_def)
  show "x \<le> x"
    by (simp add: less_eq_ZONES_def)
  show "x \<le> y \<Longrightarrow> y \<le> z \<Longrightarrow> x \<le> z"
    by (simp add: less_eq_ZONES_def)
  show "x \<le> y \<Longrightarrow> y \<le> x \<Longrightarrow> x = y"
    by (cases x; cases y) (simp_all add: less_eq_ZONES_def)
  show "x \<le> y \<or> y \<le> x"
    by (auto simp: less_eq_ZONES_def)
qed

end

section \<open>Enumerator values\<close>

lemma sint_zone_code:
  "sint (zone_code z) =
     (case z of FAULT \<Rightarrow> 0 | LT_15 \<Rightarrow> 1 | LT_30 \<Rightarrow> 2 | LT_60 \<Rightarrow> 3 | LT_90 \<Rightarrow> 4 | NORMAL \<Rightarrow> 5)"
  by (cases z) simp_all

lemma zone_code_range: "0 \<le> sint (zone_code z) \<and> sint (zone_code z) \<le> 5"
  by (cases z) simp_all

lemma zone_code_inject [simp]: "zone_code a = zone_code b \<longleftrightarrow> a = b"
  by (cases a; cases b) simp_all

lemma zone_code_eq_numeral [simp]:
  "zone_code z = 0 \<longleftrightarrow> z = FAULT" "zone_code z = 1 \<longleftrightarrow> z = LT_15"
  "zone_code z = 2 \<longleftrightarrow> z = LT_30" "zone_code z = 3 \<longleftrightarrow> z = LT_60"
  "zone_code z = 4 \<longleftrightarrow> z = LT_90" "zone_code z = 5 \<longleftrightarrow> z = NORMAL"
  by (cases z; simp)+

lemma sint_eq_small:
  "sint (l :: c_int) = 0 \<longleftrightarrow> l = 0" "sint l = 1 \<longleftrightarrow> l = 1" "sint l = 2 \<longleftrightarrow> l = 2"
  "sint l = 3 \<longleftrightarrow> l = 3" "sint l = 4 \<longleftrightarrow> l = 4" "sint l = 5 \<longleftrightarrow> l = 5"
  using sint_eq_iff [of l 0] sint_eq_iff [of l 1] sint_eq_iff [of l 2]
    sint_eq_iff [of l 3] sint_eq_iff [of l 4] sint_eq_iff [of l 5]
  by simp_all

lemma label_in_1_2: "0 < sint (l :: c_int) \<and> sint l \<le> 2 \<longleftrightarrow> l = 1 \<or> l = 2"
proof -
  have "0 < sint l \<and> sint l \<le> 2 \<longleftrightarrow> sint l = 1 \<or> sint l = 2" by arith
  then show ?thesis by (simp only: sint_eq_small)
qed

lemma label_in_3_4: "2 < sint (l :: c_int) \<and> sint l \<le> 4 \<longleftrightarrow> l = 3 \<or> l = 4"
proof -
  have "2 < sint l \<and> sint l \<le> 4 \<longleftrightarrow> sint l = 3 \<or> sint l = 4" by arith
  then show ?thesis by (simp only: sint_eq_small)
qed

lemma valid_label_zone_code [simp]: "valid_label (zone_code z)"
  by (cases z) (simp_all add: valid_label_def time_prediction_zones_def)

lemma valid_label_cases:
  "valid_label l \<longleftrightarrow> l = 0 \<or> l = 1 \<or> l = 2 \<or> l = 3 \<or> l = 4 \<or> l = 5"
proof -
  have "valid_label l \<longleftrightarrow>
      sint l = 0 \<or> sint l = 1 \<or> sint l = 2 \<or> sint l = 3 \<or> sint l = 4 \<or> sint l = 5"
    unfolding valid_label_def time_prediction_zones_def by simp arith
  then show ?thesis by (simp only: sint_eq_small)
qed

section \<open>Round trip between labels and zones\<close>

lemma zone_of_label_zone_code [simp]: "zone_of_label (zone_code z) = Some z"
  by (cases z) (simp_all add: zone_of_label_def)

lemma zone_of_label_Some_iff: "zone_of_label l = Some z \<longleftrightarrow> l = zone_code z"
  by (cases z) (auto simp: zone_of_label_def split: if_splits)

lemma zone_of_label_None_iff: "zone_of_label l = None \<longleftrightarrow> \<not> valid_label l"
  by (auto simp: zone_of_label_def valid_label_cases)

lemma valid_label_iff_zone: "valid_label l \<longleftrightarrow> (\<exists>z. l = zone_code z)"
  using zone_of_label_None_iff [of l] zone_of_label_Some_iff [of l]
  by (cases "zone_of_label l") auto

section \<open>The table of display strings\<close>

lemma length_time_zone_labels [simp]: "length time_zone_labels = 6"
  by (simp add: time_zone_labels_def)

lemma distinct_time_zone_labels: "distinct time_zone_labels"
  by (simp add: time_zone_labels_def)

lemma c_index_labels_zone [simp]:
  "c_index time_zone_labels (zone_code z) = Inr (zone_label z)"
  by (cases z) (simp_all add: c_index_def time_zone_labels_def)

lemma c_index_labels_invalid:
  "\<not> valid_label l \<Longrightarrow> c_index time_zone_labels l = Inl (IndexOutOfRange l 6)"
  by (auto simp: c_index_def valid_label_def time_prediction_zones_def)

lemma c_index_labels_ok_iff: "is_ok (c_index time_zone_labels l) \<longleftrightarrow> valid_label l"
  by (auto simp: c_index_is_ok valid_label_def time_prediction_zones_def)

lemma zone_label_inject [simp]: "zone_label a = zone_label b \<longleftrightarrow> a = b"
  by (cases a; cases b) simp_all

end
