(* ===== verification/Warning_Panel.thy ===== *)
theory Warning_Panel
  imports Zones
begin

text \<open>
  The warning panel of \<^verbatim>\<open>src/main.cpp\<close>: the two LEDs, the flag that asks the blinker
  thread to toggle the red LED, the LCD and the serial console, with the functions
  \<^verbatim>\<open>Warning_UI\<close> and \<^verbatim>\<open>Initialise_Warning_Panel\<close> that write to them.

  The state is the record \<open>panel\<close>; the operations are stated over its scheme, so
  that they apply unchanged to the records that extend it with the sensors and the
  threads. A \<^verbatim>\<open>DigitalOut\<close> is the level of its pin, a
  \<open>bool\<close>. The LCD and the console are the sequences of calls made to them, oldest
  first, since the program only ever calls the drivers; \<open>lcd_text\<close> replays the
  LCD calls to what the glass shows: \<^verbatim>\<open>Clear\<close> blanks it, \<^verbatim>\<open>DisplayString\<close> overwrites it
  from the first position and leaves what was beyond the string, and after
  \<^verbatim>\<open>ScrollSentence\<close> the content is not known (\<open>None\<close>) until the next \<^verbatim>\<open>Clear\<close>. Each \<^verbatim>\<open>printf\<close> is one \<open>log_msg\<close>, a constructor per
  format string with the formatted arguments.

  \<open>Warning_UI\<close> is modelled twice: as a state transformer that follows the function
  statement by statement, and as the list of device writes it performs
  (\<open>Warning_UI_ops\<close>), which the scheduler interleaves with the blinker. The two are
  proved equal (\<open>Warning_UI_ops_run\<close>); the writes are listed in the order of the
  statements, on which the scheduler's theorems about the races depend. The abstract indicator states and the label table of the
  specification are \<open>indicator\<close> and \<open>spec_indicator\<close>; \<open>indicator_of\<close> is the
  abstraction function from LED levels.
\<close>

section \<open>State\<close>

datatype lcd_call = LCD_Clear | LCD_DisplayString string | LCD_ScrollSentence string nat nat

datatype log_msg =
    BannerLine nat
  | InitialisingUI
  | PanelTitle
  | TestDataMode
  | RealDataMode
  | InitialisingTemperature
  | InitialisingVibration
  | TestADXL345
  | DeviceId uint8_t
  | CycleSeparator
  | SampleIndex c_int
  | FeatureValue c_float
  | SensorReadings int16_t int16_t int16_t c_float
  | ActualPredicted string string
  | CorrectPrediction
  | FairPrediction
  | ZoneError c_int
  | FalseAlarm
  | PredictedTTF string

record panel =
  led_GREEN :: bool
  led_RED :: bool
  BLINK_WARNING_LED :: bool
  lcd :: "lcd_call list"
  console :: "log_msg list"

definition panel_init :: panel where
  "panel_init = \<lparr>led_GREEN = False, led_RED = False, BLINK_WARNING_LED = False,
     lcd = [], console = []\<rparr>"

definition leds :: "'a panel_scheme \<Rightarrow> bool \<times> bool \<times> bool" where
  "leds p = (led_GREEN p, led_RED p, BLINK_WARNING_LED p)"

section \<open>Device calls\<close>

definition printf :: "log_msg \<Rightarrow> 'a panel_scheme \<Rightarrow> 'a panel_scheme" where
  [panel_defs]: "printf m p = p\<lparr>console := console p @ [m]\<rparr>"

definition lcd_do :: "lcd_call \<Rightarrow> 'a panel_scheme \<Rightarrow> 'a panel_scheme" where
  [panel_defs]: "lcd_do c p = p\<lparr>lcd := lcd p @ [c]\<rparr>"

primrec lcd_show :: "lcd_call \<Rightarrow> string option \<Rightarrow> string option" where
  "lcd_show LCD_Clear d = Some []"
| "lcd_show (LCD_DisplayString s) d = map_option (\<lambda>old. s @ drop (length s) old) d"
| "lcd_show (LCD_ScrollSentence s n v) d = None"

definition lcd_text :: "lcd_call list \<Rightarrow> string option" where
  "lcd_text cs = fold lcd_show cs (Some [])"

section \<open>The LED part of Warning_UI\<close>

definition glow_normal :: "c_int \<Rightarrow> 'a panel_scheme \<Rightarrow> 'a panel_scheme" where
  [panel_defs]: "glow_normal pred_label p =
     (if pred_label = zone_code NORMAL
      then p\<lparr>led_GREEN := True, led_RED := False, BLINK_WARNING_LED := False\<rparr>
      else p)"

definition glow_imminent :: "c_int \<Rightarrow> 'a panel_scheme \<Rightarrow> 'a panel_scheme" where
  [panel_defs]: "glow_imminent pred_label p =
     (if sint (zone_code FAULT) < sint pred_label \<and> sint pred_label \<le> sint (zone_code LT_30)
      then p\<lparr>led_GREEN := False, led_RED := True, BLINK_WARNING_LED := False\<rparr>
      else p)"

definition glow_warn :: "c_int \<Rightarrow> 'a panel_scheme \<Rightarrow> 'a panel_scheme" where
  [panel_defs]: "glow_warn pred_label p =
     (if sint (zone_code LT_30) < sint pred_label \<and> sint pred_label \<le> sint (zone_code LT_90)
      then p\<lparr>led_GREEN := True, led_RED := True, BLINK_WARNING_LED := True\<rparr>
      else p)"

definition glow_LEDs :: "c_int \<Rightarrow> 'a panel_scheme \<Rightarrow> 'a panel_scheme" where
  "glow_LEDs pred_label p = glow_warn pred_label (glow_imminent pred_label (glow_normal pred_label p))"

section \<open>The diagnostic part of Warning_UI\<close>

definition zone_report :: "c_int \<Rightarrow> c_int \<Rightarrow> c_int \<Rightarrow> log_msg list" where
  [panel_defs]: "zone_report zone_error actual_data_label pred_label =
     (if zone_error = 0 then [CorrectPrediction]
      else if zone_error = 1 then [FairPrediction]
      else (if 1 < sint zone_error then [ZoneError zone_error] else []) @
           (if actual_data_label = zone_code NORMAL \<and> pred_label \<noteq> zone_code NORMAL
            then [FalseAlarm] else []))"

definition report_prediction :: "bool \<Rightarrow> c_int \<Rightarrow> c_int \<Rightarrow> log_msg list result" where
  "report_prediction simulated pred_label actual_data_label =
     (if simulated then
        (let zone_error = c_abs (actual_data_label - pred_label) in
         rbind (c_index time_zone_labels actual_data_label) (\<lambda>a.
         rbind (c_index time_zone_labels pred_label) (\<lambda>b.
           Inr (ActualPredicted a b # zone_report zone_error actual_data_label pred_label))))
      else rbind (c_index time_zone_labels pred_label) (\<lambda>b. Inr [PredictedTTF b]))"

section \<open>The display part of Warning_UI\<close>

definition display_zone :: "c_int \<Rightarrow> 'a panel_scheme \<Rightarrow> 'a panel_scheme result" where
  "display_zone pred_label p =
     rbind (c_index time_zone_labels pred_label) (\<lambda>s.
       Inr (lcd_do (LCD_DisplayString s) (lcd_do LCD_Clear p)))"

section \<open>Warning_UI and Initialise_Warning_Panel\<close>

definition Warning_UI ::
  "bool \<Rightarrow> c_int \<Rightarrow> c_int \<Rightarrow> 'a panel_scheme \<Rightarrow> 'a panel_scheme result" where
  "Warning_UI simulated pred_label actual_data_label p =
     rbind (report_prediction simulated pred_label actual_data_label) (\<lambda>msgs.
       display_zone pred_label (fold printf msgs (glow_LEDs pred_label p)))"

definition title1 :: string where
  "title1 = '' - PREDICTIVE MAINTENANCE-Test''"

definition title2 :: string where
  "title2 = '' - PREDICTIVE MAINTENANCE-Connected''"

definition Initialise_Warning_Panel :: "bool \<Rightarrow> 'a panel_scheme \<Rightarrow> 'a panel_scheme" where
  "Initialise_Warning_Panel simulated p =
     (let p1 = lcd_do LCD_Clear (printf PanelTitle (printf InitialisingUI p)) in
      if simulated then lcd_do (LCD_ScrollSentence title1 1 175) (printf TestDataMode p1)
      else lcd_do (LCD_ScrollSentence title2 1 175) (printf RealDataMode p1))"

section \<open>Warning_UI as a sequence of device writes\<close>

datatype panel_op =
    SetGreen bool
  | SetRed bool
  | SetBlink bool
  | Print log_msg
  | Lcd lcd_call

primrec apply_op :: "panel_op \<Rightarrow> 'a panel_scheme \<Rightarrow> 'a panel_scheme" where
  "apply_op (SetGreen b) p = p\<lparr>led_GREEN := b\<rparr>"
| "apply_op (SetRed b) p = p\<lparr>led_RED := b\<rparr>"
| "apply_op (SetBlink b) p = p\<lparr>BLINK_WARNING_LED := b\<rparr>"
| "apply_op (Print m) p = printf m p"
| "apply_op (Lcd c) p = lcd_do c p"

definition run_ops :: "panel_op list \<Rightarrow> 'a panel_scheme \<Rightarrow> 'a panel_scheme" where
  "run_ops ops p = fold apply_op ops p"

definition glow_ops :: "c_int \<Rightarrow> panel_op list" where
  "glow_ops pred_label =
     (if pred_label = zone_code NORMAL then [SetGreen True, SetRed False, SetBlink False] else []) @
     (if sint (zone_code FAULT) < sint pred_label \<and> sint pred_label \<le> sint (zone_code LT_30)
      then [SetGreen False, SetRed True, SetBlink False] else []) @
     (if sint (zone_code LT_30) < sint pred_label \<and> sint pred_label \<le> sint (zone_code LT_90)
      then [SetGreen True, SetRed True, SetBlink True] else [])"

definition Warning_UI_ops :: "bool \<Rightarrow> c_int \<Rightarrow> c_int \<Rightarrow> panel_op list result" where
  "Warning_UI_ops simulated pred_label actual_data_label =
     rbind (report_prediction simulated pred_label actual_data_label) (\<lambda>msgs.
     rbind (c_index time_zone_labels pred_label) (\<lambda>s.
       Inr (glow_ops pred_label @ map Print msgs @ [Lcd LCD_Clear, Lcd (LCD_DisplayString s)])))"

section \<open>The indicator states of the specification\<close>

datatype indicator = SAFE | IMMINENT | WARN | UNKNOWN

definition spec_indicator :: "c_int \<Rightarrow> indicator" where
  "spec_indicator l =
     (if l = 5 then SAFE else if l = 0 \<or> l = 1 \<or> l = 2 then IMMINENT
      else if l = 3 \<or> l = 4 then WARN else UNKNOWN)"

primrec indicator_leds :: "indicator \<Rightarrow> bool \<times> bool \<times> bool" where
  "indicator_leds SAFE = (True, False, False)"
| "indicator_leds IMMINENT = (False, True, False)"
| "indicator_leds WARN = (True, True, True)"
| "indicator_leds UNKNOWN = (False, False, False)"

definition indicator_of :: "'a panel_scheme \<Rightarrow> indicator option" where
  "indicator_of p =
     (if leds p = indicator_leds SAFE then Some SAFE
      else if leds p = indicator_leds IMMINENT then Some IMMINENT
      else if leds p = indicator_leds WARN then Some WARN
      else if leds p = indicator_leds UNKNOWN then Some UNKNOWN
      else None)"

definition code_indicator :: "c_int \<Rightarrow> indicator option" where
  "code_indicator l =
     (if l = 5 then Some SAFE else if l = 1 \<or> l = 2 then Some IMMINENT
      else if l = 3 \<or> l = 4 then Some WARN else None)"

definition panel_wf :: "'a panel_scheme \<Rightarrow> bool" where
  "panel_wf p = (BLINK_WARNING_LED p \<longrightarrow> led_GREEN p)"

definition zone_gap :: "ZONES \<Rightarrow> ZONES \<Rightarrow> nat" where
  "zone_gap y z = nat \<bar>sint (zone_code y) - sint (zone_code z)\<bar>"

section \<open>Frame facts of the device calls\<close>

lemma printf_fields [simp]:
  "led_GREEN (printf m p) = led_GREEN p" "led_RED (printf m p) = led_RED p"
  "BLINK_WARNING_LED (printf m p) = BLINK_WARNING_LED p" "lcd (printf m p) = lcd p"
  "console (printf m p) = console p @ [m]"
  by (simp_all add: printf_def)

lemma lcd_do_fields [simp]:
  "led_GREEN (lcd_do c p) = led_GREEN p" "led_RED (lcd_do c p) = led_RED p"
  "BLINK_WARNING_LED (lcd_do c p) = BLINK_WARNING_LED p" "lcd (lcd_do c p) = lcd p @ [c]"
  "console (lcd_do c p) = console p"
  by (simp_all add: lcd_do_def)

lemma fold_printf_fields [simp]:
  "led_GREEN (fold printf ms p) = led_GREEN p" "led_RED (fold printf ms p) = led_RED p"
  "BLINK_WARNING_LED (fold printf ms p) = BLINK_WARNING_LED p" "lcd (fold printf ms p) = lcd p"
  "console (fold printf ms p) = console p @ ms"
  by (induction ms arbitrary: p) simp_all

lemma fold_printf_eq: "fold printf ms p = p\<lparr>console := console p @ ms\<rparr>"
  by (induction ms arbitrary: p) (simp_all add: printf_def)

lemma leds_frame [simp]:
  "leds (printf m p) = leds p" "leds (lcd_do c p) = leds p" "leds (fold printf ms p) = leds p"
  by (simp_all add: leds_def)

lemma lcd_text_snoc [simp]: "lcd_text (cs @ [c]) = lcd_show c (lcd_text cs)"
  by (simp add: lcd_text_def)

lemma lcd_text_Nil [simp]: "lcd_text [] = Some []"
  by (simp add: lcd_text_def)

lemma lcd_text_cleared [simp]: "lcd_text (cs @ [LCD_Clear, LCD_DisplayString s]) = Some s"
  by (simp add: lcd_text_def)

lemma lcd_text_overwrite:
  "lcd_text [LCD_DisplayString ''NORMAL'', LCD_DisplayString ''FAULT''] = Some ''FAULTL''"
  by (simp add: lcd_text_def)

lemma lcd_text_not_cleared:
  "lcd_text (cs @ [LCD_DisplayString s]) = Some s \<longleftrightarrow>
     (\<exists>old. lcd_text cs = Some old \<and> length old \<le> length s)"
  by (cases "lcd_text cs") auto

section \<open>The LED part\<close>

lemma glow_imminent_cases:
  "glow_imminent l p =
     (if l = 1 \<or> l = 2 then p\<lparr>led_GREEN := False, led_RED := True, BLINK_WARNING_LED := False\<rparr> else p)"
  by (simp add: glow_imminent_def label_in_1_2)

lemma glow_warn_cases:
  "glow_warn l p =
     (if l = 3 \<or> l = 4 then p\<lparr>led_GREEN := True, led_RED := True, BLINK_WARNING_LED := True\<rparr> else p)"
  by (simp add: glow_warn_def label_in_3_4)

lemma glow_LEDs_cases:
  "glow_LEDs l p =
     (if l = 5 then p\<lparr>led_GREEN := True, led_RED := False, BLINK_WARNING_LED := False\<rparr>
      else if l = 1 \<or> l = 2 then p\<lparr>led_GREEN := False, led_RED := True, BLINK_WARNING_LED := False\<rparr>
      else if l = 3 \<or> l = 4 then p\<lparr>led_GREEN := True, led_RED := True, BLINK_WARNING_LED := True\<rparr>
      else p)"
  by (auto simp: glow_LEDs_def glow_normal_def glow_imminent_cases glow_warn_cases)

lemma code_indicator_Some_iff:
  "code_indicator l = Some i \<longleftrightarrow>
     (l = 5 \<and> i = SAFE) \<or> ((l = 1 \<or> l = 2) \<and> i = IMMINENT) \<or> ((l = 3 \<or> l = 4) \<and> i = WARN)"
  by (auto simp: code_indicator_def)

lemma code_indicator_None_iff: "code_indicator l = None \<longleftrightarrow> l = 0 \<or> \<not> valid_label l"
  by (auto simp: code_indicator_def valid_label_cases)

lemma leds_glow_LEDs:
  "leds (glow_LEDs l p) = (case code_indicator l of Some i \<Rightarrow> indicator_leds i | None \<Rightarrow> leds p)"
  by (simp add: glow_LEDs_cases code_indicator_def leds_def)

lemma glow_LEDs_frame [simp]:
  "lcd (glow_LEDs l p) = lcd p" "console (glow_LEDs l p) = console p"
  by (simp_all add: glow_LEDs_cases)

lemma glow_LEDs_unhandled: "code_indicator l = None \<Longrightarrow> glow_LEDs l p = p"
  by (auto simp: glow_LEDs_cases code_indicator_def split: if_splits)

lemma glow_LEDs_idem: "glow_LEDs l (glow_LEDs l p) = glow_LEDs l p"
  by (simp add: glow_LEDs_cases)

lemma indicator_of_leds [simp]: "leds p = indicator_leds i \<Longrightarrow> indicator_of p = Some i"
  by (cases i) (simp_all add: indicator_of_def)

lemma indicator_of_Some_iff: "indicator_of p = Some i \<longleftrightarrow> leds p = indicator_leds i"
  by (cases i) (auto simp: indicator_of_def split: if_splits)

lemma code_indicator_spec: "code_indicator l = Some i \<Longrightarrow> spec_indicator l = i"
  by (auto simp: code_indicator_def spec_indicator_def split: if_splits)

section \<open>The diagnostic and display parts\<close>

lemma report_prediction_ok_iff:
  "is_ok (report_prediction sim l a) \<longleftrightarrow> valid_label l \<and> (sim \<longrightarrow> valid_label a)"
  by (auto simp: report_prediction_def Let_def is_ok_rbind_projr c_index_labels_ok_iff)

lemma report_prediction_zone:
  "report_prediction sim (zone_code z) (zone_code y) =
     Inr (if sim then ActualPredicted (zone_label y) (zone_label z) #
                zone_report (c_abs (zone_code y - zone_code z)) (zone_code y) (zone_code z)
          else [PredictedTTF (zone_label z)])"
  by (simp add: report_prediction_def)

lemma report_prediction_real:
  "report_prediction False (zone_code z) a = Inr [PredictedTTF (zone_label z)]"
  by (simp add: report_prediction_def)

lemma display_zone_zone [simp]:
  "display_zone (zone_code z) p = Inr (lcd_do (LCD_DisplayString (zone_label z)) (lcd_do LCD_Clear p))"
  by (simp add: display_zone_def)

lemma display_zone_invalid:
  "\<not> valid_label l \<Longrightarrow> display_zone l p = Inl (IndexOutOfRange l 6)"
  by (simp add: display_zone_def c_index_labels_invalid)


section \<open>Warning_UI\<close>

lemma Warning_UI_ok_iff_aux:
  "is_ok (Warning_UI sim l a p) \<longleftrightarrow> valid_label l \<and> (sim \<longrightarrow> valid_label a)"
  by (auto simp: Warning_UI_def display_zone_def is_ok_rbind_projr c_index_labels_ok_iff
      report_prediction_ok_iff)

lemma Warning_UI_zone:
  "Warning_UI sim (zone_code z) (zone_code y) p =
     Inr (lcd_do (LCD_DisplayString (zone_label z)) (lcd_do LCD_Clear
       (fold printf (projr (report_prediction sim (zone_code z) (zone_code y)))
          (glow_LEDs (zone_code z) p))))"
  by (simp add: Warning_UI_def report_prediction_zone)

lemma Warning_UI_real:
  "Warning_UI False (zone_code z) a p =
     Inr (lcd_do (LCD_DisplayString (zone_label z)) (lcd_do LCD_Clear
       (printf (PredictedTTF (zone_label z)) (glow_LEDs (zone_code z) p))))"
  by (simp add: Warning_UI_def report_prediction_real)

lemma Warning_UI_Inr_leds:
  "Warning_UI sim l a p = Inr p' \<Longrightarrow> leds p' = leds (glow_LEDs l p)"
  by (auto simp: Warning_UI_def display_zone_def rbind_eq_Inr_iff)

lemma fold_printf_more [simp]: "panel.more (fold printf ms p) = panel.more p"
  by (induction ms arbitrary: p) (simp_all add: printf_def)

lemma Warning_UI_more: "Warning_UI sim l a p = Inr p' \<Longrightarrow> panel.more p' = panel.more p"
  by (auto simp: Warning_UI_def display_zone_def rbind_eq_Inr_iff glow_LEDs_cases printf_def
      lcd_do_def)

lemma Warning_UI_Inr_eq:
  "Warning_UI sim l a p = Inr p' \<Longrightarrow>
   p' = p\<lparr>led_GREEN := led_GREEN p', led_RED := led_RED p',
          BLINK_WARNING_LED := BLINK_WARNING_LED p', lcd := lcd p', console := console p'\<rparr>"
  by (rule panel.equality) (simp_all add: Warning_UI_more)

lemma Warning_UI_keeps_wf:
  "panel_wf p \<Longrightarrow> Warning_UI sim l a p = Inr p' \<Longrightarrow> panel_wf p'"
  by (drule Warning_UI_Inr_leds) (auto simp: panel_wf_def leds_def glow_LEDs_cases split: if_splits)

lemma Warning_UI_Inr_lcd:
  "Warning_UI sim l a p = Inr p' \<Longrightarrow>
   \<exists>z. l = zone_code z \<and> lcd p' = lcd p @ [LCD_Clear, LCD_DisplayString (zone_label z)]"
proof -
  assume r: "Warning_UI sim l a p = Inr p'"
  then have "is_ok (Warning_UI sim l a p)" by simp
  then have "valid_label l" by (simp add: Warning_UI_ok_iff_aux)
  then obtain z where z: "l = zone_code z" by (auto simp: valid_label_iff_zone)
  with r show ?thesis
    by (auto simp: Warning_UI_def display_zone_def rbind_eq_Inr_iff)
qed

lemma Warning_UI_Inr_panel:
  assumes "Warning_UI sim l a p = Inr p'"
  shows "valid_label l"
    and "leds p' = (case code_indicator l of Some i \<Rightarrow> indicator_leds i | None \<Rightarrow> leds p)"
    and "lcd p' = lcd p @ [LCD_Clear, LCD_DisplayString (time_zone_labels ! nat (sint l))]"
proof -
  from assms have "is_ok (Warning_UI sim l a p)" by simp
  then show v: "valid_label l" by (simp add: Warning_UI_ok_iff_aux)
  from Warning_UI_Inr_leds [OF assms] show
    "leds p' = (case code_indicator l of Some i \<Rightarrow> indicator_leds i | None \<Rightarrow> leds p)"
    by (simp add: leds_glow_LEDs)
  from Warning_UI_Inr_lcd [OF assms] obtain z where "l = zone_code z"
    and "lcd p' = lcd p @ [LCD_Clear, LCD_DisplayString (zone_label z)]" by blast
  then show "lcd p' = lcd p @ [LCD_Clear, LCD_DisplayString (time_zone_labels ! nat (sint l))]"
    by (cases z) (simp_all add: time_zone_labels_def)
qed

section \<open>Device writes\<close>

lemma run_ops_append [simp]: "run_ops (xs @ ys) p = run_ops ys (run_ops xs p)"
  by (simp add: run_ops_def)

lemma run_ops_Nil [simp]: "run_ops [] p = p"
  by (simp add: run_ops_def)

lemma run_ops_Cons [simp]: "run_ops (x # xs) p = run_ops xs (apply_op x p)"
  by (simp add: run_ops_def)

lemma run_ops_Print [simp]: "run_ops (map Print ms) p = fold printf ms p"
  by (induction ms arbitrary: p) simp_all

lemma run_glow_ops: "run_ops (glow_ops l) p = glow_LEDs l p"
  by (simp add: glow_ops_def glow_LEDs_def glow_normal_def glow_imminent_def glow_warn_def)

lemma Warning_UI_ops_run:
  "Warning_UI sim l a p = rbind (Warning_UI_ops sim l a) (\<lambda>ops. Inr (run_ops ops p))"
  by (simp add: Warning_UI_def Warning_UI_ops_def display_zone_def rbind_assoc run_glow_ops)

lemma Warning_UI_ops_Inr:
  "Warning_UI_ops sim l a = Inr ops \<Longrightarrow>
   \<exists>ms t. ops = glow_ops l @ map Print ms @ [Lcd LCD_Clear, Lcd (LCD_DisplayString t)]"
  by (auto simp: Warning_UI_ops_def rbind_eq_Inr_iff)

lemma leds_run_quiet [simp]:
  "leds (run_ops (map Print ms @ [Lcd a, Lcd b]) p) = leds p"
  by (simp add: leds_def)

lemma Warning_UI_ops_ok_iff:
  "is_ok (Warning_UI_ops sim l a) \<longleftrightarrow> valid_label l \<and> (sim \<longrightarrow> valid_label a)"
  by (auto simp: Warning_UI_ops_def is_ok_rbind_projr report_prediction_ok_iff
      c_index_labels_ok_iff)

section \<open>Zone errors\<close>

lemma zone_error_zones: "sint (c_abs (zone_code y - zone_code z)) = int (zone_gap y z)"
  by (cases y; cases z) (simp_all add: c_abs_def zone_gap_def)

lemma zone_gap_le: "zone_gap y z \<le> 5"
  using zone_code_range [of y] zone_code_range [of z] unfolding zone_gap_def by linarith

lemma zone_gap_eq_0 [simp]: "zone_gap y z = 0 \<longleftrightarrow> y = z"
  by (cases y; cases z) (simp_all add: zone_gap_def)

lemma c_abs_zone_diff: "c_abs (zone_code y - zone_code z) = word_of_nat (zone_gap y z)"
  by (cases y; cases z) (simp_all add: c_abs_def zone_gap_def)

lemmas Warning_UI_eval = Warning_UI_def report_prediction_def display_zone_def glow_LEDs_cases
  panel_init_def time_zone_labels_def c_index_def c_abs_def zone_report_def printf_def lcd_do_def

lemma Warning_UI_invalid_real:
  "\<not> valid_label l \<Longrightarrow> Warning_UI False l a p = Inl (IndexOutOfRange l 6)"
  by (simp add: Warning_UI_def report_prediction_def c_index_labels_invalid)

lemma Warning_UI_invalid:
  "\<not> valid_label l \<Longrightarrow> sim \<longrightarrow> valid_label a \<Longrightarrow>
   Warning_UI sim l a p = Inl (IndexOutOfRange l 6)"
  by (auto simp: Warning_UI_def report_prediction_def c_index_labels_invalid Let_def
      valid_label_iff_zone)

section \<open>Properties of Warning_UI\<close>

text \<open>
  Claim C1. The label-to-LED table of \<^verbatim>\<open>Warning_UI\<close>: whenever the call returns, the
  levels of the green LED, the red LED and the blink flag are those of the zone of
  the predicted label: red alone for less than 15 and less than 30 minutes, both and
  blinking for less than 60 and less than 90 minutes, green alone for normal
  operation. For the label \<open>FAULT\<close> none of the three conditions of the function
  holds, and the levels are the ones the previous call left.
\<close>

theorem Warning_UI_led_table:
  "Warning_UI sim (zone_code z) a p = Inr p' \<Longrightarrow>
   leds p' = (case z of FAULT \<Rightarrow> leds p | LT_15 \<Rightarrow> (False, True, False)
     | LT_30 \<Rightarrow> (False, True, False) | LT_60 \<Rightarrow> (True, True, True)
     | LT_90 \<Rightarrow> (True, True, True) | NORMAL \<Rightarrow> (True, False, False))"
  by (cases z) (simp_all add: Warning_UI_Inr_leds leds_glow_LEDs code_indicator_def)

theorem Warning_UI_led_table_witness:
  "leds (projr (Warning_UI False 3 0 panel_init)) = (True, True, True)"
proof -
  have ok: "Warning_UI False (zone_code LT_60) 0 panel_init =
      Inr (projr (Warning_UI False 3 0 panel_init))"
    by (simp add: Warning_UI_eval)
  from Warning_UI_led_table [OF ok] show ?thesis by simp
qed

text \<open>
  Claim C11. Refinement of the specification's indicator machine: for every label
  that one of the three conditions of \<^verbatim>\<open>Warning_UI\<close> handles (1 to 5), the LED levels
  after a call that returns are, under the abstraction \<open>indicator_of\<close>, the indicator
  state the specification's table assigns to the label, whatever the panel was
  before.
\<close>

theorem Warning_UI_refines_spec:
  assumes "code_indicator l = Some i" and "Warning_UI sim l a p = Inr p'"
  shows "indicator_of p' = Some (spec_indicator l)"
proof -
  from assms(2) have "leds p' = leds (glow_LEDs l p)" by (rule Warning_UI_Inr_leds)
  with assms(1) have "leds p' = indicator_leds i" by (simp add: leds_glow_LEDs)
  with assms(1) show ?thesis by (simp add: code_indicator_spec)
qed

theorem Warning_UI_refines_spec_witness:
  "indicator_of (projr (Warning_UI True 2 4 panel_init)) = Some IMMINENT"
proof -
  have c: "code_indicator 2 = Some IMMINENT" by (simp add: code_indicator_def)
  have ok: "Warning_UI True 2 4 panel_init = Inr (projr (Warning_UI True 2 4 panel_init))"
    by (simp add: Warning_UI_eval)
  from Warning_UI_refines_spec [OF c ok] show ?thesis by (simp add: spec_indicator_def)
qed

text \<open>
  Claim C5. \<^verbatim>\<open>Warning_UI\<close> stays within defined behaviour exactly when the predicted
  label is one of 0 to 5 and, in simulated mode, the label of the sample is too:
  every other label subscripts \<^verbatim>\<open>time_zone_labels\<close> outside its six entries.
\<close>

theorem Warning_UI_ok_iff:
  "is_ok (Warning_UI sim l a p) \<longleftrightarrow> valid_label l \<and> (sim \<longrightarrow> valid_label a)"
  by (rule Warning_UI_ok_iff_aux)

theorem Warning_UI_ok_iff_witness:
  "\<not> is_ok (Warning_UI False 99 0 panel_init) \<and> is_ok (Warning_UI True 3 5 panel_init)"
  using Warning_UI_ok_iff [of False 99 0 panel_init] Warning_UI_ok_iff [of True 3 5 panel_init]
  by (simp add: valid_label_def time_prediction_zones_def)

text \<open>
  Claim C20. The diagnostic of simulated mode on every pair of zones: a correct
  prediction when the zones agree, a fair one when they are one apart, otherwise
  the zone error and, when the sample was normal, the false alarm. A false alarm is
  reported only in the default branch of the switch, so a normal sample predicted
  as less than 90 minutes is reported as fair and not as a false alarm.
\<close>

theorem zone_report_zones:
  "zone_report (c_abs (zone_code y - zone_code z)) (zone_code y) (zone_code z) =
     (if y = z then [CorrectPrediction]
      else if zone_gap y z = 1 then [FairPrediction]
      else ZoneError (word_of_nat (zone_gap y z)) # (if y = NORMAL then [FalseAlarm] else []))"
  by (cases y; cases z) (simp_all add: zone_report_def c_abs_def zone_gap_def)

theorem zone_report_zones_witness:
  "zone_report (c_abs (5 - 3)) 5 3 = [ZoneError 2, FalseAlarm]
   \<and> zone_report (c_abs (5 - 4)) 5 4 = [FairPrediction]"
  using zone_report_zones [of NORMAL LT_60] zone_report_zones [of NORMAL LT_90]
  by (simp add: zone_gap_def)

text \<open>
  Claim C21. The LED state is memoryless for the labels 1 to 5: a call with such a
  label gives the same LED levels, or the same fault, from any two panels, so a
  second call overrides the first and a repeated call re-asserts the state.
\<close>

theorem Warning_UI_memoryless:
  assumes "code_indicator l \<noteq> None"
  shows "map_sum id leds (Warning_UI sim l a p1) = map_sum id leds (Warning_UI sim l a p)"
proof -
  from assms obtain i where i: "code_indicator l = Some i" by auto
  have "leds (glow_LEDs l p1) = leds (glow_LEDs l p)" by (simp add: leds_glow_LEDs i)
  then show ?thesis
    by (cases "report_prediction sim l a"; cases "c_index time_zone_labels l")
      (simp_all add: Warning_UI_def display_zone_def)
qed

theorem Warning_UI_memoryless_witness:
  "map_sum id leds (Warning_UI False 5 0 (projr (Warning_UI False 3 0 panel_init)))
     = map_sum id leds (Warning_UI False 5 0 panel_init)"
proof -
  have c: "code_indicator 5 \<noteq> None" by (simp add: code_indicator_def)
  from Warning_UI_memoryless [OF c] show ?thesis .
qed

text \<open>
  Claim C25. The display: a call that returns has made exactly two calls to the
  LCD, \<^verbatim>\<open>Clear\<close> and then \<^verbatim>\<open>DisplayString\<close> with the display string of the predicted
  zone, so the glass shows that string and nothing of what it showed before. The
  witness displays \<open>FAULT\<close> on a glass that shows \<open>NORMAL\<close>; without the \<^verbatim>\<open>Clear\<close> the
  sixth character would stay (\<open>lcd_text_overwrite\<close>).
\<close>

theorem Warning_UI_display:
  "Warning_UI sim l a p = Inr p' \<Longrightarrow>
   \<exists>z. l = zone_code z \<and> lcd p' = lcd p @ [LCD_Clear, LCD_DisplayString (zone_label z)]
     \<and> lcd_text (lcd p') = Some (zone_label z)"
  by (drule Warning_UI_Inr_lcd) auto

theorem Warning_UI_display_witness:
  "lcd_text (lcd (projr (Warning_UI False 0 0
      (panel_init\<lparr>lcd := [LCD_DisplayString ''NORMAL'']\<rparr>)))) = Some ''FAULT''"
proof -
  let ?p = "panel_init\<lparr>lcd := [LCD_DisplayString ''NORMAL'']\<rparr>"
  have ok: "Warning_UI False 0 0 ?p = Inr (projr (Warning_UI False 0 0 ?p))"
    by (simp add: Warning_UI_eval)
  from Warning_UI_display [OF ok] obtain z
    where "0 = zone_code z" and t: "lcd_text (lcd (projr (Warning_UI False 0 0 ?p))) = Some (zone_label z)"
    by blast
  then have "z = FAULT" by (cases z) simp_all
  with t show ?thesis by simp
qed

text \<open>
  Claim C29. The zone error that simulated mode prints does not wrap around:
  whenever the diagnostic of \<^verbatim>\<open>Warning_UI\<close> is produced, the message
  \<^verbatim>\<open>ERROR of %d zones\<close> is among its messages exactly for the distance of the sample's
  label and the predicted label, read as integers, and only when that distance is
  two or more. So on these labels the subtraction and \<^verbatim>\<open>abs\<close> of line 300 stay within
  \<^verbatim>\<open>int\<close>, and the test \<^verbatim>\<open>zone_error > 1\<close> in the default branch never fails.
\<close>

theorem zone_error_no_wrap:
  assumes "report_prediction True l a = Inr ms"
  shows "ZoneError e \<in> set ms \<longleftrightarrow> sint e = \<bar>sint a - sint l\<bar> \<and> 1 < sint e"
proof -
  from assms have "is_ok (report_prediction True l a)" by simp
  then obtain y z where yz: "a = zone_code y" "l = zone_code z"
    by (auto simp: report_prediction_ok_iff valid_label_iff_zone)
  let ?d = "c_abs (zone_code y - zone_code z)"
  have d: "sint ?d = \<bar>sint (zone_code y) - sint (zone_code z)\<bar>"
    by (simp add: zone_error_zones zone_gap_def)
  from assms yz have ms: "ms = ActualPredicted (zone_label y) (zone_label z) #
      zone_report ?d (zone_code y) (zone_code z)"
    by (simp add: report_prediction_zone)
  have "ZoneError e \<in> set ms \<longleftrightarrow> e = ?d \<and> 1 < sint ?d"
    unfolding ms by (cases y; cases z) (auto simp: zone_report_def c_abs_def)
  also have "\<dots> \<longleftrightarrow> sint e = sint ?d \<and> 1 < sint e"
    by (auto simp: word_eq_iff_signed [where 'a = int])
  finally show ?thesis by (simp add: d yz)
qed

theorem zone_error_no_wrap_witness:
  "ZoneError 4 \<in> set (projr (report_prediction True 5 1))"
proof -
  have ok: "report_prediction True 5 1 = Inr (projr (report_prediction True 5 1))"
    by (simp add: report_prediction_def c_index_def time_zone_labels_def)
  from zone_error_no_wrap [OF ok, of 4] show ?thesis by simp
qed

text \<open>
  Claim C30. Well-formedness of the panel: the blink flag is set only while the
  green LED is on. Every call of \<^verbatim>\<open>Warning_UI\<close> that returns keeps this.
\<close>

theorem Warning_UI_panel_wf:
  "panel_wf p \<Longrightarrow> Warning_UI sim l a p = Inr p' \<Longrightarrow> panel_wf p'"
  by (rule Warning_UI_keeps_wf)

theorem Warning_UI_panel_wf_witness:
  "panel_wf panel_init \<and> panel_wf (projr (Warning_UI False 4 0 panel_init))"
proof -
  have w: "panel_wf panel_init" by (simp add: panel_wf_def panel_init_def)
  have ok: "Warning_UI False 4 0 panel_init = Inr (projr (Warning_UI False 4 0 panel_init))"
    by (simp add: Warning_UI_eval)
  from Warning_UI_panel_wf [OF w ok] w show ?thesis by simp
qed

end
