(* ===== verification/Sensors.thy ===== *)
theory Sensors
  imports Warning_Panel
begin

text \<open>
  The sensor classes of \<^verbatim>\<open>src/main.cpp\<close> (\<^verbatim>\<open>Sensor\<close>, \<^verbatim>\<open>Temperature\<close>, \<^verbatim>\<open>Vibration\<close>), the
  two global sensor objects, the accelerometer device they drive and
  \<^verbatim>\<open>Initialise_Sensors\<close>.

  \<^verbatim>\<open>Vibration::ReadData\<close> returns the address of an array with automatic storage. To
  say what a later read through that pointer means, the stack of the calling
  thread is explicit: \<open>stack_mem\<close> maps addresses to cells that are live, dead (the
  lifetime of the object has ended; the last value is kept) or unallocated, and
  \<open>load\<close> takes a \<open>lifetime_model\<close>: under \<open>Strict\<close>, the rules of C++, a read of a
  dead cell is a fault; under \<open>Retain\<close> it yields the stale value, which is what the
  target does when the compiler inlines the member function or nothing has
  overwritten the stack words yet.

  The state is the record \<open>board\<close>, which extends \<open>panel\<close> (the console is shared)
  with the two sensor objects, the accelerometer's registers and the stack. The
  accelerometer's driver is not part of \<^verbatim>\<open>src/\<close>: its registers and setters are
  modelled from the calls the source makes and the specification's description.
\<close>

section \<open>The stack of the acquisition thread\<close>

type_synonym addr = nat

datatype cell = Unallocated | Live c_int | Dead c_int

datatype lifetime_model = Strict | Retain

record stack_mem =
  sp :: addr
  cells :: "addr \<Rightarrow> cell"

definition stack_init :: stack_mem where
  "stack_init = \<lparr>sp = 0, cells = (\<lambda>a. Unallocated)\<rparr>"

definition push_array :: "c_int list \<Rightarrow> stack_mem \<Rightarrow> addr \<times> stack_mem" where
  [sensor_defs]: "push_array vs s =
     (sp s, s\<lparr>sp := sp s + length vs,
              cells := (\<lambda>a. if sp s \<le> a \<and> a < sp s + length vs then Live (vs ! (a - sp s))
                             else cells s a)\<rparr>)"

primrec end_lifetime :: "cell \<Rightarrow> cell" where
  "end_lifetime Unallocated = Unallocated"
| "end_lifetime (Live v) = Dead v"
| "end_lifetime (Dead v) = Dead v"

definition pop_array :: "nat \<Rightarrow> stack_mem \<Rightarrow> stack_mem" where
  [sensor_defs]: "pop_array n s =
     s\<lparr>sp := sp s - n,
       cells := (\<lambda>a. if sp s - n \<le> a \<and> a < sp s then end_lifetime (cells s a) else cells s a)\<rparr>"

definition store :: "addr \<Rightarrow> c_int \<Rightarrow> stack_mem \<Rightarrow> stack_mem result" where
  [sensor_defs]: "store a v s =
     (case cells s a of
        Live w \<Rightarrow> Inr (s\<lparr>cells := (cells s)(a := Live v)\<rparr>)
      | Dead w \<Rightarrow> Inl (DanglingPointer a)
      | Unallocated \<Rightarrow> Inl (DanglingPointer a))"

definition load :: "lifetime_model \<Rightarrow> stack_mem \<Rightarrow> addr \<Rightarrow> c_int result" where
  [sensor_defs]: "load m s a =
     (case cells s a of
        Live v \<Rightarrow> Inr v
      | Dead v \<Rightarrow> (case m of Strict \<Rightarrow> Inl (DanglingPointer a) | Retain \<Rightarrow> Inr v)
      | Unallocated \<Rightarrow> Inl (DanglingPointer a))"

section \<open>The accelerometer\<close>

record ADXL345 =
  DEVID :: uint8_t
  POWER_CTL :: uint8_t
  DATA_FORMAT :: uint8_t
  BW_RATE :: uint8_t

definition ADXL345_3200HZ :: uint8_t where
  "ADXL345_3200HZ = 0x0F"

definition getDevId :: "ADXL345 \<Rightarrow> uint8_t" where
  [sensor_defs]: "getDevId dev = DEVID dev"

definition setPowerControl :: "uint8_t \<Rightarrow> ADXL345 \<Rightarrow> ADXL345" where
  [sensor_defs]: "setPowerControl v dev = dev\<lparr>POWER_CTL := v\<rparr>"

definition setDataFormatControl :: "uint8_t \<Rightarrow> ADXL345 \<Rightarrow> ADXL345" where
  [sensor_defs]: "setDataFormatControl v dev = dev\<lparr>DATA_FORMAT := v\<rparr>"

definition setDataRate :: "uint8_t \<Rightarrow> ADXL345 \<Rightarrow> ADXL345" where
  [sensor_defs]: "setDataRate v dev = dev\<lparr>BW_RATE := v\<rparr>"

definition getOutput :: "c_int \<times> c_int \<times> c_int \<Rightarrow> addr \<Rightarrow> stack_mem \<Rightarrow> stack_mem result" where
  [sensor_defs]: "getOutput xyz readings s =
     (case xyz of (x, y, z) \<Rightarrow>
        rbind (store readings x s) (\<lambda>s1.
        rbind (store (readings + 1) y s1) (\<lambda>s2.
          store (readings + 2) z s2)))"

definition measuring :: "ADXL345 \<Rightarrow> bool" where
  "measuring dev = bit (POWER_CTL dev) 3"

section \<open>The classes\<close>

record Sensor =
  "identifier" :: c_int

definition Sensor_InitialiseSensor :: "c_int \<Rightarrow> 'a Sensor_scheme \<Rightarrow> 'a Sensor_scheme" where
  [sensor_defs]: "Sensor_InitialiseSensor ident s = s\<lparr>identifier := ident\<rparr>"

definition Sensor_ReadData :: "'a Sensor_scheme \<Rightarrow> 'a Sensor_scheme" where
  [sensor_defs]: "Sensor_ReadData s = s"

definition Temperature_ReadData :: "c_float \<Rightarrow> c_float" where
  [sensor_defs]: "Temperature_ReadData LM35_read = 48.9796 * LM35_read"

record board = panel +
  temperature :: Sensor
  vibration :: Sensor
  accelerometer :: ADXL345
  stack :: stack_mem

definition board_init :: "ADXL345 \<Rightarrow> board" where
  "board_init dev = \<lparr>led_GREEN = False, led_RED = False, BLINK_WARNING_LED = False,
     lcd = [], console = [], temperature = \<lparr>identifier = 0\<rparr>, vibration = \<lparr>identifier = 0\<rparr>,
     accelerometer = dev, stack = stack_init\<rparr>"

definition Vibration_InitialiseSensor :: "c_int \<Rightarrow> 'a board_scheme \<Rightarrow> 'a board_scheme" where
  "Vibration_InitialiseSensor ident b =
     (let b1 = b\<lparr>vibration := Sensor_InitialiseSensor ident (vibration b)\<rparr>;
          b2 = printf TestADXL345 b1;
          b3 = printf (DeviceId (getDevId (accelerometer b2))) b2;
          b4 = b3\<lparr>accelerometer := setPowerControl 0x00 (accelerometer b3)\<rparr>;
          b5 = b4\<lparr>accelerometer := setDataFormatControl 0x0B (accelerometer b4)\<rparr>
      in b5\<lparr>accelerometer := setDataRate ADXL345_3200HZ (accelerometer b5)\<rparr>)"

definition Vibration_ReadData ::
  "c_int \<times> c_int \<times> c_int \<Rightarrow> 'a board_scheme \<Rightarrow> (addr \<times> 'a board_scheme) result" where
  "Vibration_ReadData xyz b =
     (let b1 = b\<lparr>accelerometer := setPowerControl 0x08 (accelerometer b)\<rparr>;
          (data_array, s1) = push_array [0, 0, 0] (stack b1)
      in rbind (getOutput xyz data_array s1) (\<lambda>s2.
           Inr (data_array, b1\<lparr>stack := pop_array 3 s2\<rparr>)))"

definition Initialise_Sensors :: "'a board_scheme \<Rightarrow> 'a board_scheme" where
  "Initialise_Sensors b =
     (let b1 = printf InitialisingTemperature b;
          b2 = b1\<lparr>temperature := Sensor_InitialiseSensor 1 (temperature b1)\<rparr>;
          b3 = printf InitialisingVibration b2
      in Vibration_InitialiseSensor 2 b3)"

section \<open>Derived notions\<close>

definition dead_array :: "addr \<Rightarrow> c_int \<times> c_int \<times> c_int \<Rightarrow> stack_mem \<Rightarrow> stack_mem" where
  "dead_array base xyz s =
     (case xyz of (x, y, z) \<Rightarrow>
        s\<lparr>cells := (cells s)(base := Dead x, base + 1 := Dead y, base + 2 := Dead z)\<rparr>)"

definition stack_wf :: "stack_mem \<Rightarrow> bool" where
  "stack_wf s = (\<forall>a. sp s \<le> a \<longrightarrow> (\<forall>v. cells s a \<noteq> Live v))"

definition adxl345_reset :: ADXL345 where
  "adxl345_reset = \<lparr>DEVID = 0xE5, POWER_CTL = 0x00, DATA_FORMAT = 0x00, BW_RATE = 0x0A\<rparr>"

definition configured :: "ADXL345 \<Rightarrow> bool" where
  "configured dev = (DATA_FORMAT dev = 0x0B \<and> BW_RATE dev = ADXL345_3200HZ)"

section \<open>Facts about the stack\<close>

lemma push_array_fields [simp]:
  "fst (push_array vs s) = sp s"
  "sp (snd (push_array vs s)) = sp s + length vs"
  "cells (snd (push_array vs s)) a =
     (if sp s \<le> a \<and> a < sp s + length vs then Live (vs ! (a - sp s)) else cells s a)"
  by (simp_all add: push_array_def)

lemma pop_array_fields [simp]:
  "sp (pop_array n s) = sp s - n"
  "cells (pop_array n s) a =
     (if sp s - n \<le> a \<and> a < sp s then end_lifetime (cells s a) else cells s a)"
  by (simp_all add: pop_array_def)

lemma end_lifetime_not_Live [simp]: "end_lifetime c \<noteq> Live v"
  by (cases c) simp_all

lemma stack_wf_init [simp]: "stack_wf stack_init"
  by (simp add: stack_wf_def stack_init_def)

lemma stack_wf_push: "stack_wf s \<Longrightarrow> stack_wf (snd (push_array vs s))"
  by (simp add: stack_wf_def)

lemma stack_wf_pop: "stack_wf s \<Longrightarrow> stack_wf (pop_array n s)"
  by (auto simp: stack_wf_def)

lemma stack_wf_store: "stack_wf s \<Longrightarrow> store a v s = Inr s' \<Longrightarrow> stack_wf s'"
  by (fastforce simp: stack_wf_def store_def split: cell.splits if_splits)

lemma store_sp: "store a v s = Inr s' \<Longrightarrow> sp s' = sp s"
  by (auto simp: store_def split: cell.splits)

lemma load_Live [simp]: "cells s a = Live v \<Longrightarrow> load m s a = Inr v"
  by (simp add: load_def)

lemma load_Dead_Strict [simp]: "cells s a = Dead v \<Longrightarrow> load Strict s a = Inl (DanglingPointer a)"
  by (simp add: load_def)

lemma load_Dead_Retain [simp]: "cells s a = Dead v \<Longrightarrow> load Retain s a = Inr v"
  by (simp add: load_def)

lemma load_Strict_Inr_iff: "load Strict s a = Inr v \<longleftrightarrow> cells s a = Live v"
  by (auto simp: load_def split: cell.splits)

lemma load_store_same: "store a v s = Inr s' \<Longrightarrow> load m s' a = Inr v"
  by (auto simp: store_def split: cell.splits)

lemma load_store_other: "store a v s = Inr s' \<Longrightarrow> b \<noteq> a \<Longrightarrow> load m s' b = load m s b"
  by (auto simp: store_def load_def split: cell.splits)

lemma dead_array_fields [simp]:
  "sp (dead_array base (x, y, z) s) = sp s"
  "cells (dead_array base (x, y, z) s) base = Dead x"
  "cells (dead_array base (x, y, z) s) (base + 1) = Dead y"
  "cells (dead_array base (x, y, z) s) (base + 2) = Dead z"
  "cells (dead_array base (x, y, z) s) (Suc base) = Dead y"
  "cells (dead_array base (x, y, z) s) (Suc (Suc base)) = Dead z"
  by (simp_all add: dead_array_def)

lemma dead_array_other:
  "a < base \<or> base + 3 \<le> a \<Longrightarrow> cells (dead_array base xyz s) a = cells s a"
  by (cases xyz) (auto simp: dead_array_def)

lemma stack_wf_dead_array: "stack_wf s \<Longrightarrow> stack_wf (dead_array base xyz s)"
  by (cases xyz) (auto simp: stack_wf_def dead_array_def)

section \<open>Facts about the accelerometer\<close>

lemma ADXL345_setters [simp]:
  "setPowerControl v dev = dev\<lparr>POWER_CTL := v\<rparr>"
  "setDataFormatControl v dev = dev\<lparr>DATA_FORMAT := v\<rparr>"
  "setDataRate v dev = dev\<lparr>BW_RATE := v\<rparr>"
  "getDevId dev = DEVID dev"
  by (simp_all add: sensor_defs)

lemma getOutput_fresh:
  "getOutput (x, y, z) (sp s) (snd (push_array [0, 0, 0] s)) =
     Inr (s\<lparr>sp := sp s + 3,
           cells := (cells s)(sp s := Live x, sp s + 1 := Live y, sp s + 2 := Live z)\<rparr>)"
  by (auto simp: getOutput_def store_def push_array_def fun_eq_iff intro!: stack_mem.equality)

lemma pop_fresh_array:
  "pop_array 3 (s\<lparr>sp := sp s + 3,
      cells := (cells s)(sp s := Live x, sp s + 1 := Live y, sp s + 2 := Live z)\<rparr>)
   = dead_array (sp s) (x, y, z) s"
proof (rule stack_mem.equality)
  show "cells (pop_array 3 (s\<lparr>sp := sp s + 3,
      cells := (cells s)(sp s := Live x, sp s + 1 := Live y, sp s + 2 := Live z)\<rparr>))
    = cells (dead_array (sp s) (x, y, z) s)"
  proof
    fix a
    consider "a = sp s" | "a = sp s + 1" | "a = sp s + 2" | "a < sp s" | "sp s + 3 \<le> a"
      by linarith
    then show "cells (pop_array 3 (s\<lparr>sp := sp s + 3,
        cells := (cells s)(sp s := Live x, sp s + 1 := Live y, sp s + 2 := Live z)\<rparr>)) a
      = cells (dead_array (sp s) (x, y, z) s) a"
      by cases (simp_all add: dead_array_def)
  qed
qed (simp_all add: dead_array_def)

section \<open>Facts about the classes\<close>

lemma Vibration_ReadData_eq:
  "Vibration_ReadData (x, y, z) b =
     Inr (sp (stack b),
          b\<lparr>accelerometer := setPowerControl 0x08 (accelerometer b),
            stack := dead_array (sp (stack b)) (x, y, z) (stack b)\<rparr>)"
proof -
  have "stack (b\<lparr>accelerometer := setPowerControl 0x08 (accelerometer b)\<rparr>) = stack b"
    by simp
  then show ?thesis
    unfolding Vibration_ReadData_def Let_def split_beta
    by (simp only: push_array_fields(1) getOutput_fresh rbind_Inr pop_fresh_array)
qed

lemma Vibration_ReadData_Inr:
  assumes "Vibration_ReadData xyz b = Inr (p, b')"
  shows "p = sp (stack b)" and "stack b' = dead_array p xyz (stack b)"
    and "accelerometer b' = (accelerometer b)\<lparr>POWER_CTL := 0x08\<rparr>"
    and "temperature b' = temperature b" and "vibration b' = vibration b"
    and "leds b' = leds b" and "lcd b' = lcd b" and "console b' = console b"
  using assms by (cases xyz; auto simp: Vibration_ReadData_eq leds_def)+

lemma Initialise_Sensors_eq:
  "Initialise_Sensors b =
     b\<lparr>console := console b @ [InitialisingTemperature, InitialisingVibration, TestADXL345,
          DeviceId (DEVID (accelerometer b))],
       temperature := (temperature b)\<lparr>identifier := 1\<rparr>,
       vibration := (vibration b)\<lparr>identifier := 2\<rparr>,
       accelerometer := (accelerometer b)\<lparr>POWER_CTL := 0x00, DATA_FORMAT := 0x0B, BW_RATE := 0x0F\<rparr>\<rparr>"
  by (simp add: Initialise_Sensors_def Vibration_InitialiseSensor_def Let_def printf_def
      Sensor_InitialiseSensor_def ADXL345_3200HZ_def)

lemma measuring_simps [simp]:
  "measuring (dev\<lparr>POWER_CTL := 0x08\<rparr>)" "\<not> measuring (dev\<lparr>POWER_CTL := 0x00\<rparr>)"
  by (simp_all add: measuring_def)

lemma Initialise_Sensors_idem:
  "accelerometer (Initialise_Sensors (Initialise_Sensors b)) = accelerometer (Initialise_Sensors b)
   \<and> temperature (Initialise_Sensors (Initialise_Sensors b)) = temperature (Initialise_Sensors b)
   \<and> vibration (Initialise_Sensors (Initialise_Sensors b)) = vibration (Initialise_Sensors b)"
  by (simp add: Initialise_Sensors_eq)

lemma ReadData_measures_configured:
  assumes "Vibration_ReadData xyz b = Inr (p, b')"
  shows "measuring (accelerometer b')
     \<and> (configured (accelerometer b) \<longrightarrow> configured (accelerometer b'))
     \<and> DEVID (accelerometer b') = DEVID (accelerometer b)"
  using Vibration_ReadData_Inr(3) [OF assms] by (simp add: configured_def)

lemma Warning_UI_board_frame:
  assumes "Warning_UI sim l a b = Inr b'"
  shows "stack b' = stack b" "accelerometer b' = accelerometer b"
    "temperature b' = temperature b" "vibration b' = vibration b"
  by (subst Warning_UI_Inr_eq [OF assms], simp)+

lemma apply_op_board [simp]:
  "accelerometer (apply_op w p) = accelerometer p" "temperature (apply_op w p) = temperature p"
  "vibration (apply_op w p) = vibration p" "stack (apply_op w p) = stack p"
  by (cases w; simp add: printf_def lcd_do_def)+

lemma apply_op_lcd: "\<exists>m. lcd (apply_op w p) = lcd p @ m"
  by (cases w) (simp_all add: printf_def lcd_do_def)

lemma Temperature_ReadData_range:
  "0 \<le> r \<Longrightarrow> r \<le> 1 \<Longrightarrow> 0 \<le> Temperature_ReadData r \<and> Temperature_ReadData r \<le> 48.9796"
  by (simp add: Temperature_ReadData_def)

section \<open>Properties of the sensor classes\<close>

text \<open>
  Claim C12. The pointer that \<^verbatim>\<open>Vibration::ReadData\<close> returns dangles: the array it
  points to has automatic storage in the function, so under the lifetime rules of
  C++ a read of any of its three elements after the return is a fault.
\<close>

theorem ReadData_pointer_dangles:
  assumes "Vibration_ReadData xyz b = Inr (p, b')" and "i < 3"
  shows "load Strict (stack b') (p + i) = Inl (DanglingPointer (p + i))"
proof -
  obtain x y z where xyz: "xyz = (x, y, z)" by (cases xyz)
  from assms(1) have st: "stack b' = dead_array p xyz (stack b)"
    by (rule Vibration_ReadData_Inr)
  from assms(2) consider "i = 0" | "i = 1" | "i = 2" by linarith
  then show ?thesis by cases (simp_all add: st xyz)
qed

theorem ReadData_pointer_dangles_witness:
  "rbind (Vibration_ReadData (10, - 20, 30) (board_init adxl345_reset))
     (\<lambda>(p, b). load Strict (stack b) (p + 1)) = Inl (DanglingPointer 1)"
proof -
  let ?r = "Vibration_ReadData (10, - 20, 30) (board_init adxl345_reset)"
  have r: "?r = Inr (0, snd (projr ?r))"
    by (simp add: Vibration_ReadData_eq board_init_def stack_init_def)
  from ReadData_pointer_dangles [OF r, of 1] show ?thesis
    by (subst r) simp
qed

text \<open>
  Claim C26. Where the stale stack words are still readable (\<open>Retain\<close>), the three
  elements behind the returned pointer are the accelerometer's output for the x, y
  and z axes, in this order, whatever device identifier the accelerometer reported.
\<close>

theorem ReadData_retained_values:
  assumes "Vibration_ReadData (x, y, z) b = Inr (p, b')"
  shows "load Retain (stack b') p = Inr x \<and> load Retain (stack b') (p + 1) = Inr y
     \<and> load Retain (stack b') (p + 2) = Inr z"
proof -
  from assms have "stack b' = dead_array p (x, y, z) (stack b)"
    by (rule Vibration_ReadData_Inr)
  then show ?thesis by simp
qed

theorem ReadData_retained_values_witness:
  "rbind (Vibration_ReadData (10, - 20, 30) (board_init adxl345_reset))
     (\<lambda>(p, b). load Retain (stack b) (p + 1)) = Inr (- 20)"
proof -
  let ?r = "Vibration_ReadData (10, - 20, 30) (board_init adxl345_reset)"
  have r: "?r = Inr (0, snd (projr ?r))"
    by (simp add: Vibration_ReadData_eq board_init_def stack_init_def)
  from ReadData_retained_values [OF r] show ?thesis
    by (subst r) simp
qed

text \<open>
  Claim C27. \<^verbatim>\<open>Initialise_Sensors\<close> gives the temperature sensor the identifier 1 and
  the vibration sensor the identifier 2, leaves the accelerometer in standby with
  the data format \<^verbatim>\<open>0x0B\<close> (full resolution, 16 g) and the rate code of 3200 Hz,
  prints its four messages with the device identifier, and touches neither the
  LEDs, the LCD nor the stack. Measurement is not switched on here but by each
  \<^verbatim>\<open>Vibration::ReadData\<close>.
\<close>

theorem Initialise_Sensors_configures:
  "identifier (temperature (Initialise_Sensors b)) = 1
   \<and> identifier (vibration (Initialise_Sensors b)) = 2
   \<and> configured (accelerometer (Initialise_Sensors b))
   \<and> \<not> measuring (accelerometer (Initialise_Sensors b))
   \<and> console (Initialise_Sensors b) = console b @ [InitialisingTemperature,
        InitialisingVibration, TestADXL345, DeviceId (DEVID (accelerometer b))]
   \<and> leds (Initialise_Sensors b) = leds b \<and> lcd (Initialise_Sensors b) = lcd b
   \<and> stack (Initialise_Sensors b) = stack b"
  by (simp add: Initialise_Sensors_eq configured_def ADXL345_3200HZ_def leds_def measuring_def)

theorem Initialise_Sensors_configures_witness:
  "accelerometer (Initialise_Sensors (board_init adxl345_reset)) =
     \<lparr>DEVID = 0xE5, POWER_CTL = 0x00, DATA_FORMAT = 0x0B, BW_RATE = 0x0F\<rparr>"
  using Initialise_Sensors_configures [of "board_init adxl345_reset"]
  by (simp add: Initialise_Sensors_eq board_init_def adxl345_reset_def)

end
