(* ===== verification/Inference.thy ===== *)
theory Inference
  imports Zones
begin

text \<open>
  The binding of the inference engine in \<^verbatim>\<open>dataAcqusition_thread_function\<close>: each
  cycle wraps the six features in a tensor of shape \<open>[1, 6]\<close>, constructs a new
  \<^verbatim>\<open>Context\<close>, lets the generated \<^verbatim>\<open>get_DNN_model_ctx\<close> bind the tensor and register the
  graph, takes a reference to the output tensor \<^verbatim>\<open>y_pred:0\<close>, evaluates, and reads
  element (0, 0) of the output as an \<^verbatim>\<open>int\<close>.

  The uTensor runtime and the generated graph are not part of \<^verbatim>\<open>src/\<close>. Their
  interface is modelled from the specification: a context is a table of named
  tensors and the graph still to be evaluated; the graph itself is a parameter
  \<open>dnn\<close>, any function from the feature values to a label. A reference
  (\<^verbatim>\<open>S_TENSOR\<close>) is the name it was obtained under, looked up again when it is read,
  so a reference taken before the evaluation sees the value the evaluation wrote.
  \<open>infer\<close> is the sequence of calls of the source. The lemmas of this theory serve
  the acquisition loop; what they say about shapes and names is a fact of the
  modelled interface, not of the program.
\<close>

section \<open>Tensors\<close>

datatype tensor_data = Floats "c_float list" | Ints "c_int list" | Unset

record tensor =
  shape :: "nat list"
  contents :: tensor_data

definition WrappedRamTensor :: "nat list \<Rightarrow> c_float list \<Rightarrow> tensor" where
  [ctx_defs]: "WrappedRamTensor dims buffer = \<lparr>shape = dims, contents = Floats buffer\<rparr>"

definition read_int :: "tensor \<Rightarrow> nat \<Rightarrow> nat \<Rightarrow> c_int result" where
  [ctx_defs]: "read_int t i j =
     (case contents t of
        Ints xs \<Rightarrow> (if i = 0 \<and> j < length xs then Inr (xs ! j) else Inl (BadTensor ''index''))
      | Floats xs \<Rightarrow> Inl (BadTensor ''type'')
      | Unset \<Rightarrow> Inl (BadTensor ''unset''))"

section \<open>The context\<close>

type_synonym network = "c_float list \<Rightarrow> c_int"

record Context =
  rTable :: "string \<rightharpoonup> tensor"
  graph :: "network option"
  bound :: "string option"

definition input_name :: string where
  "input_name = ''x:0''"

definition output_name :: string where
  "output_name = ''y_pred:0''"

definition Context_new :: Context where
  [ctx_defs]: "Context_new = \<lparr>rTable = Map.empty, graph = None, bound = None\<rparr>"

definition get_DNN_model_ctx :: "network \<Rightarrow> tensor \<Rightarrow> Context \<Rightarrow> Context" where
  [ctx_defs]: "get_DNN_model_ctx dnn input_x ctx =
     ctx\<lparr>rTable := (rTable ctx)(input_name \<mapsto> input_x,
              output_name \<mapsto> \<lparr>shape = [1], contents = Unset\<rparr>),
         graph := Some dnn, bound := Some input_name\<rparr>"

definition ctx_get :: "string \<Rightarrow> Context \<Rightarrow> string result" where
  [ctx_defs]: "ctx_get name ctx =
     (case rTable ctx name of None \<Rightarrow> Inl (NoSuchTensor name) | Some t \<Rightarrow> Inr name)"

definition deref :: "string \<Rightarrow> Context \<Rightarrow> tensor result" where
  [ctx_defs]: "deref r ctx =
     (case rTable ctx r of None \<Rightarrow> Inl (NoSuchTensor r) | Some t \<Rightarrow> Inr t)"

definition ctx_eval :: "Context \<Rightarrow> Context result" where
  [ctx_defs]: "ctx_eval ctx =
     (case (graph ctx, bound ctx) of
        (Some dnn, Some name) \<Rightarrow>
          (case rTable ctx name of
             Some t \<Rightarrow>
               (case contents t of
                  Floats xs \<Rightarrow>
                    (if shape t = [1, sensor_features] \<and> length xs = sensor_features
                     then Inr (ctx\<lparr>rTable := (rTable ctx)(output_name \<mapsto>
                                  \<lparr>shape = [1], contents = Ints [dnn xs]\<rparr>),
                                graph := None\<rparr>)
                     else Inl (BadTensor ''shape''))
                | Ints xs \<Rightarrow> Inl (BadTensor ''type'')
                | Unset \<Rightarrow> Inl (BadTensor ''unset''))
           | None \<Rightarrow> Inl (NoSuchTensor name))
      | (Some dnn, None) \<Rightarrow> Inl (BadTensor ''unbound'')
      | (None, b) \<Rightarrow> Inl (BadTensor ''no graph''))"

section \<open>One inference\<close>

definition infer :: "network \<Rightarrow> tensor \<Rightarrow> c_int result" where
  "infer dnn input_x =
     (let ctx = get_DNN_model_ctx dnn input_x Context_new in
      rbind (ctx_get output_name ctx) (\<lambda>pred_tensor.
      rbind (ctx_eval ctx) (\<lambda>ctx'.
      rbind (deref pred_tensor ctx') (\<lambda>t. read_int t 0 0))))"

definition input_ok :: "tensor \<Rightarrow> bool" where
  "input_ok t = (shape t = [1, sensor_features] \<and>
     (case contents t of Floats xs \<Rightarrow> length xs = sensor_features | Ints xs \<Rightarrow> False | Unset \<Rightarrow> False))"

primrec floats_of :: "tensor_data \<Rightarrow> c_float list" where
  "floats_of (Floats xs) = xs"
| "floats_of (Ints xs) = []"
| "floats_of Unset = []"

section \<open>Facts about the context\<close>

lemma names_distinct [simp]: "input_name \<noteq> output_name" "output_name \<noteq> input_name"
  by (simp_all add: input_name_def output_name_def)

lemma ctx_get_bound [simp]:
  "ctx_get output_name (get_DNN_model_ctx dnn x ctx) = Inr output_name"
  "ctx_get input_name (get_DNN_model_ctx dnn x ctx) = Inr input_name"
  by (simp_all add: ctx_defs)

lemma ctx_get_new [simp]: "ctx_get name Context_new = Inl (NoSuchTensor name)"
  by (simp add: ctx_defs)

lemma ctx_eval_new [simp]: "ctx_eval Context_new = Inl (BadTensor ''no graph'')"
  by (simp add: ctx_defs)

lemma ctx_eval_bound:
  "input_ok x \<Longrightarrow>
   ctx_eval (get_DNN_model_ctx dnn x ctx) =
     Inr ((get_DNN_model_ctx dnn x ctx)\<lparr>rTable := (rTable (get_DNN_model_ctx dnn x ctx))
            (output_name \<mapsto> \<lparr>shape = [1], contents = Ints [dnn (floats_of (contents x))]\<rparr>),
          graph := None\<rparr>)"
  by (auto simp: ctx_defs input_ok_def split: tensor_data.splits)

lemma ctx_eval_bad_input:
  "\<not> input_ok x \<Longrightarrow> \<not> is_ok (ctx_eval (get_DNN_model_ctx dnn x ctx))"
  by (auto simp: ctx_defs input_ok_def split: tensor_data.splits)

lemma ctx_eval_once:
  "ctx_eval ctx = Inr ctx' \<Longrightarrow> ctx_eval ctx' = Inl (BadTensor ''no graph'')"
  by (auto simp: ctx_eval_def split: option.splits tensor_data.splits if_splits)

lemma deref_before_eval:
  "rbind (deref output_name (get_DNN_model_ctx dnn x ctx)) (\<lambda>t. read_int t 0 0)
     = Inl (BadTensor ''unset'')"
  by (simp add: ctx_defs)

lemma input_ok_Wrapped:
  "input_ok (WrappedRamTensor [1, sensor_features] xs) \<longleftrightarrow> length xs = sensor_features"
  by (simp add: input_ok_def WrappedRamTensor_def)

lemma infer_ok: "input_ok x \<Longrightarrow> infer dnn x = Inr (dnn (floats_of (contents x)))"
  by (simp add: infer_def Let_def ctx_eval_bound) (simp add: ctx_defs)

lemma infer_bad: "\<not> input_ok x \<Longrightarrow> \<not> is_ok (infer dnn x)"
  by (simp add: infer_def Let_def is_ok_rbind_projr ctx_eval_bad_input)

lemma infer_Wrapped:
  assumes "length xs = sensor_features"
  shows "infer dnn (WrappedRamTensor [1, sensor_features] xs) = Inr (dnn xs)"
proof -
  from assms have "input_ok (WrappedRamTensor [1, sensor_features] xs)"
    by (simp add: input_ok_def WrappedRamTensor_def)
  then have "infer dnn (WrappedRamTensor [1, sensor_features] xs) =
      Inr (dnn (floats_of (contents (WrappedRamTensor [1, sensor_features] xs))))"
    by (rule infer_ok)
  then show ?thesis by (simp add: WrappedRamTensor_def)
qed

lemma infer_Wrapped_Suc [simp]:
  "length xs = sensor_features \<Longrightarrow>
   infer net (WrappedRamTensor [Suc 0, sensor_features] xs) = Inr (net xs)"
  using infer_Wrapped [of xs net] by simp

lemma is_ok_infer: "is_ok (infer dnn x) \<longleftrightarrow> input_ok x"
  using infer_ok [of x dnn] infer_bad [of x dnn] by (cases "input_ok x") simp_all

end
