(* ===== verification/Acquisition.thy ===== *)
theory Acquisition
  imports Sensors Inference
begin

text \<open>
  The acquisition thread, \<^verbatim>\<open>dataAcqusition_thread_function\<close> of \<^verbatim>\<open>src/main.cpp\<close>: the
  locals that live across iterations, one iteration of the endless loop
  (\<open>acq_cycle\<close>: draw a sample or read the sensors, build the feature vector, infer,
  warn) and the run of the loop over a finite sequence of inputs (\<open>run_cycles\<close>).

  The loop has no exit. What the environment supplies in an iteration (the value of
  \<^verbatim>\<open>rand()\<close>, the ADC reading, the accelerometer's output) is a \<open>cycle_input\<close>, and a
  run is defined on every finite prefix of the input stream; a fault ends it, as
  undefined behaviour ends what can be said of the program. The call \<^verbatim>\<open>wait(2.0)\<close>
  changes no state and is left out. What does not change during a run is the
  \<open>config\<close>: the mode flag, the network, the lifetime model of the stack and the data
  set of \<^verbatim>\<open>SampleData.h\<close>, which is a parameter (rows of features and their labels).

  The state \<open>acq\<close> extends \<open>board\<close>. The local \<^verbatim>\<open>n\<close> is the field \<open>sample_n\<close>.
\<close>

section \<open>Configuration, inputs and state\<close>

record sample_data =
  number_data_points :: c_int
  input_data_array :: "c_float list list"
  actual_data_label :: "c_int list"

record config =
  SIMULATED_DATA :: bool
  dnn :: network
  lifetime :: lifetime_model
  samples :: sample_data

record cycle_input =
  rand_value :: c_int
  LM35_sample :: c_float
  ADXL345_output :: "c_int \<times> c_int \<times> c_int"

record acq = board +
  sensor_data :: "c_float list"
  pred_label :: c_int
  sample_n :: c_int
  temperature_value :: c_float
  vibration_values :: "addr option"

definition acq_init :: "ADXL345 \<Rightarrow> acq" where
  "acq_init dev = \<lparr>led_GREEN = False, led_RED = False, BLINK_WARNING_LED = False,
     lcd = [], console = [], temperature = \<lparr>identifier = 0\<rparr>, vibration = \<lparr>identifier = 0\<rparr>,
     accelerometer = dev, stack = stack_init,
     sensor_data = [0, 0, 0, 0, 0, 0], pred_label = 0, sample_n = 0,
     temperature_value = 0, vibration_values = None\<rparr>"

section \<open>Simulated mode: a sample of the data set\<close>

definition row_features :: "c_float list \<Rightarrow> c_float list result" where
  "row_features row =
     (if sensor_features \<le> length row then Inr (take sensor_features row)
      else Inl (IndexOutOfRange (word_of_nat (length row)) (length row)))"

definition acquire_simulated ::
  "sample_data \<Rightarrow> c_int \<Rightarrow> 'a acq_scheme \<Rightarrow> (tensor \<times> 'a acq_scheme) result" where
  "acquire_simulated d r s =
     rbind (c_rem r (number_data_points d)) (\<lambda>k.
     rbind (c_index (actual_data_label d) k) (\<lambda>lbl.
     rbind (c_index (input_data_array d) k) (\<lambda>row.
     rbind (row_features row) (\<lambda>fs.
       Inr (WrappedRamTensor [1, sensor_features] fs,
            fold printf (SampleIndex k # map FeatureValue fs) (s\<lparr>sample_n := k\<rparr>))))))"

section \<open>Real mode: the sensors and the feature vector\<close>

definition load3 :: "lifetime_model \<Rightarrow> stack_mem \<Rightarrow> addr \<Rightarrow> (c_int \<times> c_int \<times> c_int) result" where
  "load3 m st p =
     rbind (load m st p) (\<lambda>v0.
     rbind (load m st (p + 1)) (\<lambda>v1.
     rbind (load m st (p + 2)) (\<lambda>v2. Inr (v0, v1, v2))))"

definition build_features :: "c_float \<Rightarrow> c_int \<times> c_int \<times> c_int \<Rightarrow> c_float list \<Rightarrow> c_float list" where
  "build_features t v buf =
     (case v of (v0, v1, v2) \<Rightarrow>
        buf[0 := 0, 1 := 0, 2 := t, 3 := int_to_float v0, 4 := int_to_float v1,
            5 := int_to_float v2])"

definition acquire_real ::
  "lifetime_model \<Rightarrow> cycle_input \<Rightarrow> 'a acq_scheme \<Rightarrow> (tensor \<times> 'a acq_scheme) result" where
  "acquire_real m inp s =
     (let s1 = s\<lparr>sample_n := 0\<rparr>;
          s2 = s1\<lparr>temperature_value := Temperature_ReadData (LM35_sample inp)\<rparr>
      in rbind (Vibration_ReadData (ADXL345_output inp) s2) (\<lambda>(p, s3).
         let s4 = s3\<lparr>vibration_values := Some p\<rparr>
         in rbind (load3 m (stack s4) p) (\<lambda>(v0, v1, v2).
            let s5 = printf (SensorReadings (to_int16 v0) (to_int16 v1) (to_int16 v2)
                       (temperature_value s4)) s4
            in rbind (load3 m (stack s5) p) (\<lambda>w.
               let s6 = s5\<lparr>sensor_data := build_features (temperature_value s5) w (sensor_data s5)\<rparr>
               in Inr (WrappedRamTensor [1, sensor_features] (sensor_data s6), s6)))))"

section \<open>One iteration and the loop\<close>

definition acquire ::
  "config \<Rightarrow> cycle_input \<Rightarrow> 'a acq_scheme \<Rightarrow> (tensor \<times> 'a acq_scheme) result" where
  "acquire cfg inp s =
     (if SIMULATED_DATA cfg then acquire_simulated (samples cfg) (rand_value inp) s
      else acquire_real (lifetime cfg) inp s)"

definition acq_cycle :: "config \<Rightarrow> cycle_input \<Rightarrow> 'a acq_scheme \<Rightarrow> 'a acq_scheme result" where
  "acq_cycle cfg inp s =
     (let s0 = printf CycleSeparator s
      in rbind (acquire cfg inp s0) (\<lambda>(input_x, s1).
         rbind (infer (dnn cfg) input_x) (\<lambda>lbl.
         let s2 = s1\<lparr>pred_label := lbl\<rparr>
         in rbind (c_index (actual_data_label (samples cfg)) (sample_n s2)) (\<lambda>actual.
              Warning_UI (SIMULATED_DATA cfg) (pred_label s2) actual s2))))"

fun run_cycles :: "config \<Rightarrow> cycle_input list \<Rightarrow> 'a acq_scheme \<Rightarrow> 'a acq_scheme result" where
  "run_cycles cfg [] s = Inr s"
| "run_cycles cfg (inp # inps) s = rbind (acq_cycle cfg inp s) (run_cycles cfg inps)"

section \<open>Well-formedness\<close>

definition dataset_ok :: "sample_data \<Rightarrow> bool" where
  "dataset_ok d =
     (0 < sint (number_data_points d)
      \<and> length (input_data_array d) = nat (sint (number_data_points d))
      \<and> length (actual_data_label d) = nat (sint (number_data_points d))
      \<and> list_all (\<lambda>row. length row = sensor_features) (input_data_array d)
      \<and> list_all valid_label (actual_data_label d))"

definition draw :: "sample_data \<Rightarrow> c_int \<Rightarrow> nat" where
  "draw d r = nat (sint r mod sint (number_data_points d))"

definition spec_build ::
  "bool \<Rightarrow> c_float list \<Rightarrow> c_float \<Rightarrow> c_int \<times> c_int \<times> c_int \<Rightarrow> c_float list" where
  "spec_build simulated sample t v =
     (if simulated then sample
      else (case v of (x, y, z) \<Rightarrow>
              [0, 0, t, real_of_int (sint x), real_of_int (sint y), real_of_int (sint z)]))"

definition label_total :: "network \<Rightarrow> bool" where
  "label_total net = (\<forall>xs. valid_label (net xs))"

definition acq_inv :: "'a acq_scheme \<Rightarrow> bool" where
  "acq_inv s = (length (sensor_data s) = sensor_features \<and> stack_wf (stack s) \<and> panel_wf s)"

section \<open>A small configuration\<close>

text \<open>
  A data set of three samples, a network that thresholds the temperature feature
  and one set of inputs, at which the theorems below are instantiated.
\<close>

definition demo_data :: sample_data where
  "demo_data = \<lparr>number_data_points = 3,
     input_data_array = [[1, 2, 30, 4, 5, 6], [7, 8, 45, 10, 11, 12], [0, 0, 20, 1, 1, 1]],
     actual_data_label = [5, 3, 1]\<rparr>"

definition demo_net :: network where
  "demo_net xs = (if xs ! 2 < 25 then 5 else if xs ! 2 < 40 then 3 else 1)"

definition demo_cfg :: "bool \<Rightarrow> lifetime_model \<Rightarrow> config" where
  "demo_cfg sim m = \<lparr>SIMULATED_DATA = sim, dnn = demo_net, lifetime = m, samples = demo_data\<rparr>"

definition demo_input :: cycle_input where
  "demo_input = \<lparr>rand_value = 7, LM35_sample = 0.5, ADXL345_output = (10, - 20, 30)\<rparr>"

definition demo_rand :: "c_int \<Rightarrow> cycle_input" where
  "demo_rand k = \<lparr>rand_value = k, LM35_sample = 0.5, ADXL345_output = (10, - 20, 30)\<rparr>"

section \<open>Facts about the two acquisition branches\<close>

lemma load3_dead_Retain [simp]: "load3 Retain (dead_array p (x, y, z) st) p = Inr (x, y, z)"
  by (simp add: load3_def)

lemma load3_dead_Strict [simp]: "load3 Strict (dead_array p xyz st) p = Inl (DanglingPointer p)"
  by (cases xyz) (simp add: load3_def)

lemma build_features_full:
  "length buf = sensor_features \<Longrightarrow>
   build_features t (x, y, z) buf = [0, 0, t, int_to_float x, int_to_float y, int_to_float z]"
  by (auto simp: build_features_def sensor_features_def length_Suc_conv numeral_eq_Suc)

lemma length_build_features [simp]: "length (build_features t v buf) = length buf"
  by (cases v) (simp add: build_features_def)

lemma acquire_real_Strict:
  "acquire_real Strict inp s = Inl (DanglingPointer (sp (stack s)))"
  by (cases "ADXL345_output inp") (simp add: acquire_real_def Let_def Vibration_ReadData_eq)

lemma acquire_real_Retain:
  "ADXL345_output inp = (x, y, z) \<Longrightarrow>
   acquire_real Retain inp s =
     (let t = Temperature_ReadData (LM35_sample inp);
          fs = build_features t (x, y, z) (sensor_data s)
      in Inr (WrappedRamTensor [1, sensor_features] fs,
           s\<lparr>console := console s @ [SensorReadings (to_int16 x) (to_int16 y) (to_int16 z) t],
             accelerometer := (accelerometer s)\<lparr>POWER_CTL := 0x08\<rparr>,
             stack := dead_array (sp (stack s)) (x, y, z) (stack s),
             sensor_data := fs, sample_n := 0, temperature_value := t,
             vibration_values := Some (sp (stack s))\<rparr>))"
  by (simp add: acquire_real_def Let_def Vibration_ReadData_eq printf_def)

lemma dataset_ok_draw:
  assumes "dataset_ok d" and "0 \<le> sint r"
  shows "draw d r < length (input_data_array d)" "draw d r < length (actual_data_label d)"
    "length (input_data_array d ! draw d r) = sensor_features"
    "valid_label (actual_data_label d ! draw d r)"
    "c_rem r (number_data_points d) = Inr (word_of_nat (draw d r))"
    "sint (word_of_nat (draw d r) :: c_int) = int (draw d r)"
proof -
  from assms have N: "0 < sint (number_data_points d)" by (simp add: dataset_ok_def)
  from assms(2) N have lt: "sint r mod sint (number_data_points d) < sint (number_data_points d)"
    and ge: "0 \<le> sint r mod sint (number_data_points d)" by simp_all
  then have dn: "draw d r < nat (sint (number_data_points d))" by (simp add: draw_def nat_less_iff)
  with assms(1) show a: "draw d r < length (input_data_array d)"
    and b: "draw d r < length (actual_data_label d)" by (simp_all add: dataset_ok_def)
  from assms(1) a show "length (input_data_array d ! draw d r) = sensor_features"
    by (simp add: dataset_ok_def list_all_length)
  from assms(1) b show "valid_label (actual_data_label d ! draw d r)"
    by (simp add: dataset_ok_def list_all_length)
  from ge have w: "(word_of_nat (draw d r) :: c_int) = word_of_int (sint r mod sint (number_data_points d))"
    by (simp add: draw_def)
  from c_rem_pos [OF assms(2) N] ge show "c_rem r (number_data_points d) = Inr (word_of_nat (draw d r))"
    "sint (word_of_nat (draw d r) :: c_int) = int (draw d r)"
    by (simp_all add: w) (simp add: draw_def)
qed

lemma row_features_full [simp]: "length row = sensor_features \<Longrightarrow> row_features row = Inr row"
  by (simp add: row_features_def)

lemma row_features_Inr: "row_features row = Inr fs \<Longrightarrow> length fs = sensor_features"
  by (auto simp: row_features_def split: if_splits)

lemma acquire_simulated_eq:
  assumes "dataset_ok d" and "0 \<le> sint r"
  shows "acquire_simulated d r s =
     Inr (WrappedRamTensor [1, sensor_features] (input_data_array d ! draw d r),
          s\<lparr>console := console s @ SampleIndex (word_of_nat (draw d r)) #
                 map FeatureValue (input_data_array d ! draw d r),
            sample_n := word_of_nat (draw d r)\<rparr>)"
  using dataset_ok_draw [OF assms]
  by (simp add: acquire_simulated_def c_index_def fold_printf_eq printf_def)

lemma acquire_simulated_Inr:
  assumes "acquire_simulated d r s = Inr (t, s')"
  shows "input_ok t" and "s' = s\<lparr>console := console s', sample_n := sample_n s'\<rparr>"
  using assms
  by (auto simp: acquire_simulated_def rbind_eq_Inr_iff fold_printf_eq printf_def
      input_ok_def WrappedRamTensor_def dest: row_features_Inr)

lemma acq_cycle_Strict:
  "\<not> SIMULATED_DATA cfg \<Longrightarrow> lifetime cfg = Strict \<Longrightarrow>
   acq_cycle cfg inp s = Inl (DanglingPointer (sp (stack s)))"
  by (simp add: acq_cycle_def acquire_def Let_def acquire_real_Strict printf_def)

lemma acq_cycle_simulated_eq:
  assumes "SIMULATED_DATA cfg" and "dataset_ok (samples cfg)" and "0 \<le> sint (rand_value inp)"
  shows "acq_cycle cfg inp s =
     (let k = draw (samples cfg) (rand_value inp); row = input_data_array (samples cfg) ! k
      in Warning_UI True (dnn cfg row) (actual_data_label (samples cfg) ! k)
           (s\<lparr>console := console s @ CycleSeparator # SampleIndex (word_of_nat k) #
                  map FeatureValue row,
              sample_n := word_of_nat k, pred_label := dnn cfg row\<rparr>))"
  using dataset_ok_draw [OF assms(2,3)] assms(1)
  by (simp add: acq_cycle_def acquire_def Let_def acquire_simulated_eq [OF assms(2,3)]
      c_index_def printf_def)

lemma acq_cycle_real_eq:
  assumes "\<not> SIMULATED_DATA cfg" and "lifetime cfg = Retain"
    and "ADXL345_output inp = (x, y, z)" and "length (sensor_data s) = sensor_features"
  shows "acq_cycle cfg inp s =
     (let t = Temperature_ReadData (LM35_sample inp);
          fs = [0, 0, t, int_to_float x, int_to_float y, int_to_float z]
      in rbind (c_index (actual_data_label (samples cfg)) 0) (\<lambda>a.
           Warning_UI False (dnn cfg fs) a
             (s\<lparr>console := console s @ [CycleSeparator,
                    SensorReadings (to_int16 x) (to_int16 y) (to_int16 z) t],
                accelerometer := (accelerometer s)\<lparr>POWER_CTL := 0x08\<rparr>,
                stack := dead_array (sp (stack s)) (x, y, z) (stack s),
                sensor_data := fs, sample_n := 0, temperature_value := t,
                vibration_values := Some (sp (stack s)), pred_label := dnn cfg fs\<rparr>)))"
proof -
  let ?fs = "[0, 0, Temperature_ReadData (LM35_sample inp), int_to_float x, int_to_float y,
    int_to_float z]"
  have "length ?fs = sensor_features" by (simp add: sensor_features_def)
  then have "infer (dnn cfg) (WrappedRamTensor [Suc 0, sensor_features] ?fs) = Inr (dnn cfg ?fs)"
    by (rule infer_Wrapped_Suc)
  with assms show ?thesis
    by (simp add: acq_cycle_def acquire_def Let_def acquire_real_Retain build_features_full
        printf_def)
qed

section \<open>Facts about one iteration and the loop\<close>

lemma Warning_UI_acq_frame:
  assumes "Warning_UI sim l a s = Inr s'"
  shows "sensor_data s' = sensor_data s" "pred_label s' = pred_label s"
    "sample_n s' = sample_n s" "temperature_value s' = temperature_value s"
    "vibration_values s' = vibration_values s"
  by (subst Warning_UI_Inr_eq [OF assms], simp)+

lemma Warning_UI_acq_inv:
  "acq_inv s \<Longrightarrow> Warning_UI sim l a s = Inr s' \<Longrightarrow> acq_inv s'"
  using Warning_UI_keeps_wf [of s sim l a s']
  by (simp add: acq_inv_def Warning_UI_acq_frame Warning_UI_board_frame)

lemma acquire_simulated_frame:
  assumes "acquire_simulated d r s = Inr (t, s')"
  shows "leds s' = leds s" "lcd s' = lcd s" "stack s' = stack s"
    "accelerometer s' = accelerometer s" "sensor_data s' = sensor_data s"
    "temperature s' = temperature s" "vibration s' = vibration s"
    "pred_label s' = pred_label s" "temperature_value s' = temperature_value s"
    "vibration_values s' = vibration_values s"
  using assms
  by (auto simp: acquire_simulated_def rbind_eq_Inr_iff fold_printf_eq printf_def leds_def)

lemma acquire_real_Inr:
  assumes "acquire_real m inp s = Inr (t, s')"
  shows "m = Retain"
    and "t = WrappedRamTensor [1, sensor_features] (sensor_data s')"
    and "sensor_data s' = build_features (Temperature_ReadData (LM35_sample inp))
               (ADXL345_output inp) (sensor_data s)"
    and "stack s' = dead_array (sp (stack s)) (ADXL345_output inp) (stack s)"
    and "accelerometer s' = (accelerometer s)\<lparr>POWER_CTL := 0x08\<rparr>"
    and "leds s' = leds s" and "lcd s' = lcd s"
    and "sample_n s' = 0" and "temperature_value s' = Temperature_ReadData (LM35_sample inp)"
    and "vibration_values s' = Some (sp (stack s))" and "pred_label s' = pred_label s"
    and "temperature s' = temperature s" and "vibration s' = vibration s"
proof -
  obtain x y z where xyz: "ADXL345_output inp = (x, y, z)" by (cases "ADXL345_output inp")
  from assms show m: "m = Retain" by (cases m) (simp_all add: acquire_real_Strict)
  from assms have s': "s' = snd (projr (acquire_real Retain inp s))"
    and t: "t = fst (projr (acquire_real Retain inp s))" by (simp_all add: m)
  show "t = WrappedRamTensor [1, sensor_features] (sensor_data s')"
    and "sensor_data s' = build_features (Temperature_ReadData (LM35_sample inp))
               (ADXL345_output inp) (sensor_data s)"
    and "stack s' = dead_array (sp (stack s)) (ADXL345_output inp) (stack s)"
    and "accelerometer s' = (accelerometer s)\<lparr>POWER_CTL := 0x08\<rparr>"
    and "leds s' = leds s" and "lcd s' = lcd s"
    and "sample_n s' = 0" and "temperature_value s' = Temperature_ReadData (LM35_sample inp)"
    and "vibration_values s' = Some (sp (stack s))" and "pred_label s' = pred_label s"
    and "temperature s' = temperature s" and "vibration s' = vibration s"
    by (simp_all add: s' t acquire_real_Retain [OF xyz] Let_def xyz leds_def)
qed

lemma acquire_Inr:
  assumes "acquire cfg inp s = Inr (t, s')" and "acq_inv s"
  shows "input_ok t" and "acq_inv s'" and "leds s' = leds s" and "lcd s' = lcd s"
    and "sp (stack s') = sp (stack s)"
proof -
  have "input_ok t \<and> acq_inv s' \<and> leds s' = leds s \<and> lcd s' = lcd s
      \<and> sp (stack s') = sp (stack s)"
  proof (cases "SIMULATED_DATA cfg")
    case True
    with assms(1) have r: "acquire_simulated (samples cfg) (rand_value inp) s = Inr (t, s')"
      by (simp add: acquire_def)
    from acquire_simulated_frame [OF r] acquire_simulated_Inr(1) [OF r] assms(2)
    show ?thesis by (simp add: acq_inv_def panel_wf_def leds_def)
  next
    case False
    with assms(1) have r: "acquire_real (lifetime cfg) inp s = Inr (t, s')"
      by (simp add: acquire_def)
    obtain x y z where xyz: "ADXL345_output inp = (x, y, z)" by (cases "ADXL345_output inp")
    from acquire_real_Inr [OF r] assms(2)
    show ?thesis
      by (simp add: acq_inv_def panel_wf_def leds_def input_ok_def WrappedRamTensor_def
          stack_wf_dead_array xyz)
  qed
  then show "input_ok t" and "acq_inv s'" and "leds s' = leds s" and "lcd s' = lcd s"
    and "sp (stack s') = sp (stack s)" by simp_all
qed

lemma acq_cycle_Inr:
  assumes "acq_cycle cfg inp s = Inr s'"
  obtains t s1 a where "acquire cfg inp (printf CycleSeparator s) = Inr (t, s1)"
    and "input_ok t"
    and "Warning_UI (SIMULATED_DATA cfg) (dnn cfg (floats_of (contents t))) a
           (s1\<lparr>pred_label := dnn cfg (floats_of (contents t))\<rparr>) = Inr s'"
proof -
  from assms obtain t s1 lbl a where 1: "acquire cfg inp (printf CycleSeparator s) = Inr (t, s1)"
    and 2: "infer (dnn cfg) t = Inr lbl"
    and 3: "Warning_UI (SIMULATED_DATA cfg) lbl a (s1\<lparr>pred_label := lbl\<rparr>) = Inr s'"
    by (auto simp: acq_cycle_def Let_def rbind_eq_Inr_iff)
  from 2 have ok: "input_ok t" using is_ok_infer [of "dnn cfg" t] by simp
  with 2 have "lbl = dnn cfg (floats_of (contents t))" by (simp add: infer_ok)
  with 1 ok 3 that show ?thesis by blast
qed

lemma acq_inv_printf [simp]: "acq_inv (printf m s) = acq_inv s"
  by (simp add: acq_inv_def panel_wf_def printf_def)

lemma acq_inv_pred_label [simp]: "acq_inv (s\<lparr>pred_label := l\<rparr>) = acq_inv s"
  by (simp add: acq_inv_def panel_wf_def)

lemma acq_cycle_keeps_inv:
  assumes "acq_inv s" and "acq_cycle cfg inp s = Inr s'"
  shows "acq_inv s'"
proof -
  from assms(2) obtain t s1 a where 1: "acquire cfg inp (printf CycleSeparator s) = Inr (t, s1)"
    and 3: "Warning_UI (SIMULATED_DATA cfg) (dnn cfg (floats_of (contents t))) a
           (s1\<lparr>pred_label := dnn cfg (floats_of (contents t))\<rparr>) = Inr s'"
    by (rule acq_cycle_Inr)
  from acquire_Inr(2) [OF 1] assms(1)
  have "acq_inv (s1\<lparr>pred_label := dnn cfg (floats_of (contents t))\<rparr>)" by simp
  then show ?thesis using 3 by (rule Warning_UI_acq_inv)
qed

lemma run_cycles_append:
  "run_cycles cfg (xs @ ys) s = rbind (run_cycles cfg xs s) (run_cycles cfg ys)"
proof (induction xs arbitrary: s)
  case (Cons x xs)
  then show ?case by (cases "acq_cycle cfg x s") simp_all
qed simp

lemma run_cycles_keeps_inv:
  "acq_inv s \<Longrightarrow> run_cycles cfg inps s = Inr s' \<Longrightarrow> acq_inv s'"
  by (induction inps arbitrary: s) (auto simp: rbind_eq_Inr_iff dest: acq_cycle_keeps_inv)

lemma acq_cycle_total:
  assumes "label_total (dnn cfg)" and "dataset_ok (samples cfg)"
    and "SIMULATED_DATA cfg \<or> lifetime cfg = Retain"
    and "SIMULATED_DATA cfg \<longrightarrow> 0 \<le> sint (rand_value inp)" and "acq_inv s"
  shows "is_ok (acq_cycle cfg inp s)"
proof (cases "SIMULATED_DATA cfg")
  case True
  with assms(4) have r: "0 \<le> sint (rand_value inp)" by simp
  from assms(1) have "\<And>xs. valid_label (dnn cfg xs)" by (simp add: label_total_def)
  with dataset_ok_draw(4) [OF assms(2) r] show ?thesis
    by (simp add: acq_cycle_simulated_eq [OF True assms(2) r] Let_def Warning_UI_ok_iff_aux)
next
  case False
  obtain x y z where xyz: "ADXL345_output inp = (x, y, z)" by (cases "ADXL345_output inp")
  from assms(5) have len: "length (sensor_data s) = sensor_features" by (simp add: acq_inv_def)
  from False assms(3) have m: "lifetime cfg = Retain" by simp
  from assms(2) have "is_ok (c_index (actual_data_label (samples cfg)) 0)"
    by (simp add: dataset_ok_def c_index_is_ok)
  moreover from assms(1) have "\<And>xs. valid_label (dnn cfg xs)" by (simp add: label_total_def)
  ultimately show ?thesis
    by (simp add: acq_cycle_real_eq [OF False m xyz len] Let_def is_ok_rbind_projr
        Warning_UI_ok_iff_aux)
qed

lemma run_cycles_total:
  assumes "label_total (dnn cfg)" and "dataset_ok (samples cfg)"
    and "SIMULATED_DATA cfg \<or> lifetime cfg = Retain"
    and "\<forall>inp \<in> set inps. 0 \<le> sint (rand_value inp)" and "acq_inv s"
  shows "is_ok (run_cycles cfg inps s)"
  using assms(4,5)
proof (induction inps arbitrary: s)
  case (Cons inp inps)
  then have "is_ok (acq_cycle cfg inp s)"
    using acq_cycle_total [OF assms(1-3), of inp s] by simp
  then obtain s1 where s1: "acq_cycle cfg inp s = Inr s1" by (auto simp: is_ok_iff)
  with Cons.prems(2) have "acq_inv s1" by (auto dest: acq_cycle_keeps_inv)
  with Cons s1 show ?case by simp
qed simp

lemma acq_cycle_lcd:
  assumes "acq_inv s" and "acq_cycle cfg inp s = Inr s'"
  shows "lcd s' = lcd s @ [LCD_Clear,
     LCD_DisplayString (time_zone_labels ! nat (sint (pred_label s')))]"
proof -
  from assms(2) obtain t s1 a where 1: "acquire cfg inp (printf CycleSeparator s) = Inr (t, s1)"
    and 3: "Warning_UI (SIMULATED_DATA cfg) (dnn cfg (floats_of (contents t))) a
           (s1\<lparr>pred_label := dnn cfg (floats_of (contents t))\<rparr>) = Inr s'"
    by (rule acq_cycle_Inr)
  from acquire_Inr(4) [OF 1] assms(1) have "lcd s1 = lcd s" by simp
  with Warning_UI_Inr_panel(3) [OF 3] Warning_UI_acq_frame(2) [OF 3] show ?thesis by simp
qed

lemma run_cycles_lcd:
  "acq_inv s \<Longrightarrow> run_cycles cfg inps s = Inr s' \<Longrightarrow>
   length (lcd s') = length (lcd s) + 2 * length inps"
proof (induction inps arbitrary: s)
  case (Cons inp inps)
  from Cons.prems(2) obtain s1 where 1: "acq_cycle cfg inp s = Inr s1"
    and 2: "run_cycles cfg inps s1 = Inr s'" by (auto simp: rbind_eq_Inr_iff)
  from acq_cycle_keeps_inv [OF Cons.prems(1) 1] have "acq_inv s1" .
  from Cons.IH [OF this 2] acq_cycle_lcd [OF Cons.prems(1) 1] show ?case by simp
qed simp

lemma acquire_frame:
  assumes "acquire cfg inp s = Inr (t, s')"
  shows "leds s' = leds s" and "lcd s' = lcd s" and "temperature s' = temperature s"
    and "vibration s' = vibration s" and "pred_label s' = pred_label s"
    and "configured (accelerometer s) \<Longrightarrow> configured (accelerometer s')"
proof -
  have "leds s' = leds s \<and> lcd s' = lcd s \<and> temperature s' = temperature s
      \<and> vibration s' = vibration s \<and> pred_label s' = pred_label s
      \<and> (configured (accelerometer s) \<longrightarrow> configured (accelerometer s'))"
  proof (cases "SIMULATED_DATA cfg")
    case True
    with assms have r: "acquire_simulated (samples cfg) (rand_value inp) s = Inr (t, s')"
      by (simp add: acquire_def)
    from acquire_simulated_frame [OF r] show ?thesis by simp
  next
    case False
    with assms have r: "acquire_real (lifetime cfg) inp s = Inr (t, s')"
      by (simp add: acquire_def)
    from acquire_real_Inr [OF r] show ?thesis by (simp add: configured_def)
  qed
  then show "leds s' = leds s" and "lcd s' = lcd s" and "temperature s' = temperature s"
    and "vibration s' = vibration s" and "pred_label s' = pred_label s"
    and "configured (accelerometer s) \<Longrightarrow> configured (accelerometer s')" by simp_all
qed

lemma acq_cycle_panel:
  assumes "acq_cycle cfg inp s = Inr s'"
  shows "leds s' = (case code_indicator (pred_label s') of Some i \<Rightarrow> indicator_leds i
                   | None \<Rightarrow> leds s)"
    and "lcd s' = lcd s @ [LCD_Clear,
          LCD_DisplayString (time_zone_labels ! nat (sint (pred_label s')))]"
    and "valid_label (pred_label s')"
proof -
  from assms obtain t s1 a where 1: "acquire cfg inp (printf CycleSeparator s) = Inr (t, s1)"
    and 3: "Warning_UI (SIMULATED_DATA cfg) (dnn cfg (floats_of (contents t))) a
           (s1\<lparr>pred_label := dnn cfg (floats_of (contents t))\<rparr>) = Inr s'"
    by (rule acq_cycle_Inr)
  from Warning_UI_acq_frame(2) [OF 3]
  have l: "pred_label s' = dnn cfg (floats_of (contents t))" by simp
  from acquire_frame(1,2) [OF 1] have f: "leds s1 = leds s" "lcd s1 = lcd s" by simp_all
  then have "leds (s1\<lparr>pred_label := dnn cfg (floats_of (contents t))\<rparr>) = leds s"
    by (simp add: leds_def)
  with Warning_UI_Inr_panel [OF 3] f(2) l
  show "leds s' = (case code_indicator (pred_label s') of Some i \<Rightarrow> indicator_leds i
                   | None \<Rightarrow> leds s)"
    and "lcd s' = lcd s @ [LCD_Clear,
          LCD_DisplayString (time_zone_labels ! nat (sint (pred_label s')))]"
    and "valid_label (pred_label s')" by (simp_all split: option.splits)
qed

lemma acquire_console:
  assumes "acquire cfg inp s = Inr (t, s')"
  shows "\<exists>m. console s' = console s @ m"
proof (cases "SIMULATED_DATA cfg")
  case True
  with assms show ?thesis
    by (auto simp: acquire_def acquire_simulated_def rbind_eq_Inr_iff fold_printf_eq)
next
  case False
  obtain x y z where xyz: "ADXL345_output inp = (x, y, z)" by (cases "ADXL345_output inp")
  from False assms have r: "acquire_real (lifetime cfg) inp s = Inr (t, s')"
    by (simp add: acquire_def)
  from acquire_real_Inr(1) [OF r] r show ?thesis
    by (auto simp: acquire_real_Retain [OF xyz] Let_def)
qed

section \<open>Independence of the red LED\<close>

lemma red_out:
  fixes s :: "'a acq_scheme"
  shows "s\<lparr>led_RED := r, led_GREEN := g\<rparr> = s\<lparr>led_GREEN := g, led_RED := r\<rparr>"
    "s\<lparr>led_RED := r, BLINK_WARNING_LED := b\<rparr> = s\<lparr>BLINK_WARNING_LED := b, led_RED := r\<rparr>"
    "s\<lparr>led_RED := r, lcd := l\<rparr> = s\<lparr>lcd := l, led_RED := r\<rparr>"
    "s\<lparr>led_RED := r, console := c\<rparr> = s\<lparr>console := c, led_RED := r\<rparr>"
    "s\<lparr>led_RED := r, temperature := t\<rparr> = s\<lparr>temperature := t, led_RED := r\<rparr>"
    "s\<lparr>led_RED := r, vibration := v\<rparr> = s\<lparr>vibration := v, led_RED := r\<rparr>"
    "s\<lparr>led_RED := r, accelerometer := a\<rparr> = s\<lparr>accelerometer := a, led_RED := r\<rparr>"
    "s\<lparr>led_RED := r, stack := st\<rparr> = s\<lparr>stack := st, led_RED := r\<rparr>"
    "s\<lparr>led_RED := r, sensor_data := sd\<rparr> = s\<lparr>sensor_data := sd, led_RED := r\<rparr>"
    "s\<lparr>led_RED := r, pred_label := pl\<rparr> = s\<lparr>pred_label := pl, led_RED := r\<rparr>"
    "s\<lparr>led_RED := r, sample_n := k\<rparr> = s\<lparr>sample_n := k, led_RED := r\<rparr>"
    "s\<lparr>led_RED := r, temperature_value := tv\<rparr> = s\<lparr>temperature_value := tv, led_RED := r\<rparr>"
    "s\<lparr>led_RED := r, vibration_values := vv\<rparr> = s\<lparr>vibration_values := vv, led_RED := r\<rparr>"
  by simp_all

lemma acquire_simulated_red:
  "acquire_simulated d k (s\<lparr>led_RED := r\<rparr>) =
     map_sum id (\<lambda>(t, s'). (t, s'\<lparr>led_RED := r\<rparr>)) (acquire_simulated d k s)"
  by (simp add: acquire_simulated_def fold_printf_eq printf_def map_sum_rbind red_out)

lemma acquire_real_red:
  "acquire_real m inp (s\<lparr>led_RED := r\<rparr>) =
     map_sum id (\<lambda>(t, s'). (t, s'\<lparr>led_RED := r\<rparr>)) (acquire_real m inp s)"
proof -
  obtain x y z where xyz: "ADXL345_output inp = (x, y, z)" by (cases "ADXL345_output inp")
  show ?thesis
    by (cases m) (simp_all add: acquire_real_Strict acquire_real_Retain [OF xyz] Let_def red_out)
qed

lemma acquire_red:
  "acquire cfg inp (s\<lparr>led_RED := r\<rparr>) =
     map_sum id (\<lambda>(t, s'). (t, s'\<lparr>led_RED := r\<rparr>)) (acquire cfg inp s)"
  by (simp add: acquire_def acquire_simulated_red acquire_real_red)

lemma acq_cycle_simulated_ok:
  assumes "SIMULATED_DATA cfg" and "dataset_ok (samples cfg)" and "0 \<le> sint (rand_value inp)"
  shows "is_ok (acq_cycle cfg inp s) \<longleftrightarrow>
     valid_label (dnn cfg (input_data_array (samples cfg) ! draw (samples cfg) (rand_value inp)))"
  using dataset_ok_draw(4) [OF assms(2,3)]
  by (simp add: acq_cycle_simulated_eq [OF assms] Let_def Warning_UI_ok_iff_aux)

lemma acq_cycle_simulated_Inr:
  assumes "SIMULATED_DATA cfg" and "dataset_ok (samples cfg)" and "0 \<le> sint (rand_value inp)"
    and "acq_cycle cfg inp s = Inr s'"
  shows "sample_n s' = word_of_nat (draw (samples cfg) (rand_value inp))
     \<and> pred_label s' = dnn cfg (input_data_array (samples cfg) ! draw (samples cfg) (rand_value inp))
     \<and> leds s' = (case code_indicator (pred_label s') of Some i \<Rightarrow> indicator_leds i
                   | None \<Rightarrow> leds s)
     \<and> lcd s' = lcd s @ [LCD_Clear,
          LCD_DisplayString (time_zone_labels ! nat (sint (pred_label s')))]
     \<and> accelerometer s' = accelerometer s \<and> stack s' = stack s
     \<and> sensor_data s' = sensor_data s"
proof -
  let ?k = "draw (samples cfg) (rand_value inp)"
  let ?row = "input_data_array (samples cfg) ! ?k"
  let ?s2 = "s\<lparr>console := console s @ CycleSeparator # SampleIndex (word_of_nat ?k) #
               map FeatureValue ?row,
             sample_n := word_of_nat ?k, pred_label := dnn cfg ?row\<rparr>"
  from assms(4) have w: "Warning_UI True (dnn cfg ?row) (actual_data_label (samples cfg) ! ?k) ?s2
      = Inr s'"
    by (simp add: acq_cycle_simulated_eq [OF assms(1-3)] Let_def)
  from Warning_UI_Inr_panel(2,3) [OF w] Warning_UI_acq_frame [OF w] Warning_UI_board_frame [OF w]
  show ?thesis by (auto simp: leds_def split: option.splits)
qed

lemma acq_cycle_real_Inr:
  assumes "\<not> SIMULATED_DATA cfg" and "acq_inv s" and "ADXL345_output inp = (x, y, z)"
    and "acq_cycle cfg inp s = Inr s'"
  shows "lifetime cfg = Retain
     \<and> sensor_data s' = [0, 0, 48.9796 * LM35_sample inp, real_of_int (sint x),
          real_of_int (sint y), real_of_int (sint z)]
     \<and> pred_label s' = dnn cfg (sensor_data s') \<and> sample_n s' = 0
     \<and> leds s' = (case code_indicator (pred_label s') of Some i \<Rightarrow> indicator_leds i
                   | None \<Rightarrow> leds s)
     \<and> lcd s' = lcd s @ [LCD_Clear,
          LCD_DisplayString (time_zone_labels ! nat (sint (pred_label s')))]
     \<and> accelerometer s' = (accelerometer s)\<lparr>POWER_CTL := 0x08\<rparr>
     \<and> sp (stack s') = sp (stack s)
     \<and> vibration_values s' = Some (sp (stack s))"
proof -
  from assms(1,4) have m: "lifetime cfg = Retain"
    by (cases "lifetime cfg") (simp_all add: acq_cycle_Strict)
  from assms(2) have len: "length (sensor_data s) = sensor_features" by (simp add: acq_inv_def)
  let ?t = "Temperature_ReadData (LM35_sample inp)"
  let ?fs = "[0, 0, ?t, int_to_float x, int_to_float y, int_to_float z]"
  from assms(4) obtain a where w: "Warning_UI False (dnn cfg ?fs) a
       (s\<lparr>console := console s @ [CycleSeparator,
              SensorReadings (to_int16 x) (to_int16 y) (to_int16 z) ?t],
          accelerometer := (accelerometer s)\<lparr>POWER_CTL := 0x08\<rparr>,
          stack := dead_array (sp (stack s)) (x, y, z) (stack s),
          sensor_data := ?fs, sample_n := 0, temperature_value := ?t,
          vibration_values := Some (sp (stack s)), pred_label := dnn cfg ?fs\<rparr>) = Inr s'"
    by (auto simp: acq_cycle_real_eq [OF assms(1) m assms(3) len] Let_def rbind_eq_Inr_iff)
  from Warning_UI_Inr_panel(2,3) [OF w] Warning_UI_acq_frame [OF w] Warning_UI_board_frame [OF w] m
  show ?thesis
    by (auto simp: leds_def int_to_float_def Temperature_ReadData_def split: option.splits)
qed

section \<open>The small configuration\<close>

lemma dataset_ok_demo [simp]: "dataset_ok demo_data"
  by (simp add: dataset_ok_def demo_data_def sensor_features_def valid_label_def
      time_prediction_zones_def)

lemma demo_cfg_simps [simp]:
  "SIMULATED_DATA (demo_cfg sim m) = sim" "dnn (demo_cfg sim m) = demo_net"
  "lifetime (demo_cfg sim m) = m" "samples (demo_cfg sim m) = demo_data"
  by (simp_all add: demo_cfg_def)

lemma demo_data_simps [simp]:
  "number_data_points demo_data = 3"
  "input_data_array demo_data = [[1, 2, 30, 4, 5, 6], [7, 8, 45, 10, 11, 12], [0, 0, 20, 1, 1, 1]]"
  "actual_data_label demo_data = [5, 3, 1]"
  by (simp_all add: demo_data_def)

lemma demo_input_simps [simp]:
  "rand_value demo_input = 7" "LM35_sample demo_input = 0.5"
  "ADXL345_output demo_input = (10, - 20, 30)"
  by (simp_all add: demo_input_def)

lemma demo_rand_simps [simp]:
  "rand_value (demo_rand k) = k" "LM35_sample (demo_rand k) = 0.5"
  "ADXL345_output (demo_rand k) = (10, - 20, 30)"
  by (simp_all add: demo_rand_def)

lemma demo_net_rows [simp]:
  "demo_net [1, 2, 30, 4, 5, 6] = 3" "demo_net [7, 8, 45, 10, 11, 12] = 1"
  "demo_net [0, 0, 20, 1, 1, 1] = 5"
  by (simp_all add: demo_net_def)

lemma draw_demo_small [simp]:
  "draw demo_data 0 = 0" "draw demo_data 1 = 1" "draw demo_data 2 = 2"
  by (simp_all add: draw_def)

lemma acq_inv_init [simp]: "acq_inv (acq_init dev)"
  by (simp add: acq_inv_def acq_init_def sensor_features_def panel_wf_def)

lemma label_total_demo [simp]: "label_total demo_net"
  by (simp add: label_total_def demo_net_def valid_label_def time_prediction_zones_def)

lemma draw_demo [simp]: "draw demo_data 7 = 1"
  by (simp add: draw_def)

section \<open>Properties of the acquisition loop\<close>

text \<open>
  Claim C3. In real mode under the lifetime rules of C++, the first iteration of
  the acquisition loop already leaves defined behaviour: it reads the vibration
  values through the pointer \<^verbatim>\<open>Vibration::ReadData\<close> returned, which dangles, at the
  address the stack pointer had when the iteration began. No prediction is made and
  the warning panel is never updated.
\<close>

theorem real_cycle_dangles:
  assumes "\<not> SIMULATED_DATA cfg" and "lifetime cfg = Strict"
  shows "run_cycles cfg (inp # inps) s = Inl (DanglingPointer (sp (stack s)))"
  using assms by (simp add: acq_cycle_Strict)

theorem real_cycle_dangles_witness:
  "run_cycles (demo_cfg False Strict) [demo_input] (acq_init adxl345_reset) = Inl (DanglingPointer 0)"
  using real_cycle_dangles [of "demo_cfg False Strict" demo_input "[]" "acq_init adxl345_reset"]
  by (simp add: acq_init_def stack_init_def)

text \<open>
  Claim C4. Feature placement. The tensor the iteration hands to the inference is
  the feature vector of the specification: in simulated mode the six values of the
  drawn sample, row \<open>rand() % number_data_points\<close> of the data set; in real mode,
  where the stale array is readable, \<open>(0, 0, t, x, y, z)\<close> with \<open>t\<close> the calibrated
  temperature and \<open>x, y, z\<close> the accelerometer's raw counts converted to \<^verbatim>\<open>float\<close>.
\<close>

theorem feature_placement:
  assumes "length (sensor_data s) = sensor_features"
    and "if SIMULATED_DATA cfg then dataset_ok (samples cfg) \<and> 0 \<le> sint (rand_value inp)
         else lifetime cfg = Retain"
  shows "map_sum id fst (acquire cfg inp s) =
     Inr (WrappedRamTensor [1, sensor_features]
       (spec_build (SIMULATED_DATA cfg)
          (input_data_array (samples cfg) ! draw (samples cfg) (rand_value inp))
          (48.9796 * LM35_sample inp) (ADXL345_output inp)))"
proof (cases "SIMULATED_DATA cfg")
  case True
  with assms(2) show ?thesis
    by (simp add: acquire_def acquire_simulated_eq spec_build_def)
next
  case False
  obtain x y z where xyz: "ADXL345_output inp = (x, y, z)" by (cases "ADXL345_output inp")
  from False assms show ?thesis
    by (simp add: acquire_def acquire_real_Retain [OF xyz] Let_def build_features_full
        spec_build_def xyz int_to_float_def Temperature_ReadData_def)
qed

theorem feature_placement_witness:
  "map_sum id fst (acquire (demo_cfg False Retain) demo_input (acq_init adxl345_reset)) =
     Inr (WrappedRamTensor [1, 6] [0, 0, 24.4898, 10, - 20, 30])
   \<and> map_sum id fst (acquire (demo_cfg True Strict) demo_input (acq_init adxl345_reset)) =
     Inr (WrappedRamTensor [1, 6] [7, 8, 45, 10, 11, 12])"
proof -
  have l: "length (sensor_data (acq_init adxl345_reset)) = sensor_features"
    by (simp add: acq_init_def sensor_features_def)
  have a: "if SIMULATED_DATA (demo_cfg False Retain)
      then dataset_ok (samples (demo_cfg False Retain)) \<and> 0 \<le> sint (rand_value demo_input)
      else lifetime (demo_cfg False Retain) = Retain" by simp
  have b: "if SIMULATED_DATA (demo_cfg True Strict)
      then dataset_ok (samples (demo_cfg True Strict)) \<and> 0 \<le> sint (rand_value demo_input)
      else lifetime (demo_cfg True Strict) = Retain" by simp
  from feature_placement [OF l a] feature_placement [OF l b] show ?thesis
    by (simp add: spec_build_def sensor_features_def)
qed

text \<open>
  Claim C17. One iteration in simulated mode, when it returns: the sample index is
  \<open>rand() % number_data_points\<close>, the predicted label is the network's output on that
  row of the data set, the LEDs and the blink flag are those of the label's zone
  (unchanged for a label \<^verbatim>\<open>Warning_UI\<close> does not handle), the LCD is cleared and shows
  the label's text, and neither the accelerometer, the stack nor the sensor buffer
  is touched.
\<close>

theorem simulated_cycle:
  assumes "SIMULATED_DATA cfg" and "dataset_ok (samples cfg)" and "0 \<le> sint (rand_value inp)"
    and "acq_cycle cfg inp s = Inr s'"
  shows "sample_n s' = word_of_nat (draw (samples cfg) (rand_value inp))
     \<and> pred_label s' = dnn cfg (input_data_array (samples cfg) ! draw (samples cfg) (rand_value inp))
     \<and> leds s' = (case code_indicator (pred_label s') of Some i \<Rightarrow> indicator_leds i
                   | None \<Rightarrow> leds s)
     \<and> lcd s' = lcd s @ [LCD_Clear,
          LCD_DisplayString (time_zone_labels ! nat (sint (pred_label s')))]
     \<and> accelerometer s' = accelerometer s \<and> stack s' = stack s
     \<and> sensor_data s' = sensor_data s"
  using assms by (rule acq_cycle_simulated_Inr)

theorem simulated_cycle_witness:
  "pred_label (projr (acq_cycle (demo_cfg True Strict) demo_input (acq_init adxl345_reset))) = 1
   \<and> leds (projr (acq_cycle (demo_cfg True Strict) demo_input (acq_init adxl345_reset)))
       = (False, True, False)
   \<and> lcd_text (lcd (projr (acq_cycle (demo_cfg True Strict) demo_input (acq_init adxl345_reset))))
       = Some ''<15 MIN''"
proof -
  let ?r = "acq_cycle (demo_cfg True Strict) demo_input (acq_init adxl345_reset)"
  have "is_ok ?r" by (rule acq_cycle_total) simp_all
  then have ok: "?r = Inr (projr ?r)" by (cases ?r) simp_all
  have a: "0 \<le> sint (rand_value demo_input)" by simp
  from simulated_cycle [OF _ _ a ok] show ?thesis
    by (simp add: demo_net_def code_indicator_def time_zone_labels_def)
qed

text \<open>
  Claim C18. One iteration in real mode, when it returns: the stale array was
  readable, the sensor buffer holds \<open>(0, 0, t, x, y, z)\<close> with the calibrated
  temperature and the raw counts, the predicted label is the network's output on
  that buffer, the panel shows the label's zone, the accelerometer is measuring,
  the stack is balanced and \<^verbatim>\<open>vibration_values\<close> still points at the dead array.
\<close>

theorem real_cycle_retained:
  assumes "\<not> SIMULATED_DATA cfg" and "acq_inv s" and "ADXL345_output inp = (x, y, z)"
    and "acq_cycle cfg inp s = Inr s'"
  shows "lifetime cfg = Retain
     \<and> sensor_data s' = [0, 0, 48.9796 * LM35_sample inp, real_of_int (sint x),
          real_of_int (sint y), real_of_int (sint z)]
     \<and> pred_label s' = dnn cfg (sensor_data s') \<and> sample_n s' = 0
     \<and> leds s' = (case code_indicator (pred_label s') of Some i \<Rightarrow> indicator_leds i
                   | None \<Rightarrow> leds s)
     \<and> lcd s' = lcd s @ [LCD_Clear,
          LCD_DisplayString (time_zone_labels ! nat (sint (pred_label s')))]
     \<and> measuring (accelerometer s') \<and> sp (stack s') = sp (stack s)
     \<and> vibration_values s' = Some (sp (stack s))"
  using acq_cycle_real_Inr [OF assms] by simp

theorem real_cycle_retained_witness:
  "sensor_data (projr (acq_cycle (demo_cfg False Retain) demo_input (acq_init adxl345_reset)))
     = [0, 0, 24.4898, 10, - 20, 30]
   \<and> pred_label (projr (acq_cycle (demo_cfg False Retain) demo_input (acq_init adxl345_reset))) = 5
   \<and> leds (projr (acq_cycle (demo_cfg False Retain) demo_input (acq_init adxl345_reset)))
       = (True, False, False)"
proof -
  let ?r = "acq_cycle (demo_cfg False Retain) demo_input (acq_init adxl345_reset)"
  have "is_ok ?r" by (rule acq_cycle_total) simp_all
  then have ok: "?r = Inr (projr ?r)" by (cases ?r) simp_all
  have a: "ADXL345_output demo_input = (10, - 20, 30)" by simp
  from real_cycle_retained [OF _ _ a ok] show ?thesis
    by (simp add: demo_net_def code_indicator_def)
qed

text \<open>
  Claim C23. Shape invariance. Whenever the acquisition step of an iteration
  returns, in either mode, the tensor it hands to the inference has the shape
  \<open>[1, 6]\<close> with six \<^verbatim>\<open>float\<close> elements, and the sensor buffer still has six elements.
\<close>

theorem shape_invariance:
  assumes "acq_inv s" and "acquire cfg inp s = Inr (t, s')"
  shows "input_ok t \<and> length (sensor_data s') = sensor_features"
  using acquire_Inr(1,2) [OF assms(2,1)] by (simp add: acq_inv_def)

theorem shape_invariance_witness:
  "input_ok (fst (projr (acquire (demo_cfg True Strict) demo_input (acq_init adxl345_reset))))
   \<and> input_ok (fst (projr (acquire (demo_cfg False Retain) demo_input (acq_init adxl345_reset))))"
proof -
  let ?a = "acquire (demo_cfg True Strict) demo_input (acq_init adxl345_reset)"
  let ?b = "acquire (demo_cfg False Retain) demo_input (acq_init adxl345_reset)"
  have a: "?a = Inr (fst (projr ?a), snd (projr ?a))"
    by (simp add: acquire_def acquire_simulated_eq)
  have b: "?b = Inr (fst (projr ?b), snd (projr ?b))"
    by (simp add: acquire_def acquire_real_Retain [of _ 10 "- 20" 30] Let_def)
  from shape_invariance [OF acq_inv_init a] shape_invariance [OF acq_inv_init b]
  show ?thesis by simp
qed

text \<open>
  Claim C22. The invariant of the acquisition thread holds after every run of the
  loop that stays within defined behaviour: the sensor buffer has six elements, no
  cell at or above the stack pointer is live, and the blink flag is only set while
  the green LED is on.
\<close>

theorem run_cycles_inv:
  assumes "acq_inv s" and "run_cycles cfg inps s = Inr s'"
  shows "acq_inv s'"
  using assms by (rule run_cycles_keeps_inv)

theorem run_cycles_inv_witness:
  "acq_inv (projr (run_cycles (demo_cfg True Strict) [demo_input, demo_input]
     (acq_init adxl345_reset)))"
proof -
  let ?r = "run_cycles (demo_cfg True Strict) [demo_input, demo_input] (acq_init adxl345_reset)"
  have "is_ok ?r" by (rule run_cycles_total) simp_all
  then have ok: "?r = Inr (projr ?r)" by (cases ?r) simp_all
  from run_cycles_inv [OF acq_inv_init ok] show ?thesis .
qed

text \<open>
  Claim C8. The loop never stops on its own. With a network whose labels are all in
  range and a well-formed data set, in simulated mode or where the stale array is
  readable, every finite sequence of inputs with non-negative \<^verbatim>\<open>rand()\<close> values is
  processed to its end, and each iteration has cleared and rewritten the LCD.
\<close>

theorem run_cycles_never_stops:
  assumes "label_total (dnn cfg)" and "dataset_ok (samples cfg)"
    and "SIMULATED_DATA cfg \<or> lifetime cfg = Retain"
    and "\<forall>inp \<in> set inps. 0 \<le> sint (rand_value inp)" and "acq_inv s"
  shows "\<exists>s'. run_cycles cfg inps s = Inr s'
     \<and> length (lcd s') = length (lcd s) + 2 * length inps"
proof -
  from run_cycles_total [OF assms] obtain s' where "run_cycles cfg inps s = Inr s'"
    by (auto simp: is_ok_iff)
  with run_cycles_lcd [OF assms(5) this] show ?thesis by simp
qed

theorem run_cycles_never_stops_witness:
  "is_ok (run_cycles (demo_cfg False Retain) [demo_input, demo_input, demo_input]
     (acq_init adxl345_reset))
   \<and> is_ok (run_cycles (demo_cfg True Strict) [demo_input, demo_input, demo_input]
     (acq_init adxl345_reset))"
proof -
  have a: "\<forall>inp \<in> set [demo_input, demo_input, demo_input]. 0 \<le> sint (rand_value inp)"
    by simp
  have 1: "SIMULATED_DATA (demo_cfg False Retain) \<or> lifetime (demo_cfg False Retain) = Retain"
    by simp
  have 2: "SIMULATED_DATA (demo_cfg True Strict) \<or> lifetime (demo_cfg True Strict) = Retain"
    by simp
  from run_cycles_never_stops [OF _ _ 1 a acq_inv_init]
    run_cycles_never_stops [OF _ _ 2 a acq_inv_init]
  show ?thesis by (auto simp: is_ok_iff)
qed

text \<open>
  Claim C28. The vibration values printed in real mode are cast to \<^verbatim>\<open>int16_t\<close>,
  the features are not: the printed value of an axis equals the feature handed to
  the network exactly when the reading is within the 16-bit range, which the 13-bit
  output of the accelerometer always is.
\<close>

theorem printed_readings_agree:
  assumes "acquire_real m inp s = Inr (t, s')" and "ADXL345_output inp = (x, y, z)"
    and "length (sensor_data s) = sensor_features"
  shows "\<exists>a b c. last (console s') = SensorReadings a b c (48.9796 * LM35_sample inp)
     \<and> (real_of_int (sint a) = sensor_data s' ! 3 \<longleftrightarrow> - 32768 \<le> sint x \<and> sint x < 32768)
     \<and> (real_of_int (sint b) = sensor_data s' ! 4 \<longleftrightarrow> - 32768 \<le> sint y \<and> sint y < 32768)
     \<and> (real_of_int (sint c) = sensor_data s' ! 5 \<longleftrightarrow> - 32768 \<le> sint z \<and> sint z < 32768)"
proof -
  from assms(1) have m: "m = Retain" by (rule acquire_real_Inr)
  from assms(1) have "s' = snd (projr (acquire_real Retain inp s))" by (simp add: m)
  then have "last (console s') = SensorReadings (to_int16 x) (to_int16 y) (to_int16 z)
        (48.9796 * LM35_sample inp)"
    and "sensor_data s' = [0, 0, 48.9796 * LM35_sample inp, real_of_int (sint x),
        real_of_int (sint y), real_of_int (sint z)]"
    using assms(3)
    by (simp_all add: acquire_real_Retain [OF assms(2)] Let_def build_features_full
        int_to_float_def Temperature_ReadData_def)
  with to_int16_faithful_iff [of x] to_int16_faithful_iff [of y] to_int16_faithful_iff [of z]
  show ?thesis by (simp add: signed_real_eq_iff)
qed

theorem printed_readings_agree_witness:
  "last (console (snd (projr (acquire_real Retain
      \<lparr>rand_value = 0, LM35_sample = 1, ADXL345_output = (10, 40000, - 20)\<rparr>
      (acq_init adxl345_reset))))) = SensorReadings 10 (- 25536) (- 20) 48.9796
   \<and> sensor_data (snd (projr (acquire_real Retain
      \<lparr>rand_value = 0, LM35_sample = 1, ADXL345_output = (10, 40000, - 20)\<rparr>
      (acq_init adxl345_reset)))) = [0, 0, 48.9796, 10, 40000, - 20]"
proof -
  let ?i = "\<lparr>rand_value = 0, LM35_sample = 1, ADXL345_output = (10, 40000, - 20)\<rparr>"
  let ?r = "acquire_real Retain ?i (acq_init adxl345_reset)"
  have x: "ADXL345_output ?i = (10, 40000, - 20)" by simp
  have l: "length (sensor_data (acq_init adxl345_reset)) = sensor_features"
    by (simp add: acq_init_def sensor_features_def)
  have r: "?r = Inr (fst (projr ?r), snd (projr ?r))"
    by (simp add: acquire_real_Retain [OF x] Let_def)
  from printed_readings_agree [OF r x l] show ?thesis
    by (simp add: acquire_real_Retain [OF x] Let_def build_features_full sensor_features_def
        acq_init_def to_int16_def int_to_float_def Temperature_ReadData_def)
qed

end
