(* ===== verification/Scheduler.thy ===== *)
theory Scheduler
  imports Acquisition
begin

text \<open>
  The three threads of \<^verbatim>\<open>src/main.cpp\<close> and their interleaving: \<^verbatim>\<open>main\<close>, which
  initialises the panel and the sensors and starts the other two;
  \<^verbatim>\<open>ledWarning_thread_function\<close>, the blinker; and \<^verbatim>\<open>dataAcqusition_thread_function\<close>.

  The state \<open>sys\<close> holds the state of the acquisition thread and the devices
  (\<open>shared\<close>) and one program counter per thread. A step of a thread is what it does
  between two points at which another thread can observe or change what the two
  share, the red LED and the blink flag:

  \<^item> the blinker tests the flag, reads the red LED, writes its negation and waits,
    one step each (\<^verbatim>\<open>led_RED = !led_RED\<close> is a read followed by a write);
  \<^item> the acquisition thread runs an iteration up to the call of \<^verbatim>\<open>Warning_UI\<close> in one
    step (it touches nothing the blinker reads or writes), then performs the
    device writes of \<^verbatim>\<open>Warning_UI\<close> one step each, returns and waits. The writes are
    the list \<open>Warning_UI_ops\<close>, computed in the first step, so a subscript of
    \<^verbatim>\<open>Warning_UI\<close> that is out of range faults there, before the LED writes and not
    after them; no state is attributed to a faulted run;
  \<^item> \<^verbatim>\<open>main\<close> runs its five statements, one step each.

  A schedule is a list of \<open>action\<close>s, the thread that runs next and, for the
  acquisition thread, what the environment supplies if the step begins an
  iteration; \<open>exec\<close> runs a schedule. A thread that is not started or has returned
  does nothing when scheduled. \<open>reachable\<close> is the set of states some schedule
  leads to from \<open>sys_init\<close>, an inductive predicate. Cooperative scheduling, in
  which a thread runs from one \<^verbatim>\<open>wait\<close> to its next, is the predicate \<open>coop\<close>, whose
  steps are whole iterations.

  Two invariants of \<open>reachable\<close> are proved by rule induction: the start-up order
  (\<open>startup_ok\<close>) and \<open>boundary_ok\<close>, which says of the panel as the acquisition thread
  will leave it at the end of the iteration it is in (\<open>pending\<close>) that it shows the
  predicted zone on the LCD, the green LED and the blink flag.
\<close>

section \<open>State\<close>

datatype main_pc = M_Banner | M_Panel | M_StartBlinker | M_Sensors | M_StartAcq | M_Return

datatype blink_pc = B_NotStarted | B_Test | B_Read | B_Write bool | B_Wait

datatype acq_pc = A_NotStarted | A_Loop | A_Write "panel_op list" | A_Wait

record 'a sys =
  shared :: "'a acq_scheme"
  main_at :: main_pc
  blink_at :: blink_pc
  acq_at :: acq_pc

datatype action = Main | Blink | Acq cycle_input

definition sys_init :: "ADXL345 \<Rightarrow> unit sys" where
  "sys_init dev = \<lparr>shared = acq_init dev, main_at = M_Banner, blink_at = B_NotStarted,
     acq_at = A_NotStarted\<rparr>"

section \<open>The steps of the threads\<close>

definition banner :: "log_msg list" where
  "banner = [BannerLine 0, BannerLine 1, BannerLine 2, BannerLine 3, BannerLine 4]"

definition main_step :: "bool \<Rightarrow> 'a sys \<Rightarrow> 'a sys" where
  "main_step sim s =
     (case main_at s of
        M_Banner \<Rightarrow> s\<lparr>shared := fold printf banner (shared s), main_at := M_Panel\<rparr>
      | M_Panel \<Rightarrow> s\<lparr>shared := Initialise_Warning_Panel sim (shared s),
                      main_at := M_StartBlinker\<rparr>
      | M_StartBlinker \<Rightarrow> s\<lparr>blink_at := B_Test, main_at := M_Sensors\<rparr>
      | M_Sensors \<Rightarrow> s\<lparr>shared := (if \<not> sim then Initialise_Sensors (shared s) else shared s),
                        main_at := M_StartAcq\<rparr>
      | M_StartAcq \<Rightarrow> s\<lparr>acq_at := A_Loop, main_at := M_Return\<rparr>
      | M_Return \<Rightarrow> s)"

definition blink_step :: "'a sys \<Rightarrow> 'a sys" where
  "blink_step s =
     (case blink_at s of
        B_NotStarted \<Rightarrow> s
      | B_Test \<Rightarrow> (if BLINK_WARNING_LED (shared s) then s\<lparr>blink_at := B_Read\<rparr> else s)
      | B_Read \<Rightarrow> s\<lparr>blink_at := B_Write (\<not> led_RED (shared s))\<rparr>
      | B_Write v \<Rightarrow> s\<lparr>shared := (shared s)\<lparr>led_RED := v\<rparr>, blink_at := B_Wait\<rparr>
      | B_Wait \<Rightarrow> s\<lparr>blink_at := B_Test\<rparr>)"

definition acq_begin ::
  "config \<Rightarrow> cycle_input \<Rightarrow> 'a acq_scheme \<Rightarrow> ('a acq_scheme \<times> panel_op list) result" where
  "acq_begin cfg inp s =
     (let s0 = printf CycleSeparator s
      in rbind (acquire cfg inp s0) (\<lambda>(input_x, s1).
         rbind (infer (dnn cfg) input_x) (\<lambda>lbl.
         let s2 = s1\<lparr>pred_label := lbl\<rparr>
         in rbind (c_index (actual_data_label (samples cfg)) (sample_n s2)) (\<lambda>actual.
            rbind (Warning_UI_ops (SIMULATED_DATA cfg) (pred_label s2) actual) (\<lambda>ops.
              Inr (s2, ops))))))"

definition acq_step :: "config \<Rightarrow> cycle_input \<Rightarrow> 'a sys \<Rightarrow> 'a sys result" where
  "acq_step cfg inp s =
     (case acq_at s of
        A_NotStarted \<Rightarrow> Inr s
      | A_Loop \<Rightarrow> rbind (acq_begin cfg inp (shared s)) (\<lambda>(s2, ops).
                    Inr (s\<lparr>shared := s2, acq_at := A_Write ops\<rparr>))
      | A_Write ops \<Rightarrow>
          (case ops of
             [] \<Rightarrow> Inr (s\<lparr>acq_at := A_Wait\<rparr>)
           | w # ws \<Rightarrow> Inr (s\<lparr>shared := apply_op w (shared s), acq_at := A_Write ws\<rparr>))
      | A_Wait \<Rightarrow> Inr (s\<lparr>acq_at := A_Loop\<rparr>))"

section \<open>Schedules\<close>

primrec sys_step :: "config \<Rightarrow> action \<Rightarrow> 'a sys \<Rightarrow> 'a sys result" where
  "sys_step cfg Main s = Inr (main_step (SIMULATED_DATA cfg) s)"
| "sys_step cfg Blink s = Inr (blink_step s)"
| "sys_step cfg (Acq inp) s = acq_step cfg inp s"

fun exec :: "config \<Rightarrow> action list \<Rightarrow> 'a sys \<Rightarrow> 'a sys result" where
  "exec cfg [] s = Inr s"
| "exec cfg (a # as) s = rbind (sys_step cfg a s) (exec cfg as)"

inductive reachable :: "config \<Rightarrow> ADXL345 \<Rightarrow> unit sys \<Rightarrow> bool" for cfg dev where
  init: "reachable cfg dev (sys_init dev)"
| step: "reachable cfg dev s \<Longrightarrow> sys_step cfg a s = Inr s' \<Longrightarrow> reachable cfg dev s'"

section \<open>Cooperative scheduling\<close>

definition blink_iteration :: "'a sys \<Rightarrow> 'a sys" where
  "blink_iteration s = blink_step (blink_step (blink_step (blink_step s)))"

definition acq_finish :: "'a sys \<Rightarrow> 'a sys" where
  "acq_finish s =
     (case acq_at s of
        A_Write ops \<Rightarrow> s\<lparr>shared := run_ops ops (shared s), acq_at := A_Loop\<rparr>
      | A_NotStarted \<Rightarrow> s | A_Loop \<Rightarrow> s | A_Wait \<Rightarrow> s\<lparr>acq_at := A_Loop\<rparr>)"

definition acq_iteration :: "config \<Rightarrow> cycle_input \<Rightarrow> 'a sys \<Rightarrow> 'a sys result" where
  "acq_iteration cfg inp s = rbind (acq_step cfg inp s) (\<lambda>s1. Inr (acq_finish s1))"

definition boot :: "config \<Rightarrow> ADXL345 \<Rightarrow> unit sys" where
  "boot cfg dev = ((main_step (SIMULATED_DATA cfg)) ^^ 5) (sys_init dev)"

inductive coop :: "config \<Rightarrow> ADXL345 \<Rightarrow> unit sys \<Rightarrow> bool" for cfg dev where
  booted: "coop cfg dev (boot cfg dev)"
| blinks: "coop cfg dev s \<Longrightarrow> coop cfg dev (blink_iteration s)"
| acquires: "coop cfg dev s \<Longrightarrow> acq_iteration cfg inp s = Inr s' \<Longrightarrow> coop cfg dev s'"

section \<open>Views of the state\<close>

definition hide_red :: "'a sys \<Rightarrow> 'a sys" where
  "hide_red s = s\<lparr>shared := (shared s)\<lparr>led_RED := False\<rparr>, blink_at := B_NotStarted\<rparr>"

definition sequential :: "action list \<Rightarrow> action list" where
  "sequential sched = filter (\<lambda>a. a \<noteq> Blink) sched"

definition steady :: "'a sys \<Rightarrow> bool" where
  "steady s = (blink_at s = B_Test \<and> acq_at s = A_Loop \<and> main_at s = M_Return)"

definition legal_leds :: "bool \<times> bool \<times> bool \<Rightarrow> bool" where
  "legal_leds l = (l = indicator_leds UNKNOWN \<or> l = indicator_leds SAFE
     \<or> l = indicator_leds IMMINENT \<or> l = indicator_leds WARN \<or> l = (True, False, True))"

primrec main_rank :: "main_pc \<Rightarrow> nat" where
  "main_rank M_Banner = 0"
| "main_rank M_Panel = 1"
| "main_rank M_StartBlinker = 2"
| "main_rank M_Sensors = 3"
| "main_rank M_StartAcq = 4"
| "main_rank M_Return = 5"

definition splash :: "bool \<Rightarrow> lcd_call list" where
  "splash sim = [LCD_Clear, LCD_ScrollSentence (if sim then title1 else title2) 1 175]"

definition startup_ok :: "bool \<Rightarrow> 'a sys \<Rightarrow> bool" where
  "startup_ok sim s =
     ((acq_at s \<noteq> A_NotStarted \<longrightarrow> main_at s = M_Return)
      \<and> (blink_at s \<noteq> B_NotStarted \<longrightarrow> 3 \<le> main_rank (main_at s))
      \<and> (acq_at s = A_NotStarted \<longrightarrow>
            (blink_at s = B_NotStarted \<or> blink_at s = B_Test)
            \<and> leds (shared s) = (False, False, False))
      \<and> (if main_rank (main_at s) < 2 then lcd (shared s) = []
          else take 2 (lcd (shared s)) = splash sim)
      \<and> (4 \<le> main_rank (main_at s) \<and> \<not> sim \<longrightarrow>
            configured (accelerometer (shared s))
            \<and> identifier (temperature (shared s)) = 1
            \<and> identifier (vibration (shared s)) = 2))"

definition pending :: "'a sys \<Rightarrow> 'a acq_scheme" where
  "pending s = (case acq_at s of A_Write ops \<Rightarrow> run_ops ops (shared s) | _ \<Rightarrow> shared s)"

definition shows_zone :: "'a acq_scheme \<Rightarrow> bool" where
  "shows_zone p =
     (\<exists>z. pred_label p = zone_code z \<and> lcd_text (lcd p) = Some (zone_label z)
        \<and> (z \<noteq> FAULT \<longrightarrow>
             led_GREEN p = fst (indicator_leds (spec_indicator (zone_code z)))
           \<and> BLINK_WARNING_LED p = snd (snd (indicator_leds (spec_indicator (zone_code z))))))"

definition boundary_ok :: "'a sys \<Rightarrow> bool" where
  "boundary_ok s =
     (if CycleSeparator \<in> set (console (shared s))
      then acq_at s \<noteq> A_NotStarted \<and> shows_zone (pending s)
      else acq_at s = A_NotStarted \<or> acq_at s = A_Loop)"

inductive_cases reachable_cases: "reachable cfg dev s"

inductive_cases coop_cases: "coop cfg dev s"

section \<open>Schedules and iterations\<close>

lemma exec_append: "exec cfg (xs @ ys) s = rbind (exec cfg xs s) (exec cfg ys)"
proof (induction xs arbitrary: s)
  case (Cons x xs)
  then show ?case by (cases "sys_step cfg x s") simp_all
qed simp

lemma blink_step_frame [simp]:
  "main_at (blink_step s) = main_at s" "acq_at (blink_step s) = acq_at s"
  by (simp_all add: blink_step_def split: blink_pc.splits)

lemma blink_step_shared:
  "shared (blink_step s) = (shared s)\<lparr>led_RED := led_RED (shared (blink_step s))\<rparr>"
  by (simp add: blink_step_def split: blink_pc.splits)

lemma blink_step_fields [simp]:
  "led_GREEN (shared (blink_step s)) = led_GREEN (shared s)"
  "BLINK_WARNING_LED (shared (blink_step s)) = BLINK_WARNING_LED (shared s)"
  "lcd (shared (blink_step s)) = lcd (shared s)"
  "console (shared (blink_step s)) = console (shared s)"
  "panel.more (shared (blink_step s)) = panel.more (shared s)"
  by (simp_all add: blink_step_def split: blink_pc.splits)

lemma blink_step_label [simp]: "pred_label (shared (blink_step s)) = pred_label (shared s)"
  by (simp add: blink_step_def split: blink_pc.splits)

lemma acq_cycle_begin:
  "acq_cycle cfg inp p = rbind (acq_begin cfg inp p) (\<lambda>(s2, ops). Inr (run_ops ops s2))"
  by (simp add: acq_cycle_def acq_begin_def Let_def Warning_UI_ops_run rbind_assoc
      case_prod_unfold)

lemma acq_iteration_Loop:
  "acq_at s = A_Loop \<Longrightarrow>
   acq_iteration cfg inp s =
     rbind (acq_cycle cfg inp (shared s)) (\<lambda>p. Inr (s\<lparr>shared := p, acq_at := A_Loop\<rparr>))"
  by (simp add: acq_iteration_def acq_step_def acq_cycle_begin rbind_assoc case_prod_unfold
      acq_finish_def)

lemma exec_writes:
  "acq_at s = A_Write ops \<Longrightarrow>
   exec cfg (replicate (length ops + 2) (Acq inp)) s = Inr (acq_finish s)"
proof (induction ops arbitrary: s)
  case Nil
  then show ?case by (simp add: acq_step_def acq_finish_def numeral_2_eq_2)
next
  case (Cons w ws)
  let ?s = "s\<lparr>shared := apply_op w (shared s), acq_at := A_Write ws\<rparr>"
  have "exec cfg (replicate (length ws + 2) (Acq inp)) ?s = Inr (acq_finish ?s)"
    by (rule Cons.IH) simp
  with Cons.prems show ?case by (simp add: acq_step_def acq_finish_def)
qed

lemma exec_iteration:
  assumes "acq_at s = A_Loop" and "acq_iteration cfg inp s = Inr s'"
  shows "\<exists>n. exec cfg (replicate n (Acq inp)) s = Inr s'"
proof -
  from assms obtain s2 ops where b: "acq_begin cfg inp (shared s) = Inr (s2, ops)"
    and s': "s' = acq_finish (s\<lparr>shared := s2, acq_at := A_Write ops\<rparr>)"
    by (auto simp: acq_iteration_def acq_step_def rbind_eq_Inr_iff)
  have "exec cfg (replicate (length ops + 2) (Acq inp)) (s\<lparr>shared := s2, acq_at := A_Write ops\<rparr>)
      = Inr s'" unfolding s' by (rule exec_writes) simp
  with assms(1) b have "exec cfg (replicate (Suc (length ops + 2)) (Acq inp)) s = Inr s'"
    by (simp add: acq_step_def)
  then show ?thesis ..
qed

lemma exec_blink_iteration: "exec cfg [Blink, Blink, Blink, Blink] s = Inr (blink_iteration s)"
  by (simp add: blink_iteration_def)

lemma boot_eq:
  "boot cfg dev =
     \<lparr>shared = (if SIMULATED_DATA cfg then Initialise_Warning_Panel True (fold printf banner (acq_init dev))
                else Initialise_Sensors (Initialise_Warning_Panel False (fold printf banner (acq_init dev)))),
      main_at = M_Return, blink_at = B_Test, acq_at = A_Loop\<rparr>"
  by (simp add: boot_def sys_init_def main_step_def numeral_eq_Suc)

lemma exec_boot: "exec cfg [Main, Main, Main, Main, Main] (sys_init dev) = Inr (boot cfg dev)"
  by (simp add: boot_def numeral_eq_Suc)

section \<open>Reachability and cooperative runs\<close>

lemma reachable_exec:
  "reachable cfg dev s \<Longrightarrow> exec cfg sched s = Inr s' \<Longrightarrow> reachable cfg dev s'"
proof (induction sched arbitrary: s)
  case (Cons a as)
  then obtain s1 where 1: "sys_step cfg a s = Inr s1" and 2: "exec cfg as s1 = Inr s'"
    by (auto simp: rbind_eq_Inr_iff)
  from reachable.step [OF Cons.prems(1) 1] 2 show ?case by (rule Cons.IH)
qed simp

lemma reachable_iff:
  "reachable cfg dev s \<longleftrightarrow> (\<exists>sched. exec cfg sched (sys_init dev) = Inr s)"
proof
  assume "reachable cfg dev s"
  then show "\<exists>sched. exec cfg sched (sys_init dev) = Inr s"
  proof induction
    case init
    have "exec cfg [] (sys_init dev) = Inr (sys_init dev)" by simp
    then show ?case ..
  next
    case (step s a s')
    then obtain sched where "exec cfg sched (sys_init dev) = Inr s" by blast
    with step(2) have "exec cfg (sched @ [a]) (sys_init dev) = Inr s'"
      by (simp add: exec_append)
    then show ?case ..
  qed
next
  assume "\<exists>sched. exec cfg sched (sys_init dev) = Inr s"
  then show "reachable cfg dev s" using reachable_exec [OF reachable.init] by blast
qed

lemma reachable_blink: "reachable cfg dev s \<Longrightarrow> reachable cfg dev (blink_step s)"
  by (erule reachable.step [where a = Blink]) simp

lemma reachable_boot: "reachable cfg dev (boot cfg dev)"
  using exec_boot reachable_iff by blast

lemma reachable_iteration:
  assumes "reachable cfg dev s" and "acq_at s = A_Loop" and "acq_iteration cfg inp s = Inr s'"
  shows "reachable cfg dev s'"
  using exec_iteration [OF assms(2,3)] reachable_exec [OF assms(1)] by blast

lemma steady_boot [simp]: "steady (boot cfg dev)"
  by (simp add: steady_def boot_eq)

lemma blink_iteration_steady:
  assumes "steady s"
  shows "blink_iteration s =
     (if BLINK_WARNING_LED (shared s) then s\<lparr>shared := (shared s)\<lparr>led_RED := \<not> led_RED (shared s)\<rparr>\<rparr>
      else s)"
  using assms by (simp add: blink_iteration_def blink_step_def steady_def)

lemma acq_iteration_steady:
  assumes "steady s" and "acq_iteration cfg inp s = Inr s'"
  shows "steady s'" and "acq_cycle cfg inp (shared s) = Inr (shared s')"
  using assms by (auto simp: steady_def acq_iteration_Loop rbind_eq_Inr_iff)

lemma coop_steady: "coop cfg dev s \<Longrightarrow> steady s"
proof (induction rule: coop.induct)
  case (blinks s)
  then show ?case by (simp add: blink_iteration_steady) (simp add: steady_def)
next
  case (acquires s inp s')
  then show ?case by (simp add: acq_iteration_steady)
qed simp

lemma coop_reachable_aux: "coop cfg dev s \<Longrightarrow> reachable cfg dev s"
proof (induction rule: coop.induct)
  case booted
  show ?case by (rule reachable_boot)
next
  case (blinks s)
  then show ?case by (simp add: blink_iteration_def reachable_blink)
next
  case (acquires s inp s')
  from coop_steady [OF acquires(1)] have "acq_at s = A_Loop" by (simp add: steady_def)
  with acquires show ?case by (blast intro: reachable_iteration)
qed

lemma leds_boot [simp]: "leds (shared (boot cfg dev)) = (False, False, False)"
  by (simp add: boot_eq leds_def Initialise_Sensors_eq Initialise_Warning_Panel_def Let_def
      printf_def lcd_do_def acq_init_def)

lemma legal_leds_cases:
  "legal_leds (g, r, b) \<longleftrightarrow> (b \<longrightarrow> g) \<and> (r \<and> g \<longrightarrow> b)"
  by (auto simp: legal_leds_def)

lemma legal_indicator_leds [simp]: "legal_leds (indicator_leds i)"
  by (cases i) (simp_all add: legal_leds_def)

lemma coop_legal_aux: "coop cfg dev s \<Longrightarrow> legal_leds (leds (shared s))"
proof (induction rule: coop.induct)
  case booted
  show ?case by (simp add: legal_leds_def)
next
  case (blinks s)
  from coop_steady [OF blinks(1)] blinks(2) show ?case
    by (auto simp: blink_iteration_steady leds_def legal_leds_cases)
next
  case (acquires s inp s')
  from coop_steady [OF acquires(1)] acquires(2)
  have "acq_cycle cfg inp (shared s) = Inr (shared s')" by (rule acq_iteration_steady)
  from acq_cycle_panel(1) [OF this] acquires(3) show ?case
    by (simp split: option.splits)
qed

lemma blink_iterations:
  assumes "steady s"
  shows "(blink_iteration ^^ n) s =
     (if BLINK_WARNING_LED (shared s) \<and> odd n
      then s\<lparr>shared := (shared s)\<lparr>led_RED := \<not> led_RED (shared s)\<rparr>\<rparr> else s)"
proof (induction n)
  case (Suc n)
  have st: "steady (s\<lparr>shared := (shared s)\<lparr>led_RED := \<not> led_RED (shared s)\<rparr>\<rparr>)"
    using assms by (simp add: steady_def)
  from Suc assms st show ?case by (simp add: blink_iteration_steady)
qed simp

lemma coop_indicator_aux:
  assumes "coop cfg dev s" and "acq_iteration cfg inp s = Inr s1"
    and "code_indicator (pred_label (shared s1)) = Some i"
  shows "leds (shared ((blink_iteration ^^ n) s1)) =
     (if i = WARN \<and> odd n then (True, False, True) else indicator_leds i)"
proof -
  from coop_steady [OF assms(1)] assms(2) have st: "steady s1"
    and c: "acq_cycle cfg inp (shared s) = Inr (shared s1)" by (rule acq_iteration_steady)+
  from acq_cycle_panel(1) [OF c] assms(3) have l: "leds (shared s1) = indicator_leds i" by simp
  then show ?thesis by (cases i) (auto simp: blink_iterations [OF st] leds_def)
qed

lemma blink_steps_idle:
  assumes "\<not> BLINK_WARNING_LED (shared s)" and "blink_at s = B_Wait \<or> blink_at s = B_Test"
  shows "shared ((blink_step ^^ n) s) = shared s
     \<and> (blink_at ((blink_step ^^ n) s) = B_Wait \<or> blink_at ((blink_step ^^ n) s) = B_Test)"
proof (induction n)
  case (Suc n)
  with assms(1) show ?case by (auto simp: blink_step_def)
qed (use assms in simp)

lemma late_write_aux:
  assumes "acq_at s = A_Loop" and "blink_at s = B_Write v"
    and "acq_iteration cfg inp s = Inr s1"
    and "code_indicator (pred_label (shared s1)) = Some i" and "i \<noteq> WARN"
  shows "leds (shared ((blink_step ^^ n) (blink_step s1))) = (fst (indicator_leds i), v, False)"
proof -
  from assms(1,3) have c: "acq_cycle cfg inp (shared s) = Inr (shared s1)"
    and b: "blink_at s1 = B_Write v"
    using assms(2) by (auto simp: acq_iteration_Loop rbind_eq_Inr_iff)
  from acq_cycle_panel(1) [OF c] assms(4) have l: "leds (shared s1) = indicator_leds i" by simp
  with assms(5) have f: "\<not> BLINK_WARNING_LED (shared s1)
      \<and> led_GREEN (shared s1) = fst (indicator_leds i)"
    by (cases i) (simp_all add: leds_def)
  let ?t = "blink_step s1"
  from b f have t: "leds (shared ?t) = (fst (indicator_leds i), v, False)" "blink_at ?t = B_Wait"
    by (simp_all add: blink_step_def leds_def)
  then have "\<not> BLINK_WARNING_LED (shared ?t)" by (simp add: leds_def)
  from blink_steps_idle [OF this, of n] t have "shared ((blink_step ^^ n) ?t) = shared ?t" by simp
  with t(1) show ?thesis by simp
qed

section \<open>The acquisition thread does not read the red LED\<close>

lemma acq_begin_red:
  "acq_begin cfg inp (s\<lparr>led_RED := r\<rparr>) =
     map_sum id (\<lambda>(s', ops). (s'\<lparr>led_RED := r\<rparr>, ops)) (acq_begin cfg inp s)"
  by (simp add: acq_begin_def Let_def printf_def red_out acquire_red map_sum_rbind rbind_map_sum
      case_prod_unfold)

lemma apply_op_red:
  "(apply_op w (p\<lparr>led_RED := False\<rparr>))\<lparr>led_RED := False\<rparr> = (apply_op w p)\<lparr>led_RED := False\<rparr>"
  by (cases w) (simp_all add: printf_def lcd_do_def red_out)

lemma hide_red_blink [simp]: "hide_red (blink_step s) = hide_red s"
  by (simp add: hide_red_def blink_step_def split: blink_pc.splits)

lemma hide_red_idem [simp]: "hide_red (hide_red s) = hide_red s"
  by (simp add: hide_red_def)

lemma main_step_hide:
  "hide_red (main_step sim (hide_red s)) = hide_red (main_step sim s)"
  by (simp add: hide_red_def main_step_def fold_printf_eq printf_def
      Initialise_Warning_Panel_def Let_def lcd_do_def Initialise_Sensors_eq red_out
      split: main_pc.splits)

lemma acq_step_hide:
  "map_sum id hide_red (acq_step cfg inp (hide_red s)) = map_sum id hide_red (acq_step cfg inp s)"
proof (cases "acq_at s")
  case A_Loop
  then show ?thesis
    by (simp add: acq_step_def hide_red_def acq_begin_red map_sum_rbind rbind_map_sum
        case_prod_unfold red_out)
next
  case (A_Write ops)
  then show ?thesis
    by (cases ops) (simp_all add: acq_step_def hide_red_def apply_op_red)
qed (simp_all add: acq_step_def hide_red_def)

lemma sys_step_hide:
  "a \<noteq> Blink \<Longrightarrow>
   map_sum id hide_red (sys_step cfg a (hide_red s)) = map_sum id hide_red (sys_step cfg a s)"
  by (cases a) (simp_all add: main_step_hide acq_step_hide)

lemma sys_step_hide_eq:
  assumes "hide_red s = hide_red t" and "a \<noteq> Blink"
  shows "map_sum id hide_red (sys_step cfg a s) = map_sum id hide_red (sys_step cfg a t)"
  using sys_step_hide [OF assms(2), of cfg s] sys_step_hide [OF assms(2), of cfg t] assms(1)
  by simp

lemma exec_hide:
  "hide_red s = hide_red t \<Longrightarrow>
   map_sum id hide_red (exec cfg sched s) = map_sum id hide_red (exec cfg (sequential sched) t)"
proof (induction sched arbitrary: s t)
  case Nil
  then show ?case by (simp add: sequential_def)
next
  case (Cons a as)
  show ?case
  proof (cases "a = Blink")
    case True
    from Cons.prems have "hide_red (blink_step s) = hide_red t" by simp
    from Cons.IH [OF this] True show ?thesis by (simp add: sequential_def)
  next
    case False
    from sys_step_hide_eq [OF Cons.prems False]
    have e: "map_sum id hide_red (sys_step cfg a s) = map_sum id hide_red (sys_step cfg a t)" .
    show ?thesis
    proof (cases "sys_step cfg a s")
      case (Inl err)
      with e have "sys_step cfg a t = Inl err" by (cases "sys_step cfg a t") simp_all
      with Inl False show ?thesis by (simp add: sequential_def)
    next
      case (Inr s1)
      with e obtain t1 where t1: "sys_step cfg a t = Inr t1" and h: "hide_red s1 = hide_red t1"
        by (cases "sys_step cfg a t") simp_all
      from Cons.IH [OF h] Inr t1 False show ?thesis by (simp add: sequential_def)
    qed
  qed
qed

section \<open>The start-up order\<close>

lemma acq_begin_frame:
  assumes "acq_begin cfg inp s = Inr (s2, ops)"
  shows "leds s2 = leds s" and "lcd s2 = lcd s" and "temperature s2 = temperature s"
    and "vibration s2 = vibration s"
    and "configured (accelerometer s) \<Longrightarrow> configured (accelerometer s2)"
proof -
  from assms obtain t s1 l where 1: "acquire cfg inp (printf CycleSeparator s) = Inr (t, s1)"
    and 2: "s2 = s1\<lparr>pred_label := l\<rparr>"
    by (auto simp: acq_begin_def Let_def rbind_eq_Inr_iff)
  from acquire_frame [OF 1]
  show "leds s2 = leds s" and "lcd s2 = lcd s" and "temperature s2 = temperature s"
    and "vibration s2 = vibration s"
    and "configured (accelerometer s) \<Longrightarrow> configured (accelerometer s2)"
    by (simp_all add: 2 leds_def printf_def)
qed

lemma startup_ok_init [simp]: "startup_ok sim (sys_init dev)"
  by (simp add: startup_ok_def sys_init_def acq_init_def leds_def)

lemma startup_ok_main: "startup_ok sim s \<Longrightarrow> startup_ok sim (main_step sim s)"
  by (cases "main_at s")
    (auto simp: startup_ok_def main_step_def leds_def printf_def Initialise_Warning_Panel_def
      Let_def lcd_do_def splash_def Initialise_Sensors_eq configured_def ADXL345_3200HZ_def)

lemma startup_ok_blink: "startup_ok sim s \<Longrightarrow> startup_ok sim (blink_step s)"
  by (cases "blink_at s") (auto simp: startup_ok_def blink_step_def leds_def)

lemma startup_ok_acq:
  assumes "startup_ok (SIMULATED_DATA cfg) s" and "acq_step cfg inp s = Inr s'"
  shows "startup_ok (SIMULATED_DATA cfg) s'"
proof (cases "acq_at s")
  case A_Loop
  with assms(2) obtain s2 ops where b: "acq_begin cfg inp (shared s) = Inr (s2, ops)"
    and s': "s' = s\<lparr>shared := s2, acq_at := A_Write ops\<rparr>"
    by (auto simp: acq_step_def rbind_eq_Inr_iff)
  from acq_begin_frame [OF b] assms(1) A_Loop show ?thesis
    by (simp add: startup_ok_def s')
next
  case (A_Write ops)
  show ?thesis
  proof (cases ops)
    case Nil
    with A_Write assms show ?thesis by (auto simp: startup_ok_def acq_step_def)
  next
    case (Cons w ws)
    obtain m where m: "lcd (apply_op w (shared s)) = lcd (shared s) @ m"
      using apply_op_lcd by blast
    from assms(1) A_Write have "take 2 (lcd (shared s)) = splash (SIMULATED_DATA cfg)"
      by (simp add: startup_ok_def)
    then have "take 2 (lcd (apply_op w (shared s))) = splash (SIMULATED_DATA cfg)"
      unfolding m splash_def by (rule take2_append)
    with Cons A_Write assms show ?thesis
      by (auto simp: startup_ok_def acq_step_def)
  qed
qed (use assms in \<open>auto simp: startup_ok_def acq_step_def\<close>)

lemma reachable_startup_ok: "reachable cfg dev s \<Longrightarrow> startup_ok (SIMULATED_DATA cfg) s"
proof (induction rule: reachable.induct)
  case (step s a s')
  then show ?case
    by (cases a) (auto simp: startup_ok_main startup_ok_blink startup_ok_acq)
qed simp

section \<open>The state after start-up\<close>

lemma boot_fields [simp]:
  "lcd (shared (boot cfg dev)) = splash (SIMULATED_DATA cfg)"
  "stack (shared (boot cfg dev)) = stack_init"
  "sensor_data (shared (boot cfg dev)) = [0, 0, 0, 0, 0, 0]"
  "accelerometer (shared (boot cfg dev)) =
     (if SIMULATED_DATA cfg then dev
      else dev\<lparr>POWER_CTL := 0x00, DATA_FORMAT := 0x0B, BW_RATE := 0x0F\<rparr>)"
  "acq_at (boot cfg dev) = A_Loop" "blink_at (boot cfg dev) = B_Test"
  "main_at (boot cfg dev) = M_Return"
  by (simp_all add: boot_eq Initialise_Sensors_eq Initialise_Warning_Panel_def Let_def
      fold_printf_eq printf_def lcd_do_def acq_init_def splash_def)

lemma acq_inv_boot [simp]: "acq_inv (shared (boot cfg dev))"
  using leds_boot [of cfg dev] by (simp add: acq_inv_def sensor_features_def panel_wf_def leds_def)

lemma coop_acq_inv: "coop cfg dev s \<Longrightarrow> acq_inv (shared s)"
proof (induction rule: coop.induct)
  case (blinks s)
  from coop_steady [OF blinks(1)] blinks(2) show ?case
    by (auto simp: blink_iteration_steady acq_inv_def panel_wf_def)
next
  case (acquires s inp s')
  from coop_steady [OF acquires(1)] acquires(2)
  have "acq_cycle cfg inp (shared s) = Inr (shared s')" by (rule acq_iteration_steady)
  with acquires(3) show ?case by (rule acq_cycle_keeps_inv)
qed simp

section \<open>Iterations in simulated mode\<close>

lemma acq_iteration_simulated:
  assumes "acq_at s = A_Loop" and "SIMULATED_DATA cfg" and "dataset_ok (samples cfg)"
    and "0 \<le> sint (rand_value inp)"
    and "valid_label (dnn cfg (input_data_array (samples cfg) ! draw (samples cfg) (rand_value inp)))"
  shows "acq_iteration cfg inp s = Inr (projr (acq_iteration cfg inp s))"
    and "pred_label (shared (projr (acq_iteration cfg inp s))) =
      dnn cfg (input_data_array (samples cfg) ! draw (samples cfg) (rand_value inp))"
    and "blink_at (projr (acq_iteration cfg inp s)) = blink_at s"
    and "acq_at (projr (acq_iteration cfg inp s)) = A_Loop"
    and "main_at (projr (acq_iteration cfg inp s)) = main_at s"
proof -
  from acq_cycle_simulated_ok [OF assms(2-4), of "shared s"] assms(5)
  obtain p where p: "acq_cycle cfg inp (shared s) = Inr p" by (auto simp: is_ok_iff)
  with assms(1) have i: "acq_iteration cfg inp s = Inr (s\<lparr>shared := p, acq_at := A_Loop\<rparr>)"
    by (simp add: acq_iteration_Loop)
  from acq_cycle_simulated_Inr [OF assms(2-4) p] i
  show "acq_iteration cfg inp s = Inr (projr (acq_iteration cfg inp s))"
    and "pred_label (shared (projr (acq_iteration cfg inp s))) =
      dnn cfg (input_data_array (samples cfg) ! draw (samples cfg) (rand_value inp))"
    and "blink_at (projr (acq_iteration cfg inp s)) = blink_at s"
    and "acq_at (projr (acq_iteration cfg inp s)) = A_Loop"
    and "main_at (projr (acq_iteration cfg inp s)) = main_at s"
    by simp_all
qed

lemma acq_step_simulated:
  assumes "acq_at s = A_Loop" and "SIMULATED_DATA cfg" and "dataset_ok (samples cfg)"
    and "0 \<le> sint (rand_value inp)"
    and "valid_label (dnn cfg (input_data_array (samples cfg) ! draw (samples cfg) (rand_value inp)))"
  shows "acq_step cfg inp s = Inr (projr (acq_step cfg inp s))"
    and "pred_label (shared (projr (acq_step cfg inp s))) =
      dnn cfg (input_data_array (samples cfg) ! draw (samples cfg) (rand_value inp))"
proof -
  let ?k = "draw (samples cfg) (rand_value inp)"
  let ?l = "dnn cfg (input_data_array (samples cfg) ! ?k)"
  from dataset_ok_draw(4) [OF assms(3,4)] assms(5)
  have "is_ok (Warning_UI_ops True ?l (actual_data_label (samples cfg) ! ?k))"
    by (simp add: Warning_UI_ops_ok_iff)
  then obtain ops where ops: "Warning_UI_ops True ?l (actual_data_label (samples cfg) ! ?k) = Inr ops"
    by (auto simp: is_ok_iff)
  with dataset_ok_draw [OF assms(3,4)] assms(1,2)
  show "acq_step cfg inp s = Inr (projr (acq_step cfg inp s))"
    and "pred_label (shared (projr (acq_step cfg inp s))) = ?l"
    by (simp_all add: acq_step_def acq_begin_def Let_def acquire_def acquire_simulated_eq
        [OF assms(3,4)] c_index_def printf_def)
qed

lemma valid_label_small [simp]: "valid_label 1" "valid_label 3" "valid_label 5"
  by (simp_all add: valid_label_def time_prediction_zones_def)

section \<open>The order of the writes in Warning_UI\<close>

lemma blink_iteration_Test:
  assumes "blink_at s = B_Test"
  shows "blink_iteration s =
     (if BLINK_WARNING_LED (shared s) then s\<lparr>shared := (shared s)\<lparr>led_RED := \<not> led_RED (shared s)\<rparr>\<rparr>
      else s)"
  using assms by (simp add: blink_iteration_def blink_step_def)

lemma blink_iterations_Test:
  assumes "blink_at s = B_Test"
  shows "(blink_iteration ^^ n) s =
     (if BLINK_WARNING_LED (shared s) \<and> odd n
      then s\<lparr>shared := (shared s)\<lparr>led_RED := \<not> led_RED (shared s)\<rparr>\<rparr> else s)"
proof (induction n)
  case (Suc n)
  from Suc assms show ?case by (simp add: blink_iteration_Test)
qed simp

lemma acq_begin_ops:
  assumes "acq_begin cfg inp p = Inr (p2, ops)"
  shows "\<exists>ms t. ops = glow_ops (pred_label p2) @ map Print ms @
     [Lcd LCD_Clear, Lcd (LCD_DisplayString t)]"
  using assms
  by (auto simp: acq_begin_def Let_def rbind_eq_Inr_iff dest!: Warning_UI_ops_Inr)

lemma flag_cleared_late_aux:
  assumes "acq_at s = A_Loop" and "blink_at s = B_Test" and "BLINK_WARNING_LED (shared s)"
    and "acq_step cfg inp s = Inr s1" and "pred_label (shared s1) = zone_code NORMAL"
  shows "\<exists>s3. exec cfg [Acq inp, Acq inp, Acq inp] s = Inr s3
     \<and> leds (shared s3) = (True, False, True)
     \<and> leds (shared ((blink_iteration ^^ n) (acq_finish (blink_iteration s3))))
         = (True, True, False)"
proof -
  from assms(1,4) obtain p2 ops where b: "acq_begin cfg inp (shared s) = Inr (p2, ops)"
    and s1: "s1 = s\<lparr>shared := p2, acq_at := A_Write ops\<rparr>"
    by (auto simp: acq_step_def rbind_eq_Inr_iff)
  from assms(5) s1 have l: "pred_label p2 = 5" by simp
  from acq_begin_ops [OF b] l obtain ms t where ops: "ops = SetGreen True # SetRed False #
      SetBlink False # map Print ms @ [Lcd LCD_Clear, Lcd (LCD_DisplayString t)]"
    by (auto simp: glow_ops_def)
  from acq_begin_frame(1) [OF b] assms(3) have f: "BLINK_WARNING_LED p2" by (simp add: leds_def)
  let ?s3 = "s\<lparr>shared := p2\<lparr>led_GREEN := True, led_RED := False\<rparr>,
    acq_at := A_Write (SetBlink False # map Print ms @ [Lcd LCD_Clear, Lcd (LCD_DisplayString t)])\<rparr>"
  from assms(4) have e: "exec cfg [Acq inp, Acq inp, Acq inp] s = Inr ?s3"
    by (simp add: s1 ops acq_step_def)
  from f have l3: "leds (shared ?s3) = (True, False, True)" by (simp add: leds_def)
  from assms(2) f have bi: "blink_iteration ?s3 = ?s3\<lparr>shared := (shared ?s3)\<lparr>led_RED := True\<rparr>\<rparr>"
    by (simp add: blink_iteration_Test)
  let ?s5 = "acq_finish (blink_iteration ?s3)"
  from assms(2) have 5: "leds (shared ?s5) = (True, True, False)" "blink_at ?s5 = B_Test"
    unfolding bi by (simp_all add: acq_finish_def leds_def)
  then have "leds (shared ((blink_iteration ^^ n) ?s5)) = (True, True, False)"
    by (simp add: blink_iterations_Test leds_def)
  with e l3 show ?thesis by blast
qed

section \<open>The panel at the cycle boundaries\<close>

lemma apply_op_red_any:
  "(apply_op w (p\<lparr>led_RED := v\<rparr>))\<lparr>led_RED := x\<rparr> = (apply_op w p)\<lparr>led_RED := x\<rparr>"
  by (cases w) (simp_all add: printf_def lcd_do_def red_out)

lemma run_ops_red:
  "(run_ops ops (p\<lparr>led_RED := v\<rparr>))\<lparr>led_RED := x\<rparr> = (run_ops ops p)\<lparr>led_RED := x\<rparr>"
proof (induction ops arbitrary: p v)
  case (Cons w ws)
  have "apply_op w (p\<lparr>led_RED := v\<rparr>) = (apply_op w p)\<lparr>led_RED := led_RED (apply_op w (p\<lparr>led_RED := v\<rparr>))\<rparr>"
    by (cases w) (simp_all add: printf_def lcd_do_def red_out)
  then show ?case using Cons.IH by simp metis
qed simp

lemma acq_begin_console:
  assumes "acq_begin cfg inp p = Inr (p2, ops)"
  shows "CycleSeparator \<in> set (console p2)"
proof -
  from assms obtain t s1 l where 1: "acquire cfg inp (printf CycleSeparator p) = Inr (t, s1)"
    and 2: "p2 = s1\<lparr>pred_label := l\<rparr>"
    by (auto simp: acq_begin_def Let_def rbind_eq_Inr_iff)
  from acquire_console [OF 1] show ?thesis by (auto simp: 2)
qed

lemma run_ops_acq [simp]: "pred_label (run_ops ops p) = pred_label p"
proof (induction ops arbitrary: p)
  case (Cons w ws)
  have "pred_label (apply_op w p) = pred_label p"
    by (cases w) (simp_all add: printf_def lcd_do_def)
  with Cons show ?case by simp
qed simp

lemma shows_zone_cycle:
  assumes "acq_cycle cfg inp p = Inr p'"
  shows "shows_zone p'"
proof -
  from acq_cycle_panel [OF assms] obtain z where z: "pred_label p' = zone_code z"
    by (auto simp: valid_label_iff_zone)
  with acq_cycle_panel(1,2) [OF assms] show ?thesis
    unfolding shows_zone_def
    by (intro exI [of _ z]) (cases z; simp add: code_indicator_def spec_indicator_def leds_def
        time_zone_labels_def)
qed

lemma shows_zone_begin:
  assumes "acq_begin cfg inp p = Inr (p2, ops)"
  shows "shows_zone (run_ops ops p2)"
proof -
  from assms have "acq_cycle cfg inp p = Inr (run_ops ops p2)" by (simp add: acq_cycle_begin)
  then show ?thesis by (rule shows_zone_cycle)
qed

lemma shows_zone_red: "shows_zone (p\<lparr>led_RED := v\<rparr>) = shows_zone p"
  by (simp add: shows_zone_def)

lemma shows_zone_run_red: "shows_zone (run_ops ops (p\<lparr>led_RED := v\<rparr>)) = shows_zone (run_ops ops p)"
  using shows_zone_red [where p = "run_ops ops (p\<lparr>led_RED := v\<rparr>)" and v = False]
    shows_zone_red [where p = "run_ops ops p" and v = False] by (simp add: run_ops_red)

lemma pending_blink: "shows_zone (pending (blink_step s)) = shows_zone (pending s)"
proof -
  have "shows_zone (pending (s\<lparr>shared := (shared s)\<lparr>led_RED := v\<rparr>, blink_at := b\<rparr>))
      = shows_zone (pending s)" for v b
    by (cases "acq_at s") (simp_all add: pending_def shows_zone_red shows_zone_run_red)
  moreover have "pending (s\<lparr>blink_at := b\<rparr>) = pending s" for b
    by (cases "acq_at s") (simp_all add: pending_def)
  ultimately show ?thesis
    by (simp add: blink_step_def split: blink_pc.splits)
qed

lemma boundary_ok_blink: "boundary_ok s \<Longrightarrow> boundary_ok (blink_step s)"
  by (simp add: boundary_ok_def pending_blink)

lemma boundary_ok_main:
  assumes "boundary_ok s" and "startup_ok sim s"
  shows "boundary_ok (main_step sim s)"
proof (cases "acq_at s = A_NotStarted")
  case True
  with assms(1) have "CycleSeparator \<notin> set (console (shared s))"
    by (auto simp: boundary_ok_def split: if_splits)
  with True show ?thesis
    by (cases "main_at s")
      (auto simp: boundary_ok_def main_step_def banner_def Initialise_Warning_Panel_def Let_def
        Initialise_Sensors_eq fold_printf_eq printf_def lcd_do_def)
next
  case False
  with assms(2) have "main_at s = M_Return" by (simp add: startup_ok_def)
  with assms(1) show ?thesis by (simp add: main_step_def)
qed

lemma apply_op_console: "m \<in> set (console p) \<Longrightarrow> m \<in> set (console (apply_op w p))"
  by (cases w) simp_all

lemma boundary_ok_acq:
  assumes "boundary_ok s" and "acq_step cfg inp s = Inr s'"
  shows "boundary_ok s'"
proof (cases "acq_at s")
  case A_Loop
  with assms(2) obtain p2 ops where b: "acq_begin cfg inp (shared s) = Inr (p2, ops)"
    and s': "s' = s\<lparr>shared := p2, acq_at := A_Write ops\<rparr>"
    by (auto simp: acq_step_def rbind_eq_Inr_iff)
  from acq_begin_console [OF b] shows_zone_begin [OF b] show ?thesis
    by (simp add: boundary_ok_def s' pending_def)
next
  case (A_Write ops)
  with assms show ?thesis
    by (cases ops)
      (auto simp: boundary_ok_def acq_step_def pending_def apply_op_console split: if_splits)
qed (use assms in \<open>auto simp: boundary_ok_def acq_step_def pending_def split: if_splits\<close>)

lemma reachable_boundary_ok: "reachable cfg dev s \<Longrightarrow> boundary_ok s"
proof (induction rule: reachable.induct)
  case init
  show ?case by (simp add: boundary_ok_def sys_init_def acq_init_def)
next
  case (step s a s')
  from step(1) have "startup_ok (SIMULATED_DATA cfg) s" by (rule reachable_startup_ok)
  with step(2,3) show ?case
    by (cases a) (auto simp: boundary_ok_main boundary_ok_blink boundary_ok_acq)
qed

lemma cycle_boundary_aux:
  assumes "reachable cfg dev s" and "acq_at s = A_Loop \<or> acq_at s = A_Wait"
    and "CycleSeparator \<in> set (console (shared s))"
  shows "shows_zone (shared s)"
  using reachable_boundary_ok [OF assms(1)] assms(2,3)
  by (auto simp: boundary_ok_def pending_def)

lemma run_ops_console: "m \<in> set (console p) \<Longrightarrow> m \<in> set (console (run_ops ops p))"
  by (induction ops arbitrary: p) (simp_all add: apply_op_console)

lemma acq_iteration_console:
  assumes "acq_at s = A_Loop" and "acq_iteration cfg inp s = Inr s'"
  shows "CycleSeparator \<in> set (console (shared s'))"
proof -
  from assms obtain p2 ops where b: "acq_begin cfg inp (shared s) = Inr (p2, ops)"
    and s': "s' = acq_finish (s\<lparr>shared := p2, acq_at := A_Write ops\<rparr>)"
    by (auto simp: acq_iteration_def acq_step_def rbind_eq_Inr_iff)
  from acq_begin_console [OF b] show ?thesis
    by (simp add: s' acq_finish_def run_ops_console)
qed

section \<open>Properties of the scheduler\<close>

text \<open>
  Claim C2. The blink race. If the blinker has read the red LED and not yet written
  it back when an iteration of the acquisition thread runs \<^verbatim>\<open>Warning_UI\<close> for a steady
  zone, the blinker's write comes last: the red LED holds the negation of what the
  blinker read, whatever the acquisition thread assigned, with the blink flag clear,
  so it stays for the whole cycle. After a warning zone this shows a predicted
  failure within 15 minutes with both LEDs off.
\<close>

theorem late_write_wins:
  assumes "acq_at s = A_Loop" and "blink_at s = B_Write v"
    and "acq_iteration cfg inp s = Inr s1"
    and "code_indicator (pred_label (shared s1)) = Some i" and "i \<noteq> WARN"
  shows "leds (shared ((blink_step ^^ n) (blink_step s1))) = (fst (indicator_leds i), v, False)"
  using assms by (rule late_write_aux)

theorem late_write_wins_witness:
  "leds (shared ((blink_step ^^ 3) (blink_step (projr (acq_iteration (demo_cfg True Strict)
     (demo_rand 1) (blink_step (blink_step (projr (acq_iteration (demo_cfg True Strict)
        (demo_rand 0) (boot (demo_cfg True Strict) adxl345_reset)))))))))) = (False, False, False)
   \<and> pred_label (shared (projr (acq_iteration (demo_cfg True Strict)
     (demo_rand 1) (blink_step (blink_step (projr (acq_iteration (demo_cfg True Strict)
        (demo_rand 0) (boot (demo_cfg True Strict) adxl345_reset)))))))) = 1"
proof -
  let ?C = "demo_cfg True Strict"
  let ?s0 = "boot ?C adxl345_reset"
  let ?s1 = "projr (acq_iteration ?C (demo_rand 0) ?s0)"
  let ?s2 = "blink_step (blink_step ?s1)"
  let ?s3 = "projr (acq_iteration ?C (demo_rand 1) ?s2)"
  have 0: "acq_at ?s0 = A_Loop" by (simp add: boot_eq)
  have i1: "acq_iteration ?C (demo_rand 0) ?s0 = Inr ?s1" and l1: "pred_label (shared ?s1) = 3"
    and b1: "blink_at ?s1 = B_Test" and a1: "acq_at ?s1 = A_Loop"
    using acq_iteration_simulated [OF 0, of ?C "demo_rand 0"] by (simp_all add: boot_eq)
  from acq_iteration_steady(2) [OF _ i1]
  have "acq_cycle ?C (demo_rand 0) (shared ?s0) = Inr (shared ?s1)" by simp
  from acq_cycle_panel(1) [OF this] l1 have led1: "leds (shared ?s1) = (True, True, True)"
    by (simp add: code_indicator_def)
  from led1 b1 a1 have b2: "blink_at ?s2 = B_Write False" and a2: "acq_at ?s2 = A_Loop"
    by (simp_all add: blink_step_def leds_def)
  have i3: "acq_iteration ?C (demo_rand 1) ?s2 = Inr ?s3" and l3: "pred_label (shared ?s3) = 1"
    using acq_iteration_simulated [OF a2, of ?C "demo_rand 1"] by simp_all
  from l3 have c3: "code_indicator (pred_label (shared ?s3)) = Some IMMINENT"
    by (simp add: code_indicator_def)
  from late_write_wins [OF a2 b2 i3 c3, of 3] l3 show ?thesis by simp
qed

text \<open>
  Claim C10. What preemption cannot break. In every reachable state, whatever the
  interleaving, once the first cycle has been logged and the acquisition thread is
  between two calls of \<^verbatim>\<open>Warning_UI\<close> (at the loop head or in its wait), the predicted
  label is a zone, the LCD shows that zone's text, and for every zone but \<open>FAULT\<close> the
  green LED and the blink flag are those of the specification's table. The race with
  the blinker can falsify the red LED and nothing else. The witness is the state of
  the late write: a failure within 15 minutes is predicted and displayed, green and
  the flag are off as they should be, and the red LED is off as well.
\<close>

theorem cycle_boundary_panel:
  assumes "reachable cfg dev s" and "acq_at s = A_Loop \<or> acq_at s = A_Wait"
    and "CycleSeparator \<in> set (console (shared s))"
  shows "\<exists>z. pred_label (shared s) = zone_code z
     \<and> lcd_text (lcd (shared s)) = Some (zone_label z)
     \<and> (z \<noteq> FAULT \<longrightarrow>
          led_GREEN (shared s) = fst (indicator_leds (spec_indicator (zone_code z)))
        \<and> BLINK_WARNING_LED (shared s) = snd (snd (indicator_leds (spec_indicator (zone_code z)))))"
  using cycle_boundary_aux [OF assms] by (simp add: shows_zone_def)

theorem cycle_boundary_panel_witness:
  "lcd_text (lcd (shared (blink_step (projr (acq_iteration (demo_cfg True Strict)
     (demo_rand 1) (blink_step (blink_step (projr (acq_iteration (demo_cfg True Strict)
        (demo_rand 0) (boot (demo_cfg True Strict) adxl345_reset)))))))))) = Some ''<15 MIN''
   \<and> leds (shared (blink_step (projr (acq_iteration (demo_cfg True Strict)
     (demo_rand 1) (blink_step (blink_step (projr (acq_iteration (demo_cfg True Strict)
        (demo_rand 0) (boot (demo_cfg True Strict) adxl345_reset))))))))) = (False, False, False)"
proof -
  let ?C = "demo_cfg True Strict"
  let ?boot = "boot ?C adxl345_reset"
  let ?s1 = "projr (acq_iteration ?C (demo_rand 0) ?boot)"
  let ?s2 = "blink_step (blink_step ?s1)"
  let ?s3 = "projr (acq_iteration ?C (demo_rand 1) ?s2)"
  let ?s4 = "blink_step ?s3"
  have 0: "acq_at ?boot = A_Loop" by simp
  note it1 = acq_iteration_simulated [OF 0, of ?C "demo_rand 0"]
  have i1: "acq_iteration ?C (demo_rand 0) ?boot = Inr ?s1" and a1: "acq_at ?s1 = A_Loop"
    and l1: "pred_label (shared ?s1) = 3" and b1: "blink_at ?s1 = B_Test"
    using it1 by simp_all
  from acq_iteration_steady(2) [OF _ i1]
  have "acq_cycle ?C (demo_rand 0) (shared ?boot) = Inr (shared ?s1)" by simp
  from acq_cycle_panel(1) [OF this] l1 have led1: "leds (shared ?s1) = (True, True, True)"
    by (simp add: code_indicator_def)
  from led1 b1 a1 have b2: "blink_at ?s2 = B_Write False" and a2: "acq_at ?s2 = A_Loop"
    by (simp_all add: blink_step_def leds_def)
  note it3 = acq_iteration_simulated [OF a2, of ?C "demo_rand 1"]
  have i3: "acq_iteration ?C (demo_rand 1) ?s2 = Inr ?s3" and l3: "pred_label (shared ?s3) = 1"
    and a3: "acq_at ?s3 = A_Loop" using it3 by simp_all
  have r: "reachable ?C adxl345_reset ?s4"
    by (intro reachable_blink reachable_iteration [OF _ a2 i3] reachable_iteration [OF _ 0 i1]
        reachable_boot)
  have a4: "acq_at ?s4 = A_Loop \<or> acq_at ?s4 = A_Wait" using a3 by simp
  have c4: "CycleSeparator \<in> set (console (shared ?s4))"
    using acq_iteration_console [OF a2 i3] by simp
  from cycle_boundary_panel [OF r a4 c4] obtain z where z: "pred_label (shared ?s4) = zone_code z"
    and t: "lcd_text (lcd (shared ?s4)) = Some (zone_label z)"
    and g: "z \<noteq> FAULT \<longrightarrow> led_GREEN (shared ?s4) = fst (indicator_leds (spec_indicator (zone_code z)))
        \<and> BLINK_WARNING_LED (shared ?s4) = snd (snd (indicator_leds (spec_indicator (zone_code z))))"
    by blast
  from z l3 have "zone_code z = 1" by simp
  then have z1: "z = LT_15" by (cases z) simp_all
  from late_write_aux [OF a2 b2 i3, of IMMINENT 0] l3
  have "led_RED (shared ?s4) = False" by (simp add: code_indicator_def leds_def)
  with t g z1 show ?thesis by (simp add: leds_def spec_indicator_def)
qed

text \<open>
  Claim C9. The flag is cleared too late. In the branch for \<^verbatim>\<open>NORMAL\<close> the red LED is
  switched off before \<^verbatim>\<open>BLINK_WARNING_LED\<close> is cleared. Even a blinker whose iteration
  is atomic, when it runs between the two assignments while a warning zone is
  showing, still finds the flag set and switches the red LED on again; the flag is
  then cleared and the panel shows green and red, both steady, for the whole
  cycle.
\<close>

theorem flag_cleared_late:
  assumes "acq_at s = A_Loop" and "blink_at s = B_Test" and "BLINK_WARNING_LED (shared s)"
    and "acq_step cfg inp s = Inr s1" and "pred_label (shared s1) = zone_code NORMAL"
  shows "\<exists>s3. exec cfg [Acq inp, Acq inp, Acq inp] s = Inr s3
     \<and> leds (shared s3) = (True, False, True)
     \<and> leds (shared ((blink_iteration ^^ n) (acq_finish (blink_iteration s3))))
         = (True, True, False)"
  using assms by (rule flag_cleared_late_aux)

theorem flag_cleared_late_witness:
  "leds (shared ((blink_iteration ^^ 2) (acq_finish (blink_iteration (projr (exec
      (demo_cfg True Strict) [Acq (demo_rand 2), Acq (demo_rand 2), Acq (demo_rand 2)]
      (projr (acq_iteration (demo_cfg True Strict) (demo_rand 0)
         (boot (demo_cfg True Strict) adxl345_reset))))))))) = (True, True, False)"
proof -
  let ?C = "demo_cfg True Strict"
  let ?boot = "boot ?C adxl345_reset"
  let ?warn = "projr (acq_iteration ?C (demo_rand 0) ?boot)"
  have 0: "acq_at ?boot = A_Loop" by simp
  have i1: "acq_iteration ?C (demo_rand 0) ?boot = Inr ?warn"
    using acq_iteration_simulated(1) [OF 0, of ?C "demo_rand 0"] by simp
  have l1: "pred_label (shared ?warn) = 3"
    using acq_iteration_simulated(2) [OF 0, of ?C "demo_rand 0"] by simp
  have b: "blink_at ?warn = B_Test"
    using acq_iteration_simulated(3) [OF 0, of ?C "demo_rand 0"] by simp
  have a: "acq_at ?warn = A_Loop"
    using acq_iteration_simulated(4) [OF 0, of ?C "demo_rand 0"] by simp
  from acq_iteration_steady(2) [OF _ i1]
  have "acq_cycle ?C (demo_rand 0) (shared ?boot) = Inr (shared ?warn)" by simp
  from acq_cycle_panel(1) [OF this] l1 have f: "BLINK_WARNING_LED (shared ?warn)"
    by (simp add: code_indicator_def leds_def)
  have st: "acq_step ?C (demo_rand 2) ?warn = Inr (projr (acq_step ?C (demo_rand 2) ?warn))"
    and l: "pred_label (shared (projr (acq_step ?C (demo_rand 2) ?warn))) = zone_code NORMAL"
    using acq_step_simulated [OF a, of ?C "demo_rand 2"] by simp_all
  from flag_cleared_late [OF a b f st l, of 2] show ?thesis by auto
qed

text \<open>
  Claim C6. The interleaved system refines the sequential one up to the red LED.
  For every schedule, running it and running it with the blinker's steps removed
  fault alike or end in states that differ at most in the red LED and the blinker's
  program counter: the acquisition thread and \<^verbatim>\<open>main\<close> never read the red LED, and
  the blinker writes nothing else.
\<close>

theorem interleaving_refines_sequential:
  "map_sum id hide_red (exec cfg sched s) = map_sum id hide_red (exec cfg (sequential sched) s)"
  by (rule exec_hide) (rule refl)

theorem interleaving_refines_sequential_witness:
  "map_sum id hide_red (exec (demo_cfg True Strict)
      [Main, Blink, Main, Main, Blink, Main, Main, Blink, Acq (demo_rand 2), Blink,
       Acq (demo_rand 2), Blink, Blink] (sys_init adxl345_reset))
   = map_sum id hide_red (exec (demo_cfg True Strict)
      [Main, Main, Main, Main, Main, Acq (demo_rand 2), Acq (demo_rand 2)]
      (sys_init adxl345_reset))"
  using interleaving_refines_sequential [of "demo_cfg True Strict"
      "[Main, Blink, Main, Main, Blink, Main, Main, Blink, Acq (demo_rand 2), Blink,
        Acq (demo_rand 2), Blink, Blink]" "sys_init adxl345_reset"]
  by (simp add: sequential_def)

text \<open>
  Claim C7. Blink protocol under cooperative scheduling. When each thread runs from
  one \<^verbatim>\<open>wait\<close> to its next, then after an iteration that predicted a label of a
  handled zone and any number of blinker iterations the panel shows exactly that
  zone: steady for the steady zones (red off after NORMAL), and for a warning zone
  green on, flag set and the red LED toggled once per blinker iteration.
\<close>

theorem coop_indicator:
  assumes "coop cfg dev s" and "acq_iteration cfg inp s = Inr s1"
    and "code_indicator (pred_label (shared s1)) = Some i"
  shows "leds (shared ((blink_iteration ^^ n) s1)) =
     (if i = WARN \<and> odd n then (True, False, True) else indicator_leds i)"
  using assms by (rule coop_indicator_aux)

theorem coop_indicator_witness:
  "leds (shared ((blink_iteration ^^ 3) (projr (acq_iteration (demo_cfg True Strict) (demo_rand 0)
      (boot (demo_cfg True Strict) adxl345_reset))))) = (True, False, True)
   \<and> leds (shared ((blink_iteration ^^ 3) (projr (acq_iteration (demo_cfg True Strict) (demo_rand 2)
      (boot (demo_cfg True Strict) adxl345_reset))))) = (True, False, False)"
proof -
  let ?C = "demo_cfg True Strict"
  let ?s0 = "boot ?C adxl345_reset"
  have 0: "acq_at ?s0 = A_Loop" by (simp add: boot_eq)
  have c: "coop ?C adxl345_reset ?s0" by (rule coop.booted)
  have i1: "acq_iteration ?C (demo_rand 0) ?s0 = Inr (projr (acq_iteration ?C (demo_rand 0) ?s0))"
    and l1: "code_indicator (pred_label (shared (projr (acq_iteration ?C (demo_rand 0) ?s0))))
      = Some WARN"
    using acq_iteration_simulated [OF 0, of ?C "demo_rand 0"] by (simp_all add: code_indicator_def)
  have i2: "acq_iteration ?C (demo_rand 2) ?s0 = Inr (projr (acq_iteration ?C (demo_rand 2) ?s0))"
    and l2: "code_indicator (pred_label (shared (projr (acq_iteration ?C (demo_rand 2) ?s0))))
      = Some SAFE"
    using acq_iteration_simulated [OF 0, of ?C "demo_rand 2"] by (simp_all add: code_indicator_def)
  from coop_indicator [OF c i1 l1, of 3] coop_indicator [OF c i2 l2, of 3] show ?thesis by simp
qed

text \<open>
  Claim C19. Under cooperative scheduling every state has all three threads at their
  loop heads and a legal combination of LED levels: all off, one of the three
  indicator states, or a warning zone in the dark half of its blink.
\<close>

theorem coop_legal:
  assumes "coop cfg dev s"
  shows "steady s \<and> legal_leds (leds (shared s))"
  using assms by (simp add: coop_steady coop_legal_aux)

theorem coop_legal_witness:
  "legal_leds (leds (shared (blink_iteration (projr (acq_iteration (demo_cfg True Strict)
     (demo_rand 0) (boot (demo_cfg True Strict) adxl345_reset))))))"
proof -
  let ?C = "demo_cfg True Strict"
  let ?s0 = "boot ?C adxl345_reset"
  have 0: "acq_at ?s0 = A_Loop" by (simp add: boot_eq)
  have "acq_iteration ?C (demo_rand 0) ?s0 = Inr (projr (acq_iteration ?C (demo_rand 0) ?s0))"
    using acq_iteration_simulated(1) [OF 0, of ?C "demo_rand 0"] by simp
  with coop.booted have "coop ?C adxl345_reset (projr (acq_iteration ?C (demo_rand 0) ?s0))"
    by (rule coop.acquires)
  then have "coop ?C adxl345_reset (blink_iteration (projr (acq_iteration ?C (demo_rand 0) ?s0)))"
    by (rule coop.blinks)
  from coop_legal [OF this] show ?thesis by simp
qed

text \<open>
  Claim C16. Start-up order. In every reachable state: the acquisition thread runs
  only after \<^verbatim>\<open>main\<close> has returned, the blinker only after the panel is
  initialised; until the acquisition thread starts the LEDs are off and the blinker
  sits at its test; once the panel is initialised the first two LCD calls are the
  clear and the scrolled title of \<^verbatim>\<open>Initialise_Warning_Panel\<close>; and in real mode the
  accelerometer is configured and the sensors have their identifiers before the
  first iteration.
\<close>

theorem startup_order:
  assumes "reachable cfg dev s"
  shows "startup_ok (SIMULATED_DATA cfg) s"
  using assms by (rule reachable_startup_ok)

theorem startup_order_witness:
  "startup_ok False (projr (exec (demo_cfg False Retain)
     [Main, Blink, Main, Acq demo_input, Main, Blink, Main, Main, Blink] (sys_init adxl345_reset)))"
proof -
  let ?C = "demo_cfg False Retain"
  let ?r = "exec ?C [Main, Blink, Main, Acq demo_input, Main, Blink, Main, Main, Blink]
    (sys_init adxl345_reset)"
  have "?r = Inr (projr ?r)"
    by (simp add: main_step_def blink_step_def acq_step_def sys_init_def)
  then have "reachable ?C adxl345_reset (projr ?r)" using reachable_iff by blast
  from startup_order [OF this] show ?thesis by simp
qed

text \<open>
  Claim C24. While the blink flag is clear, a blinker that is at its test or in its
  wait changes nothing, however often it is scheduled: the steady red of an
  imminent zone is preserved.
\<close>

theorem blinker_idle:
  assumes "\<not> BLINK_WARNING_LED (shared s)" and "blink_at s = B_Wait \<or> blink_at s = B_Test"
  shows "shared ((blink_step ^^ n) s) = shared s"
  using blink_steps_idle [OF assms] by simp

theorem blinker_idle_witness:
  "shared ((blink_step ^^ 7) (boot (demo_cfg True Strict) adxl345_reset))
     = shared (boot (demo_cfg True Strict) adxl345_reset)"
proof -
  let ?s = "boot (demo_cfg True Strict) adxl345_reset"
  have 1: "\<not> BLINK_WARNING_LED (shared ?s)" using leds_boot [of "demo_cfg True Strict"]
    by (simp add: leds_def)
  have 2: "blink_at ?s = B_Wait \<or> blink_at ?s = B_Test" by (simp add: boot_eq)
  from blinker_idle [OF 1 2] show ?thesis .
qed

end
