(* ===== verification/Spec2Isabelle.thy ===== *)
theory Spec2Isabelle
  imports Scheduler
begin

text \<open>
  \<^bold>\<open>A verification development for the predictive-maintenance monitor.\<close>

  The program (\<^verbatim>\<open>src/main.cpp\<close>, one file for an mbed board) samples a temperature
  sensor and an accelerometer, hands six features to a neural network generated by
  uTensor, and shows the predicted time-to-failure zone on two LEDs and an LCD. Three
  threads take part: \<^verbatim>\<open>main\<close> initialises the panel and the sensors and starts the
  other two; \<^verbatim>\<open>dataAcqusition_thread_function\<close> loops over read, predict, warn;
  \<^verbatim>\<open>ledWarning_thread_function\<close> toggles the red LED while the flag
  \<^verbatim>\<open>BLINK_WARNING_LED\<close> is set. The threads share the red LED and the flag.

  \<^bold>\<open>Theories\<close>, in the order of their imports.
  \<^item> \<open>PM_Prelude\<close>: machine types (\<open>c_int\<close> is \<open>32 word\<close> read through \<open>sint\<close>, a
    \<^verbatim>\<open>float\<close> is a \<open>real\<close>), the C operations with their undefined cases as values
    of \<open>fault\<close> (\<open>c_index\<close> for a subscript, \<open>c_rem\<close> for \<^verbatim>\<open>%\<close>, \<open>c_abs\<close>, the cast
    \<open>to_int16\<close>), results \<open>fault + 'a\<close> with \<open>rbind\<close>, and the fact collections.
  \<^item> \<open>Zones\<close>: the enumeration \<^verbatim>\<open>ZONES\<close>, its enumerator values, the display strings,
    and the correspondence between labels and zones.
  \<^item> \<open>Warning_Panel\<close>: the record \<open>panel\<close> (LEDs, blink flag, LCD calls, console
    messages), \<^verbatim>\<open>Warning_UI\<close> and \<^verbatim>\<open>Initialise_Warning_Panel\<close>, the same function as a
    list of device writes (\<open>Warning_UI_ops\<close>), and the indicator machine of the
    specification with the abstraction function \<open>indicator_of\<close>.
  \<^item> \<open>Sensors\<close>: the classes \<^verbatim>\<open>Sensor\<close>, \<^verbatim>\<open>Temperature\<close>, \<^verbatim>\<open>Vibration\<close> and
    \<^verbatim>\<open>Initialise_Sensors\<close> over the record \<open>board\<close>, which extends \<open>panel\<close> with the
    sensor objects, the accelerometer's registers and the stack of the acquisition
    thread. The stack has object lifetimes: \<open>load\<close> reads a cell under the rules of
    C++ (\<open>Strict\<close>) or as stale memory (\<open>Retain\<close>).
  \<^item> \<open>Inference\<close>: the sequence of calls on the uTensor context made in each
    iteration (\<open>infer\<close>); the context and the generated graph follow the
    specification, the network is a parameter.
  \<^item> \<open>Acquisition\<close>: the record \<open>acq\<close>, which extends \<open>board\<close> with the locals of
    \<^verbatim>\<open>dataAcqusition_thread_function\<close>; the two branches that build the input tensor
    (\<open>acquire_simulated\<close>, \<open>acquire_real\<close>), one iteration (\<open>acq_cycle\<close>) and the loop
    over a finite sequence of environment inputs (\<open>run_cycles\<close>).
  \<^item> \<open>Scheduler\<close>: the record \<open>sys\<close> with a program counter per thread, the steps
    of \<^verbatim>\<open>main\<close>, of the blinker and of the acquisition thread, schedules (\<open>exec\<close>),
    the inductive predicates \<open>reachable\<close> (any interleaving of single steps) and
    \<open>coop\<close> (whole iterations, as under cooperative scheduling).
  \<^item> This theory: the properties that span all components, from power-on to the
    panel.

  \<^bold>\<open>What the lemmas show.\<close>
  \<^item> \<^verbatim>\<open>Warning_UI\<close>: the label-to-LED table on every zone, the label \<open>FAULT\<close> included,
    which leaves the LEDs unchanged; refinement of the specification's indicator
    machine on the labels 1 to 5; the exact set of labels on which the function
    stays within defined behaviour; the diagnostic on every pair of zones, and that
    the zone error it prints is the distance of the labels; memorylessness; the
    two LCD calls and what the glass then shows; preservation of \<open>panel_wf\<close>. The
    lemma \<open>Warning_UI_ops_run\<close> ties the function to the list of its device writes.
  \<^item> Sensors: the pointer \<^verbatim>\<open>Vibration::ReadData\<close> returns dangles; where stale memory
    is readable it yields the three axis values; what \<^verbatim>\<open>Initialise_Sensors\<close>
    configures. Lemmas only: the stack stays well-formed, the range of the
    temperature.
  \<^item> Inference: lemmas only, used by the acquisition loop: on a tensor of shape
    \<open>[1, 6]\<close> the sequence of calls yields the network's label on the six wrapped
    values. The shape checks belong to the modelled interface of the runtime and
    not to \<^verbatim>\<open>src/\<close>, so no property of the development is about them.
  \<^item> Acquisition: in real mode under \<open>Strict\<close> the first iteration faults; feature
    placement in both modes; the effect of a returning iteration in each mode;
    shape invariance; the invariant \<open>acq_inv\<close> along runs; the loop processes every
    finite input sequence to its end when the network's labels are in range;
    agreement of the printed readings with the features.
  \<^item> Scheduler: the interleaved system refines the sequential one up to the red
    LED; two races on the red LED (a late write of the blinker overrides the
    acquisition thread's assignment; the flag is cleared after the red LED is
    switched off, so even an atomic blinker iteration in between leaves it on);
    what no interleaving can break: at every cycle boundary the LCD, the green LED
    and the blink flag are those of the predicted zone (\<open>boundary_ok\<close>, an invariant
    of \<open>reachable\<close>); under cooperative scheduling the panel shows exactly the
    predicted zone and only legal LED combinations occur; the start-up order; the
    blinker is idle while the flag is clear. Lemmas only: the acquisition thread's
    steps compose to \<open>acq_cycle\<close> (\<open>acq_iteration_Loop\<close>), and every cooperative run
    is a run of the interleaved system (\<open>coop_reachable_aux\<close>).
  \<^item> This theory: from any state of a cooperative run, a prediction reaches the
    LCD and the LEDs as the specification's table says, except for \<open>FAULT\<close>; a label
    out of range ends the acquisition thread; real mode from power-on.

  \<^bold>\<open>Modelling choices.\<close> Undefined behaviour of C++ is a \<open>fault\<close>, and a function
  that can reach it returns \<open>fault + 'a\<close>; no state is attributed to a faulted run.
  The subtraction and \<^verbatim>\<open>abs\<close> of line 300 wrap around instead of faulting, which
  does not matter on labels that pass the subscripts of line 302; the remainder
  faults on a zero divisor and on the least \<^verbatim>\<open>int\<close> divided by \<open>-1\<close>. The global
  \<^verbatim>\<open>SIMULATED_DATA\<close> is never assigned after its initialisation and is a field of the
  \<open>config\<close>, with the network, the data set and the lifetime model. The LCD and the
  console are the sequences of driver calls, one \<open>log_msg\<close> per call of \<^verbatim>\<open>printf\<close>. What
  the environment supplies in an iteration (\<^verbatim>\<open>rand()\<close>, the ADC reading, the
  accelerometer's output) is a \<open>cycle_input\<close>. Where C++ leaves the order of
  evaluation open (the two subscripts in the arguments of one \<^verbatim>\<open>printf\<close>), the model
  evaluates from left to right; the order matters only for which fault is reported
  when both are out of range. The subscripts of \<^verbatim>\<open>Warning_UI\<close> are evaluated before its
  LED writes, so a call that faults has no effect on the LEDs. In the scheduler the
  acquisition thread's work up to \<^verbatim>\<open>Warning_UI\<close> is one step, which is sound for the
  red LED and the flag, since that work touches neither; starting the acquisition
  thread and the return of \<^verbatim>\<open>main\<close> are one step as well. Under \<open>Retain\<close> the dead array
  reads back unchanged although \<^verbatim>\<open>printf\<close> runs in between: an assumed semantics for
  undefined behaviour, under which the theorems for real mode say what the target
  does at best. The display \<open>lcd_text\<close> replays the LCD calls: a string written
  without a preceding \<^verbatim>\<open>Clear\<close> leaves the tail of a longer one; the width of the glass
  is not modelled.

  \<^bold>\<open>Bounds.\<close> No definition uses fuel. The two endless loops are unrolled by their
  callers: \<open>run_cycles\<close> and \<open>exec\<close> recurse over a finite list of inputs or actions,
  which stands for a prefix of the endless run, and the theorems about them hold for
  lists of every length. Timing (\<^verbatim>\<open>wait\<close>) is not modelled: a \<^verbatim>\<open>wait\<close> is a point where
  another thread may run.

  \<^bold>\<open>Witnesses.\<close> The theorems with hypotheses are instantiated at a small
  configuration (\<open>demo_cfg\<close> in \<open>Acquisition\<close>: three samples, a network that
  thresholds the temperature feature) and at the reset state of the accelerometer.

  \<^bold>\<open>Not modelled.\<close> The drivers (mbed, ADXL345, LCD glass), the generated network
  \<^verbatim>\<open>DNN_model.hpp\<close> and the data set \<^verbatim>\<open>SampleData.h\<close> are not part of \<^verbatim>\<open>src/\<close>; the
  development treats them through their interfaces. Rounding of \<^verbatim>\<open>float\<close> values, the
  formatting of \<^verbatim>\<open>printf\<close>, thread priorities and fairness of the scheduler are
  abstracted: no liveness of the blinker is claimed.

  \<^bold>\<open>Open.\<close> Which levels of the red LED are reachable under preemption beyond the
  two races shown, the specification's order of writes as a machine of its own
  with its safety under atomic blinker iterations, and runs of several real-mode
  iterations over the reused stack cells are not yet part of the development.
\<close>

section \<open>From power-on to the panel\<close>

text \<open>
  Claim C13. From a prediction to the panel, through all components. In simulated
  mode, from any state of a cooperative run, an iteration whose drawn sample the
  network labels with a zone returns, it has cleared the LCD and written the zone's
  text, which the LCD then shows, and the
  LEDs and the blink flag are those the specification's table gives for the zone,
  except for \<open>FAULT\<close>, where they are left as they were.
\<close>

theorem prediction_to_panel:
  assumes "coop cfg dev s" and "SIMULATED_DATA cfg" and "dataset_ok (samples cfg)"
    and "0 \<le> sint (rand_value inp)"
    and "dnn cfg (input_data_array (samples cfg) ! draw (samples cfg) (rand_value inp))
         = zone_code z"
  shows "\<exists>s'. acq_iteration cfg inp s = Inr s'
     \<and> lcd (shared s') = lcd (shared s) @ [LCD_Clear, LCD_DisplayString (zone_label z)]
     \<and> lcd_text (lcd (shared s')) = Some (zone_label z)
     \<and> leds (shared s') = (if z = FAULT then leds (shared s)
          else indicator_leds (spec_indicator (zone_code z)))"
proof -
  from coop_steady [OF assms(1)] have a: "acq_at s = A_Loop" by (simp add: steady_def)
  let ?s' = "projr (acq_iteration cfg inp s)"
  from assms(5) have v: "valid_label (dnn cfg (input_data_array (samples cfg) !
      draw (samples cfg) (rand_value inp)))" by simp
  note it = acq_iteration_simulated [OF a assms(2-4) v]
  from it(1) a have c: "acq_cycle cfg inp (shared s) = Inr (shared ?s')"
    by (auto simp: acq_iteration_Loop rbind_eq_Inr_iff)
  from it(2) assms(5) have l: "pred_label (shared ?s') = zone_code z" by simp
  from acq_cycle_panel(1,2) [OF c] l
  have "lcd (shared ?s') = lcd (shared s) @ [LCD_Clear, LCD_DisplayString (zone_label z)]
    \<and> lcd_text (lcd (shared ?s')) = Some (zone_label z)
    \<and> leds (shared ?s') = (if z = FAULT then leds (shared s)
          else indicator_leds (spec_indicator (zone_code z)))"
    by (cases z) (simp_all add: code_indicator_def spec_indicator_def time_zone_labels_def)
  with it(1) show ?thesis by blast
qed

theorem prediction_to_panel_witness:
  "lcd_text (lcd (shared (projr (acq_iteration (demo_cfg True Strict) (demo_rand 2)
      (boot (demo_cfg True Strict) adxl345_reset))))) = Some ''NORMAL''
   \<and> leds (shared (projr (acq_iteration (demo_cfg True Strict) (demo_rand 2)
      (boot (demo_cfg True Strict) adxl345_reset)))) = (True, False, False)"
proof -
  let ?C = "demo_cfg True Strict"
  have c: "coop ?C adxl345_reset (boot ?C adxl345_reset)" by (rule coop.booted)
  have z: "dnn ?C (input_data_array (samples ?C) ! draw (samples ?C) (rand_value (demo_rand 2)))
      = zone_code NORMAL" by simp
  from prediction_to_panel [OF c _ _ _ z] show ?thesis
    by (auto simp: spec_indicator_def)
qed

text \<open>
  Claim C15. A label outside 0..5 ends the acquisition thread's defined behaviour:
  the iteration subscripts the table of zone texts out of range. No LED is
  guaranteed and no later iteration runs; the specification's state with both LEDs
  off and the text \<^verbatim>\<open>UNKNOWN\<close> does not exist in the program.
\<close>

theorem invalid_label_stops_acquisition:
  assumes "coop cfg dev s" and "SIMULATED_DATA cfg" and "dataset_ok (samples cfg)"
    and "0 \<le> sint (rand_value inp)"
    and "\<not> valid_label (dnn cfg (input_data_array (samples cfg) !
           draw (samples cfg) (rand_value inp)))"
  shows "acq_iteration cfg inp s = Inl (IndexOutOfRange
     (dnn cfg (input_data_array (samples cfg) ! draw (samples cfg) (rand_value inp))) 6)"
proof -
  from coop_steady [OF assms(1)] have a: "acq_at s = A_Loop" by (simp add: steady_def)
  from dataset_ok_draw(4) [OF assms(3,4)] assms(5) show ?thesis
    by (simp add: acq_iteration_Loop [OF a] acq_cycle_simulated_eq [OF assms(2-4)] Let_def
        Warning_UI_invalid)
qed

theorem invalid_label_stops_acquisition_witness:
  "acq_iteration (demo_cfg True Strict\<lparr>dnn := \<lambda>xs. 99\<rparr>) (demo_rand 2)
     (boot (demo_cfg True Strict\<lparr>dnn := \<lambda>xs. 99\<rparr>) adxl345_reset) = Inl (IndexOutOfRange 99 6)"
proof -
  let ?C = "demo_cfg True Strict\<lparr>dnn := \<lambda>xs. 99\<rparr>"
  have c: "coop ?C adxl345_reset (boot ?C adxl345_reset)" by (rule coop.booted)
  have v: "\<not> valid_label (dnn ?C (input_data_array (samples ?C) !
      draw (samples ?C) (rand_value (demo_rand 2))))"
    by (simp add: valid_label_def time_prediction_zones_def)
  from invalid_label_stops_acquisition [OF c _ _ _ v] show ?thesis
    by (simp add: demo_cfg_def)
qed

text \<open>
  Claim C14. Real mode from power-on. After \<^verbatim>\<open>main\<close> has run, the first iteration
  under the lifetime rules of C++ faults on the dangling pointer at the bottom of
  the thread's stack. Where stale memory is readable it returns with the features
  \<open>(0, 0, t, x, y, z)\<close> in the sensor buffer, the prediction made from them, and the
  accelerometer configured by \<^verbatim>\<open>Initialise_Sensors\<close> and measuring.
\<close>

theorem real_mode_power_on:
  assumes "\<not> SIMULATED_DATA cfg" and "ADXL345_output inp = (x, y, z)"
    and "dataset_ok (samples cfg)" and "label_total (dnn cfg)"
  shows "case lifetime cfg of
           Strict \<Rightarrow> acq_iteration cfg inp (boot cfg dev) = Inl (DanglingPointer 0)
         | Retain \<Rightarrow> (\<exists>s. acq_iteration cfg inp (boot cfg dev) = Inr s
             \<and> sensor_data (shared s) = [0, 0, 48.9796 * LM35_sample inp, real_of_int (sint x),
                  real_of_int (sint y), real_of_int (sint z)]
             \<and> pred_label (shared s) = dnn cfg (sensor_data (shared s))
             \<and> configured (accelerometer (shared s)) \<and> measuring (accelerometer (shared s)))"
proof (cases "lifetime cfg")
  case Strict
  with assms(1) show ?thesis
    by (simp add: acq_iteration_Loop acq_cycle_Strict stack_init_def)
next
  case Retain
  let ?b = "boot cfg dev"
  have "is_ok (acq_cycle cfg inp (shared ?b))"
    by (rule acq_cycle_total) (simp_all add: assms Retain)
  then obtain p where p: "acq_cycle cfg inp (shared ?b) = Inr p" by (auto simp: is_ok_iff)
  then have i: "acq_iteration cfg inp ?b = Inr (?b\<lparr>shared := p, acq_at := A_Loop\<rparr>)"
    by (simp add: acq_iteration_Loop)
  from acq_cycle_real_Inr [OF assms(1) _ assms(2) p] assms(1)
  have "sensor_data p = [0, 0, 48.9796 * LM35_sample inp, real_of_int (sint x),
       real_of_int (sint y), real_of_int (sint z)]
     \<and> pred_label p = dnn cfg (sensor_data p) \<and> measuring (accelerometer p)
     \<and> configured (accelerometer p)"
    by (simp add: configured_def ADXL345_3200HZ_def)
  with i Retain show ?thesis by simp
qed

theorem real_mode_power_on_witness:
  "acq_iteration (demo_cfg False Strict) demo_input (boot (demo_cfg False Strict) adxl345_reset)
     = Inl (DanglingPointer 0)
   \<and> sensor_data (shared (projr (acq_iteration (demo_cfg False Retain) demo_input
        (boot (demo_cfg False Retain) adxl345_reset)))) = [0, 0, 24.4898, 10, - 20, 30]"
  using real_mode_power_on [of "demo_cfg False Strict" demo_input 10 "- 20" 30 adxl345_reset]
    real_mode_power_on [of "demo_cfg False Retain" demo_input 10 "- 20" 30 adxl345_reset]
  by auto

end
